theory Spec2Isabelle
  imports Complex_Main
begin

section \<open>Errors and tensors\<close>

text \<open>
  The head is Python over torch tensors.  Tensor entries are idealised as real numbers;
  integer tensors (labels) are \<open>int\<close>, index tensors are \<open>nat\<close> lists, a tensor of
  shape \<open>(N, k)\<close> is a list of rows and one of shape \<open>(N, 4)\<close> a list of boxes.  Every
  exception the source can raise is a value \<open>Inl e\<close> of the result; \<open>NonFinite\<close> is no
  exception but marks a division of a tensor by a zero stride, after which torch computes
  with infinite or undefined entries that the real numbers do not have.
\<close>

datatype error = AssertionError | IndexError | ValueError | RuntimeError | NonFinite

definition ebind :: "error + 'a \<Rightarrow> ('a \<Rightarrow> error + 'b) \<Rightarrow> error + 'b" where
  "ebind m f = (case m of Inl e \<Rightarrow> Inl e | Inr x \<Rightarrow> f x)"

text \<open>
  \<open>t.reshape(-1, k)\<close> on the row-major entries \<open>xs\<close> of \<open>t\<close>: torch raises a
  RuntimeError when \<open>k = 0\<close> or when the number of entries is not a multiple of \<open>k\<close>.
\<close>

definition chunks :: "nat \<Rightarrow> 'a list \<Rightarrow> 'a list list" where
  "chunks k xs = map (\<lambda>i. take k (drop (i * k) xs)) [0..<length xs div k]"

definition reshape_rows :: "nat \<Rightarrow> 'a list \<Rightarrow> error + 'a list list" where
  "reshape_rows k xs =
     (if k = 0 \<or> length xs mod k \<noteq> 0 then Inl RuntimeError else Inr (chunks k xs))"

section \<open>Integral: the expectation of the softmax distribution\<close>

text \<open>\<open>torch.linspace(a, b, steps)\<close>.\<close>

definition linspace :: "real \<Rightarrow> real \<Rightarrow> nat \<Rightarrow> real list" where
  "linspace a b steps =
     (if steps = 1 then [a]
      else map (\<lambda>i. a + real i * ((b - a) / real (steps - 1))) [0..<steps])"

text \<open>The buffer \<open>project\<close> registered by \<open>Integral.__init__\<close>.\<close>

definition project :: "nat \<Rightarrow> real list" where
  "project reg_max = linspace 0 (real reg_max) (reg_max + 1)"

text \<open>\<open>F.softmax(., dim=1)\<close> on one row.\<close>

definition softmax :: "real list \<Rightarrow> real list" where
  "softmax v = map (\<lambda>x. exp x / sum_list (map exp v)) v"

text \<open>\<open>F.linear(x, w)\<close> with a one-dimensional weight \<open>w\<close>, on one row of \<open>x\<close>.\<close>

definition F_linear :: "real list \<Rightarrow> real list \<Rightarrow> real" where
  "F_linear row w = sum_list (map2 (*) row w)"

text \<open>
  \<open>Integral.forward\<close>: \<open>x\<close> has shape \<open>(N, 4*(reg_max+1))\<close>; the result has shape
  \<open>(N, 4)\<close>.
\<close>

definition integral_forward :: "nat \<Rightarrow> real list list \<Rightarrow> error + real list list" where
  "integral_forward reg_max x =
     ebind (reshape_rows (reg_max + 1) (concat x)) (\<lambda>rows.
       let p = map softmax rows;
           y = map (\<lambda>r. F_linear r (project reg_max)) p
       in reshape_rows 4 y)"

section \<open>Tensor operations used by the head\<close>

type_synonym box = "real \<times> real \<times> real \<times> real"

text \<open>
  A prediction tensor of shape \<open>(N, C, H, W)\<close>: its dimensions and its entries in
  row-major order.
\<close>

record tensor4 =
  dims :: "nat \<times> nat \<times> nat \<times> nat"
  entries :: "real list"

text \<open>
  \<open>t.permute(0, 2, 3, 1)\<close>: the entry at \<open>(n, h, w, c)\<close> of the result is the entry at
  \<open>(n, c, h, w)\<close> of \<open>t\<close>.  A record whose entries do not fill its dimensions is not a
  tensor and is rejected.
\<close>

definition permute_0231 :: "tensor4 \<Rightarrow> error + tensor4" where
  "permute_0231 t =
     (case dims t of (n, c, h, w) \<Rightarrow>
        if length (entries t) \<noteq> n * c * h * w then Inl RuntimeError
        else Inr \<lparr>dims = (n, h, w, c),
                  entries = concat (map (\<lambda>i. concat (map (\<lambda>y. concat (map (\<lambda>x.
                      map (\<lambda>ch. entries t ! (((i * c + ch) * h + y) * w + x)) [0..<c])
                    [0..<w])) [0..<h])) [0..<n])\<rparr>)"

text \<open>\<open>mask.nonzero().squeeze(1)\<close>: the positions where the mask holds, ascending.\<close>

definition nonzero :: "bool list \<Rightarrow> nat list" where
  "nonzero m = filter (\<lambda>i. m ! i) [0..<length m]"

text \<open>\<open>t[inds]\<close> for an index tensor: an index out of range raises.\<close>

definition index_by :: "'a list \<Rightarrow> nat list \<Rightarrow> error + 'a list" where
  "index_by xs inds =
     (if \<forall>i\<in>set inds. i < length xs then Inr (map (\<lambda>i. xs ! i) inds) else Inl IndexError)"

text \<open>
  The right-hand side of an indexed assignment must have one value per index, or one
  value in all, which is then broadcast.
\<close>

definition broadcast_to :: "nat \<Rightarrow> 'a list \<Rightarrow> error + 'a list" where
  "broadcast_to n vs =
     (if length vs = n then Inr vs
      else case vs of [v] \<Rightarrow> Inr (replicate n v) | _ \<Rightarrow> Inl RuntimeError)"

text \<open>\<open>t[inds] = vs\<close>.\<close>

definition index_put :: "'a list \<Rightarrow> nat list \<Rightarrow> 'a list \<Rightarrow> error + 'a list" where
  "index_put xs inds vs =
     (if \<forall>i\<in>set inds. i < length xs
      then ebind (broadcast_to (length inds) vs) (\<lambda>ws.
             Inr (fold (\<lambda>(i, v) acc. acc[i := v]) (zip inds ws) xs))
      else Inl IndexError)"

text \<open>\<open>t[inds] = v\<close> for one value \<open>v\<close>.\<close>

definition index_fill :: "'a list \<Rightarrow> nat list \<Rightarrow> 'a \<Rightarrow> error + 'a list" where
  "index_fill xs inds v =
     (if \<forall>i\<in>set inds. i < length xs
      then Inr (fold (\<lambda>i acc. acc[i := v]) inds xs)
      else Inl IndexError)"

definition sigmoid :: "real \<Rightarrow> real" where
  "sigmoid x = 1 / (1 + exp (- x))"

text \<open>\<open>t.max(dim=1)[0]\<close>: torch raises on a row without entries.\<close>

definition max_dim1 :: "real list list \<Rightarrow> error + real list" where
  "max_dim1 rows =
     (if \<exists>r\<in>set rows. r = [] then Inl RuntimeError
      else Inr (map (\<lambda>r. fold max (tl r) (hd r)) rows))"

text \<open>
  Division of a tensor by \<open>stride[0]\<close>.  With a zero stride torch goes on with infinite
  or undefined entries; the real-number model has no such values and stops there.
\<close>

definition div_pairs :: "(real \<times> real) list \<Rightarrow> nat \<Rightarrow> error + (real \<times> real) list" where
  "div_pairs ps s =
     (if s = 0 then Inl NonFinite else Inr (map (\<lambda>(x, y). (x / real s, y / real s)) ps))"

definition div_boxes :: "box list \<Rightarrow> nat \<Rightarrow> error + box list" where
  "div_boxes bs s =
     (if s = 0 then Inl NonFinite
      else Inr (map (\<lambda>(x1, y1, x2, y2). (x1 / real s, y1 / real s, x2 / real s, y2 / real s)) bs))"

text \<open>\<open>w[:, None].expand(-1, 4).reshape(-1)\<close>.\<close>

definition expand4 :: "real list \<Rightarrow> real list" where
  "expand4 w = concat (map (replicate 4) w)"

section \<open>The head and its collaborators\<close>

record sampling_result =
  sr_pos_inds :: "nat list"
  sr_neg_inds :: "nat list"
  sr_pos_gt_bboxes :: "box list"
  sr_pos_assigned_gt_inds :: "nat list"

record img_meta =
  img_shape :: "nat list"

text \<open>
  The value of one call of \<open>self._get_target_single\<close>, the per-image routine that
  \<open>get_targets\<close> applies to every image of the batch.  The class does not define this
  method (it is a parameter of the head, below), and what \<open>get_targets\<close> does with the
  results fixes their form: they are unpacked into fourteen lists \<open>(all_anchors,
  all_labels, all_label_weights, all_bbox_targets, all_bbox_weights, pos_inds_list,
  neg_inds_list, all_labels_neg, all_label_weights_neg, all_bbox_targets_neg,
  all_bbox_weights_neg, pos_inds_list_neg, neg_inds_list_neg, all_assigned_neg)\<close>, every
  entry of \<open>all_labels\<close> is tested for \<open>None\<close>, and after that test the entries are
  read as arrays.  A result is either the tuple of the fourteen arrays of one image, or
  a tuple of \<open>k\<close> entries of \<open>None\<close>, the sentinel of an image without targets, of
  which \<open>get_targets\<close> reads no more than its length and its entry for the labels.
\<close>

record img_targets =
  t_anchors :: "box list"
  t_labels :: "int list"
  t_label_weights :: "real list"
  t_bbox_targets :: "box list"
  t_bbox_weights :: "box list"
  t_pos_inds :: "nat list"
  t_neg_inds :: "nat list"
  t_labels_neg :: "int list"
  t_label_weights_neg :: "real list"
  t_bbox_targets_neg :: "box list"
  t_bbox_weights_neg :: "box list"
  t_pos_inds_neg :: "nat list"
  t_neg_inds_neg :: "nat list"
  t_assigned_neg :: "real list"

datatype per_image = AllNone nat | Targets img_targets

text \<open>
  The attributes of \<open>self\<close> that the loss and target code reads.  The loss kernels, the
  assigner, the sampler and the anchor generator are built from configuration outside this
  file; they are parameters here, and each may raise.  \<open>'ar\<close> is the assigner's result
  type; \<open>ag_num_levels\<close> and \<open>ag_strides\<close> are the attributes \<open>num_levels\<close> and
  \<open>strides\<close> of \<open>self.anchor_generator\<close>.  \<open>get_target_single\<close> is the method
  \<open>self._get_target_single\<close>, which this file calls and does not define: it is a
  parameter too, called with the seven per-image arguments, \<open>label_channels\<close> and
  \<open>unmap_outputs\<close>.  \<open>allowed_border\<close> is the border margin of the training
  configuration.
\<close>

record 'ar head =
  num_classes :: int
  cls_out_channels :: nat
  use_sigmoid_cls :: bool
  reg_max :: nat
  loss_cls :: "real list list \<Rightarrow> int list \<times> int list \<times> nat list \<times> real list \<Rightarrow>
               real list \<Rightarrow> real \<Rightarrow> error + real"
  loss_bbox :: "box list \<Rightarrow> box list \<Rightarrow> real list \<Rightarrow> real \<Rightarrow> error + real"
  loss_dfl :: "real list list \<Rightarrow> real list \<Rightarrow> real list \<Rightarrow> real \<Rightarrow> error + real"
  assign_pos :: "box list \<Rightarrow> nat list \<Rightarrow> box list \<Rightarrow> box list option \<Rightarrow> int list option \<Rightarrow>
                 error + 'ar"
  assign_neg :: "box list \<Rightarrow> nat list \<Rightarrow> box list \<Rightarrow> box list option \<Rightarrow> int list option \<Rightarrow>
                 error + 'ar \<times> real list"
  sample :: "'ar \<Rightarrow> box list \<Rightarrow> box list \<Rightarrow> error + sampling_result"
  allowed_border :: int
  ag_num_levels :: nat
  ag_strides :: "(nat \<times> nat) list"
  get_anchors :: "(nat \<times> nat) list \<Rightarrow> img_meta list \<Rightarrow>
                  error + box list list list \<times> bool list list list"
  get_target_single :: "box list \<Rightarrow> bool list \<Rightarrow> nat list \<Rightarrow> box list \<Rightarrow>
                        box list option \<Rightarrow> int list option \<Rightarrow> img_meta \<Rightarrow> nat \<Rightarrow> bool \<Rightarrow>
                        error + per_image"

text \<open>The functions imported from \<open>mmdet.core\<close> that are taken as parameters.\<close>

record core =
  anchor_inside_flags :: "box list \<Rightarrow> bool list \<Rightarrow> nat list \<Rightarrow> int \<Rightarrow> error + bool list"
  distance2bbox :: "(real \<times> real) list \<Rightarrow> real list list \<Rightarrow> error + box list"
  bbox2distance :: "(real \<times> real) list \<Rightarrow> box list \<Rightarrow> nat \<Rightarrow> error + real list list"
  bbox_overlaps :: "box list \<Rightarrow> box list \<Rightarrow> error + real list"

section \<open>The loss of one scale level\<close>

text \<open>\<open>GFLHead.anchor_center\<close>.\<close>

definition anchor_center :: "box list \<Rightarrow> (real \<times> real) list" where
  "anchor_center anchors = map (\<lambda>(x1, y1, x2, y2). ((x2 + x1) / 2, (y2 + y1) / 2)) anchors"

text \<open>
  The foreground positions of a label vector: \<open>(labels >= 0) & (labels < bg_class_ind)\<close>.
\<close>

definition fg_inds :: "int list \<Rightarrow> int \<Rightarrow> nat list" where
  "fg_inds labels bg_class_ind = nonzero (map (\<lambda>l. 0 \<le> l \<and> l < bg_class_ind) labels)"

text \<open>
  The positive stream of \<open>loss_single\<close> (the first \<open>if len(pos_inds) > 0\<close>): it yields
  \<open>loss_bbox\<close>, \<open>loss_dfl\<close>, \<open>weight_targets\<close> and the updated \<open>score\<close>.  The
  zero-dimensional tensor \<open>bbox_pred.new_tensor(0)\<close> is the one-entry list \<open>[0]\<close>.
\<close>

definition pos_stream ::
  "'ar head \<Rightarrow> core \<Rightarrow> nat \<times> nat \<Rightarrow> box list \<Rightarrow> real list list \<Rightarrow> real list list \<Rightarrow>
   box list \<Rightarrow> nat list \<Rightarrow> real list \<Rightarrow> error + real \<times> real \<times> real list \<times> real list" where
  "pos_stream self c stride anchors cls_score bbox_pred bbox_targets pos_inds score =
     (if length pos_inds > 0 then
        ebind (index_by bbox_targets pos_inds) (\<lambda>pos_bbox_targets.
        ebind (index_by bbox_pred pos_inds) (\<lambda>pos_bbox_pred.
        ebind (index_by anchors pos_inds) (\<lambda>pos_anchors.
        ebind (div_pairs (anchor_center pos_anchors) (fst stride)) (\<lambda>pos_anchor_centers.
        ebind (max_dim1 (map (map sigmoid) cls_score)) (\<lambda>top.
        ebind (index_by top pos_inds) (\<lambda>weight_targets.
        ebind (integral_forward (reg_max self) pos_bbox_pred) (\<lambda>pos_bbox_pred_corners.
        ebind (distance2bbox c pos_anchor_centers pos_bbox_pred_corners) (\<lambda>pos_decode_bbox_pred.
        ebind (div_boxes pos_bbox_targets (fst stride)) (\<lambda>pos_decode_bbox_targets.
        ebind (bbox_overlaps c pos_decode_bbox_pred pos_decode_bbox_targets) (\<lambda>overlaps.
        ebind (index_put score pos_inds overlaps) (\<lambda>score'.
        ebind (reshape_rows (reg_max self + 1) (concat pos_bbox_pred)) (\<lambda>pred_corners.
        ebind (bbox2distance c pos_anchor_centers pos_decode_bbox_targets (reg_max self))
          (\<lambda>distances.
        let target_corners = concat distances in
        ebind (loss_bbox self pos_decode_bbox_pred pos_decode_bbox_targets weight_targets 1)
          (\<lambda>l_bbox.
        ebind (loss_dfl self pred_corners target_corners (expand4 weight_targets) 4)
          (\<lambda>l_dfl.
        Inr (l_bbox, l_dfl, weight_targets, score'))))))))))))))))
      else Inr (sum_list (concat bbox_pred) * 0, sum_list (concat bbox_pred) * 0, [0], score))"

text \<open>
  The negative stream of \<open>loss_single\<close> (the second \<open>if len(pos_inds_neg) > 0\<close>): it
  yields \<open>loss_bbox_neg\<close>, \<open>loss_dfl_neg\<close> and \<open>weight_targets_neg\<close>.
\<close>

definition neg_stream ::
  "'ar head \<Rightarrow> core \<Rightarrow> nat \<times> nat \<Rightarrow> box list \<Rightarrow> real list list \<Rightarrow> real list list \<Rightarrow>
   box list \<Rightarrow> nat list \<Rightarrow> real list \<Rightarrow> nat list \<Rightarrow> error + real \<times> real \<times> real list" where
  "neg_stream self c stride anchors cls_score bbox_pred bbox_targets_neg pos_inds_neg
      assigned_neg remain_inds =
     (if length pos_inds_neg > 0 then
        ebind (index_by bbox_targets_neg pos_inds_neg) (\<lambda>pos_bbox_targets_neg.
        ebind (index_by bbox_pred pos_inds_neg) (\<lambda>pos_bbox_pred_neg.
        ebind (index_by anchors pos_inds_neg) (\<lambda>pos_anchors_neg.
        ebind (div_pairs (anchor_center pos_anchors_neg) (fst stride)) (\<lambda>pos_anchor_centers_neg.
        ebind (max_dim1 (map (map sigmoid) cls_score)) (\<lambda>top.
        let weight_targetss = map (\<lambda>m. if m < 0 then 1 else 0) top in
        ebind (index_by weight_targetss remain_inds) (\<lambda>indicator.
        ebind (index_by assigned_neg remain_inds) (\<lambda>remaining.
        let weight_targets_neg = map2 (+) indicator remaining in
        ebind (integral_forward (reg_max self) pos_bbox_pred_neg) (\<lambda>pos_bbox_pred_corners_neg.
        ebind (distance2bbox c pos_anchor_centers_neg pos_bbox_pred_corners_neg)
          (\<lambda>pos_decode_bbox_pred_neg.
        ebind (div_boxes pos_bbox_targets_neg (fst stride)) (\<lambda>pos_decode_bbox_targets_neg.
        ebind (reshape_rows (reg_max self + 1) (concat pos_bbox_pred_neg)) (\<lambda>pred_corners_neg.
        ebind (bbox2distance c pos_anchor_centers_neg pos_decode_bbox_targets_neg (reg_max self))
          (\<lambda>distances.
        let target_corners_neg = concat distances in
        ebind (loss_bbox self pos_decode_bbox_pred_neg pos_decode_bbox_targets_neg
                 weight_targets_neg 1) (\<lambda>l_bbox.
        ebind (loss_dfl self pred_corners_neg target_corners_neg (expand4 weight_targets_neg) 4)
          (\<lambda>l_dfl.
        Inr (0.125 * l_bbox, 0.125 * l_dfl, weight_targets_neg)))))))))))))))
      else Inr (sum_list (concat bbox_pred) * 0, sum_list (concat bbox_pred) * 0, [0]))"

text \<open>
  \<open>GFLHead.loss_single\<close>.  The target tensors of shape \<open>(N, A)\<close> and \<open>(N, A, 4)\<close> are
  lists over the images; the result is the tuple \<open>(loss_cls, loss_bbox, loss_dfl,
  weight_targets.sum(), loss_bbox_neg, loss_dfl_neg, weight_targets_neg.sum())\<close>.
\<close>

definition loss_single ::
  "'ar head \<Rightarrow> core \<Rightarrow> box list list \<Rightarrow> tensor4 \<Rightarrow> tensor4 \<Rightarrow> int list list \<Rightarrow>
   real list list \<Rightarrow> box list list \<Rightarrow> int list list \<Rightarrow> real list list \<Rightarrow> box list list \<Rightarrow>
   nat \<times> nat \<Rightarrow> real list list \<Rightarrow> real \<Rightarrow> real \<Rightarrow>
   error + real \<times> real \<times> real \<times> real \<times> real \<times> real \<times> real" where
  "loss_single self c anchors cls_score bbox_pred labels label_weights bbox_targets
      labels_neg label_weights_neg bbox_targets_neg stride assigned_neg
      num_total_samples num_total_samples_neg =
     (if fst stride \<noteq> snd stride then Inl AssertionError
      else
        let anchors = concat anchors in
        ebind (permute_0231 cls_score) (\<lambda>cls_perm.
        ebind (reshape_rows (cls_out_channels self) (entries cls_perm)) (\<lambda>cls_score.
        ebind (permute_0231 bbox_pred) (\<lambda>bbox_perm.
        ebind (reshape_rows (4 * (reg_max self + 1)) (entries bbox_perm)) (\<lambda>bbox_pred.
        let bbox_targets = concat bbox_targets;
            labels = concat labels;
            label_weights = concat label_weights;
            bbox_targets_neg = concat bbox_targets_neg;
            labels_neg = concat labels_neg;
            label_weights_neg = concat label_weights_neg;
            assigned_neg = concat assigned_neg;
            bg_class_ind = num_classes self;
            pos_inds = fg_inds labels bg_class_ind;
            pos_inds_neg = fg_inds labels_neg bg_class_ind;
            score = replicate (length labels) 0;
            remain_inds = nonzero (map (\<lambda>a. a > 0) assigned_neg)
        in
        ebind (pos_stream self c stride anchors cls_score bbox_pred bbox_targets pos_inds score)
          (\<lambda>(l_bbox, l_dfl, weight_targets, score).
        ebind (neg_stream self c stride anchors cls_score bbox_pred bbox_targets_neg pos_inds_neg
                 assigned_neg remain_inds)
          (\<lambda>(l_bbox_neg, l_dfl_neg, weight_targets_neg).
        ebind (loss_cls self cls_score (labels, labels_neg, pos_inds_neg, score) label_weights
                 num_total_samples)
          (\<lambda>l_cls.
        Inr (l_cls, l_bbox, l_dfl, sum_list weight_targets,
             l_bbox_neg, l_dfl_neg, sum_list weight_targets_neg)))))))))"

text \<open>
  The box loss and the distribution loss of a stream by the formulas of the positive
  stream, as functions of the stream's foreground positions \<open>inds\<close>, its box targets and
  its weights: the box loss of the decoded predictions against the targets with
  \<open>avg_factor = 1\<close>, and the distribution loss of the bin logits against the target
  distances with the weights repeated for the four sides and \<open>avg_factor = 4\<close>.
\<close>

definition stream_losses ::
  "'ar head \<Rightarrow> core \<Rightarrow> nat \<times> nat \<Rightarrow> box list \<Rightarrow> real list list \<Rightarrow> box list \<Rightarrow> nat list \<Rightarrow>
   real list \<Rightarrow> error + real \<times> real" where
  "stream_losses self c stride anchors bbox_pred targets inds weights =
     ebind (index_by targets inds) (\<lambda>stream_targets.
     ebind (index_by bbox_pred inds) (\<lambda>stream_pred.
     ebind (index_by anchors inds) (\<lambda>stream_anchors.
     ebind (div_pairs (anchor_center stream_anchors) (fst stride)) (\<lambda>centers.
     ebind (integral_forward (reg_max self) stream_pred) (\<lambda>corners.
     ebind (distance2bbox c centers corners) (\<lambda>decode_pred.
     ebind (div_boxes stream_targets (fst stride)) (\<lambda>decode_targets.
     ebind (reshape_rows (reg_max self + 1) (concat stream_pred)) (\<lambda>pred_corners.
     ebind (bbox2distance c centers decode_targets (reg_max self)) (\<lambda>distances.
     ebind (loss_bbox self decode_pred decode_targets weights 1) (\<lambda>l_bbox.
     ebind (loss_dfl self pred_corners (concat distances) (expand4 weights) 4) (\<lambda>l_dfl.
     Inr (l_bbox, l_dfl))))))))))))"

section \<open>Targets of one image\<close>

text \<open>The number of components of a result tuple of the per-image routine.\<close>

fun tuple_len :: "per_image \<Rightarrow> nat" where
  "tuple_len (AllNone k) = k"
| "tuple_len (Targets t) = 14"

text \<open>
  The test \<open>labels is None\<close> of \<open>get_targets\<close> on the second component of a result
  tuple, made once the tuples are known to have fourteen components.
\<close>

fun is_none_tuple :: "per_image \<Rightarrow> bool" where
  "is_none_tuple (AllNone k) = True"
| "is_none_tuple (Targets t) = False"

text \<open>\<open>torch.split(t, sizes)\<close>: the sizes must add up to the length of \<open>t\<close>.\<close>

fun split_at :: "'a list \<Rightarrow> nat list \<Rightarrow> 'a list list" where
  "split_at xs [] = []"
| "split_at xs (k # ks) = take k xs # split_at (drop k xs) ks"

definition torch_split :: "'a list \<Rightarrow> nat list \<Rightarrow> error + 'a list list" where
  "torch_split xs sizes =
     (if sum_list sizes \<noteq> length xs then Inl RuntimeError else Inr (split_at xs sizes))"

text \<open>\<open>GFLHead.get_num_level_anchors_inside\<close>.\<close>

definition get_num_level_anchors_inside :: "nat list \<Rightarrow> bool list \<Rightarrow> error + nat list" where
  "get_num_level_anchors_inside num_level_anchors inside_flags =
     ebind (torch_split inside_flags num_level_anchors) (\<lambda>split_inside_flags.
       Inr (map (\<lambda>flags. length (filter (\<lambda>f. f) flags)) split_inside_flags))"

section \<open>The dual target assigner\<close>

text \<open>
  The per-image routine as the specification describes it (4.2, Dual Target Assigner).
  It is one possible value of the parameter \<open>get_target_single\<close>; nothing about
  \<open>get_targets\<close> or \<open>loss\<close> below depends on it.
\<close>

text \<open>\<open>t[mask, :]\<close> for a boolean mask, which must be as long as \<open>t\<close>.\<close>

definition mask_select :: "'a list \<Rightarrow> bool list \<Rightarrow> error + 'a list" where
  "mask_select xs m =
     (if length m \<noteq> length xs then Inl IndexError
      else Inr (map fst (filter snd (zip xs m))))"

text \<open>
  Modelled from the spec: the placement that \<open>unmap\<close> of \<open>mmdet.core\<close> (not part of this
  file) performs: the data go to the positions of the retained anchors, in order, and
  the excluded positions are filled with \<open>fill\<close>.
\<close>

fun unmap_place :: "bool list \<Rightarrow> 'a list \<Rightarrow> 'a \<Rightarrow> 'a list" where
  "unmap_place [] ds fill = []"
| "unmap_place (True # m) (d # ds) fill = d # unmap_place m ds fill"
| "unmap_place (True # m) [] fill = fill # unmap_place m [] fill"
| "unmap_place (False # m) ds fill = fill # unmap_place m ds fill"

text \<open>
  Modelled from the spec: \<open>unmap\<close> of \<open>mmdet.core\<close>, which is not part of this file.  It
  maps the arrays of the retained anchors back to the original anchor index space,
  filling the excluded positions with \<open>fill\<close>: \<open>ret = full(count, fill); ret[inds] =
  data\<close>, where the mask must have \<open>count\<close> entries and the data one entry per retained
  anchor.
\<close>

definition unmap :: "'a list \<Rightarrow> nat \<Rightarrow> bool list \<Rightarrow> 'a \<Rightarrow> error + 'a list" where
  "unmap data count inds fill =
     (if length inds \<noteq> count then Inl IndexError
      else ebind (broadcast_to (length (filter (\<lambda>f. f) inds)) data) (\<lambda>ds.
             Inr (unmap_place inds ds fill)))"

text \<open>
  Modelled from the spec: the targets of one stream over the retained anchors, from the
  sampling of one matching (3, and steps 2 and 4 of 4.2).  The sampler passes the
  matching through: its positive indices are the matched anchors, its negative indices
  the unmatched ones.  An anchor without a match keeps the background label
  \<open>num_classes\<close>, a zero box target and a zero box weight; a matched anchor gets the
  class and the box of its ground truth and box weight one; the label weight is zero
  except at the sampled anchors, positive and negative, where it is one.  What the
  specification leaves open is written out: without ground-truth labels (\<open>None\<close>, which
  \<open>loss\<close> never passes) the class of a matched anchor is the first class.
\<close>

definition target_stream ::
  "'ar head \<Rightarrow> int list option \<Rightarrow> sampling_result \<Rightarrow> nat \<Rightarrow>
   error + box list \<times> box list \<times> int list \<times> real list" where
  "target_stream self gt_labels sampling_result num_valid_anchors =
     (let pos_inds = sr_pos_inds sampling_result;
          neg_inds = sr_neg_inds sampling_result
      in
      ebind (index_put (replicate num_valid_anchors (0, 0, 0, 0)) pos_inds
               (sr_pos_gt_bboxes sampling_result)) (\<lambda>bbox_targets.
      ebind (index_fill (replicate num_valid_anchors (0, 0, 0, 0)) pos_inds (1, 1, 1, 1))
        (\<lambda>bbox_weights.
      ebind (case gt_labels of
               None \<Rightarrow> Inr (replicate (length pos_inds) 0)
             | Some gl \<Rightarrow> index_by gl (sr_pos_assigned_gt_inds sampling_result))
        (\<lambda>classes.
      ebind (index_put (replicate num_valid_anchors (num_classes self)) pos_inds classes)
        (\<lambda>labels.
      ebind (index_fill (replicate num_valid_anchors 0) pos_inds 1) (\<lambda>label_weights.
      ebind (index_fill label_weights neg_inds 1) (\<lambda>label_weights.
      Inr (bbox_targets, bbox_weights, labels, label_weights))))))))"

text \<open>
  Modelled from the spec: steps 2 to 5 of 4.2 without the unmapping: the positive and the
  negative assignment over the retained anchors, each followed by the sampling step,
  and the two target streams.  The assigners are given the number of retained anchors of
  each level.
\<close>

definition assign_streams ::
  "'ar head \<Rightarrow> box list \<Rightarrow> bool list \<Rightarrow> nat list \<Rightarrow> box list \<Rightarrow> box list option \<Rightarrow>
   int list option \<Rightarrow> error + img_targets" where
  "assign_streams self anchors inside_flags num_level_anchors gt_bboxes gt_bboxes_ignore
      gt_labels =
     ebind (get_num_level_anchors_inside num_level_anchors inside_flags)
       (\<lambda>num_level_anchors_inside.
     ebind (assign_pos self anchors num_level_anchors_inside gt_bboxes gt_bboxes_ignore gt_labels)
       (\<lambda>assign_result.
     ebind (sample self assign_result anchors gt_bboxes) (\<lambda>sampling_result.
     ebind (assign_neg self anchors num_level_anchors_inside gt_bboxes gt_bboxes_ignore gt_labels)
       (\<lambda>(assign_result_neg, assigned_neg).
     ebind (sample self assign_result_neg anchors gt_bboxes) (\<lambda>sampling_result_neg.
     ebind (target_stream self gt_labels sampling_result (length anchors))
       (\<lambda>(bbox_targets, bbox_weights, labels, label_weights).
     ebind (target_stream self gt_labels sampling_result_neg (length anchors))
       (\<lambda>(bbox_targets_neg, bbox_weights_neg, labels_neg, label_weights_neg).
     Inr \<lparr>t_anchors = anchors, t_labels = labels, t_label_weights = label_weights,
          t_bbox_targets = bbox_targets, t_bbox_weights = bbox_weights,
          t_pos_inds = sr_pos_inds sampling_result, t_neg_inds = sr_neg_inds sampling_result,
          t_labels_neg = labels_neg, t_label_weights_neg = label_weights_neg,
          t_bbox_targets_neg = bbox_targets_neg, t_bbox_weights_neg = bbox_weights_neg,
          t_pos_inds_neg = sr_pos_inds sampling_result_neg,
          t_neg_inds_neg = sr_neg_inds sampling_result_neg,
          t_assigned_neg = assigned_neg\<rparr>)))))))"

text \<open>
  Modelled from the spec: the end of step 5 of 4.2: the ten per-anchor arrays are mapped
  back to the original anchor index space, the excluded positions filled with the
  background label and with zero weights and targets.  The index lists stay as they are.
\<close>

definition unmap_targets ::
  "'ar head \<Rightarrow> nat \<Rightarrow> bool list \<Rightarrow> img_targets \<Rightarrow> error + img_targets" where
  "unmap_targets self num_total_anchors inside_flags t =
     ebind (unmap (t_anchors t) num_total_anchors inside_flags (0, 0, 0, 0)) (\<lambda>anchors.
     ebind (unmap (t_labels t) num_total_anchors inside_flags (num_classes self)) (\<lambda>labels.
     ebind (unmap (t_label_weights t) num_total_anchors inside_flags 0) (\<lambda>label_weights.
     ebind (unmap (t_bbox_targets t) num_total_anchors inside_flags (0, 0, 0, 0))
       (\<lambda>bbox_targets.
     ebind (unmap (t_bbox_weights t) num_total_anchors inside_flags (0, 0, 0, 0))
       (\<lambda>bbox_weights.
     ebind (unmap (t_labels_neg t) num_total_anchors inside_flags (num_classes self))
       (\<lambda>labels_neg.
     ebind (unmap (t_label_weights_neg t) num_total_anchors inside_flags 0)
       (\<lambda>label_weights_neg.
     ebind (unmap (t_bbox_targets_neg t) num_total_anchors inside_flags (0, 0, 0, 0))
       (\<lambda>bbox_targets_neg.
     ebind (unmap (t_bbox_weights_neg t) num_total_anchors inside_flags (0, 0, 0, 0))
       (\<lambda>bbox_weights_neg.
     ebind (unmap (t_assigned_neg t) num_total_anchors inside_flags 0) (\<lambda>assigned_neg.
     Inr (t\<lparr>t_anchors := anchors, t_labels := labels, t_label_weights := label_weights,
            t_bbox_targets := bbox_targets, t_bbox_weights := bbox_weights,
            t_labels_neg := labels_neg, t_label_weights_neg := label_weights_neg,
            t_bbox_targets_neg := bbox_targets_neg, t_bbox_weights_neg := bbox_weights_neg,
            t_assigned_neg := assigned_neg\<rparr>)))))))))))"

text \<open>
  Modelled from the spec: the Dual Target Assigner of 4.2, the routine that the
  specification gives for \<open>_get_target_single\<close>, which this file does not define.  The
  anchors are filtered to those inside the valid image border; if none is inside, the
  result is the all-\<open>None\<close> sentinel, of the shape of a result; otherwise it is the
  fourteen arrays of the two streams over the retained anchors, mapped back to the
  original anchors when \<open>unmap_outputs\<close> holds.
\<close>

definition dual_target_assigner ::
  "'ar head \<Rightarrow> core \<Rightarrow> box list \<Rightarrow> bool list \<Rightarrow> nat list \<Rightarrow> box list \<Rightarrow> box list option \<Rightarrow>
   int list option \<Rightarrow> img_meta \<Rightarrow> nat \<Rightarrow> bool \<Rightarrow> error + per_image" where
  "dual_target_assigner self c flat_anchors valid_flags num_level_anchors gt_bboxes
      gt_bboxes_ignore gt_labels meta label_channels unmap_outputs =
     ebind (anchor_inside_flags c flat_anchors valid_flags (take 2 (img_shape meta))
              (allowed_border self)) (\<lambda>inside_flags.
     if \<not> list_ex (\<lambda>f. f) inside_flags then Inr (AllNone 14)
     else
       ebind (mask_select flat_anchors inside_flags) (\<lambda>anchors.
       ebind (assign_streams self anchors inside_flags num_level_anchors gt_bboxes
                gt_bboxes_ignore gt_labels) (\<lambda>t.
       ebind (if unmap_outputs then unmap_targets self (length flat_anchors) inside_flags t
              else Inr t) (\<lambda>t.
       Inr (Targets t)))))"

section \<open>Targets of a batch\<close>

text \<open>
  Modelled from the spec: \<open>multi_apply\<close> of \<open>mmdet.core\<close>, which is not part of this
  file.  It applies a function over the argument lists (as far as the shortest one goes)
  and turns the sequence of result tuples, one per call, into one list per tuple
  component: \<open>tuple(map(list, zip(*map(func, *args))))\<close>.  \<open>map_results\<close> is the sequence
  of the calls, which stops at the first exception.
\<close>

fun map_results :: "(error + 'a) list \<Rightarrow> error + 'a list" where
  "map_results [] = Inr []"
| "map_results (r # rs) = ebind r (\<lambda>x. ebind (map_results rs) (\<lambda>xs. Inr (x # xs)))"

text \<open>
  Modelled from the spec: the number of lists that the \<open>zip(*map_results)\<close> of
  \<open>multi_apply\<close> yields for result tuples of the given lengths: the length of the
  shortest tuple, and none without a result.
\<close>

fun num_components :: "nat list \<Rightarrow> nat" where
  "num_components [] = 0"
| "num_components [k] = k"
| "num_components (k # ks) = min k (num_components ks)"

text \<open>
  Modelled from the spec: the slices \<open>target[:, start:end]\<close> that \<open>images_to_levels\<close> of
  \<open>mmdet.core\<close> (not part of this file) takes, one per level, from the stacked arrays.
\<close>

fun level_slices :: "'a list list \<Rightarrow> nat \<Rightarrow> nat list \<Rightarrow> 'a list list list" where
  "level_slices target start [] = []"
| "level_slices target start (k # ks) =
     map (\<lambda>t. take k (drop start t)) target # level_slices target (start + k) ks"

text \<open>
  Modelled from the spec: \<open>images_to_levels\<close> of \<open>mmdet.core\<close>, which is not part of this
  file.  It stacks the per-image arrays (which must have one length) and re-partitions
  them into one array per level, preserving the anchor order within a level and the
  level order.
\<close>

definition images_to_levels :: "'a list list \<Rightarrow> nat list \<Rightarrow> error + 'a list list list" where
  "images_to_levels target num_levels =
     (case target of
        [] \<Rightarrow> Inl RuntimeError
      | t0 # ts \<Rightarrow>
          if list_ex (\<lambda>t. length t \<noteq> length t0) ts then Inl RuntimeError
          else Inr (level_slices target 0 num_levels))"

text \<open>\<open>torch.cat\<close> of a list of tensors, which must not be empty.\<close>

definition torch_cat :: "'a list list \<Rightarrow> error + 'a list" where
  "torch_cat ts = (if ts = [] then Inl RuntimeError else Inr (concat ts))"

text \<open>One round of the loop that concatenates the levels of an image.\<close>

definition cat_levels ::
  "box list list \<times> bool list list \<Rightarrow> error + box list \<times> bool list" where
  "cat_levels av =
     (case av of (anchors, flags) \<Rightarrow>
        if length anchors \<noteq> length flags then Inl AssertionError
        else ebind (torch_cat anchors) (\<lambda>a. ebind (torch_cat flags) (\<lambda>f. Inr (a, f))))"

record batch_targets =
  anchors_list :: "box list list list"
  labels_list :: "int list list list"
  label_weights_list :: "real list list list"
  bbox_targets_list :: "box list list list"
  bbox_weights_list :: "box list list list"
  num_total_pos :: nat
  num_total_neg :: nat
  labels_list_neg :: "int list list list"
  label_weights_list_neg :: "real list list list"
  bbox_targets_list_neg :: "box list list list"
  bbox_weights_list_neg :: "box list list list"
  num_total_pos_neg :: nat
  num_total_neg_neg :: nat
  assigned_neg_list :: "real list list list"

text \<open>
  The part of \<open>get_targets\<close> after the unpacking and the check for \<open>None\<close>: the counts
  and the split into levels.
\<close>

definition collect_targets :: "img_targets list \<Rightarrow> nat list \<Rightarrow> error + batch_targets" where
  "collect_targets ts num_level_anchors =
     (let total_pos = sum_list (map (\<lambda>t. max (length (t_pos_inds t)) 1) ts);
          total_neg = sum_list (map (\<lambda>t. max (length (t_neg_inds t)) 1) ts)
      in
      ebind (images_to_levels (map t_anchors ts) num_level_anchors) (\<lambda>anchors_l.
      ebind (images_to_levels (map t_labels ts) num_level_anchors) (\<lambda>labels_l.
      ebind (images_to_levels (map t_label_weights ts) num_level_anchors) (\<lambda>label_weights_l.
      ebind (images_to_levels (map t_bbox_targets ts) num_level_anchors) (\<lambda>bbox_targets_l.
      ebind (images_to_levels (map t_bbox_weights ts) num_level_anchors) (\<lambda>bbox_weights_l.
      ebind (images_to_levels (map t_assigned_neg ts) num_level_anchors) (\<lambda>assigned_neg_l.
      let total_pos_neg = sum_list (map (\<lambda>t. max (length (t_pos_inds_neg t)) 1) ts);
          total_neg_neg = sum_list (map (\<lambda>t. max (length (t_neg_inds_neg t)) 1) ts)
      in
      ebind (images_to_levels (map t_labels_neg ts) num_level_anchors) (\<lambda>labels_neg_l.
      ebind (images_to_levels (map t_label_weights_neg ts) num_level_anchors)
        (\<lambda>label_weights_neg_l.
      ebind (images_to_levels (map t_bbox_targets_neg ts) num_level_anchors)
        (\<lambda>bbox_targets_neg_l.
      ebind (images_to_levels (map t_bbox_weights_neg ts) num_level_anchors)
        (\<lambda>bbox_weights_neg_l.
      Inr \<lparr>anchors_list = anchors_l, labels_list = labels_l,
           label_weights_list = label_weights_l, bbox_targets_list = bbox_targets_l,
           bbox_weights_list = bbox_weights_l, num_total_pos = total_pos,
           num_total_neg = total_neg, labels_list_neg = labels_neg_l,
           label_weights_list_neg = label_weights_neg_l,
           bbox_targets_list_neg = bbox_targets_neg_l,
           bbox_weights_list_neg = bbox_weights_neg_l, num_total_pos_neg = total_pos_neg,
           num_total_neg_neg = total_neg_neg, assigned_neg_list = assigned_neg_l\<rparr>)))))))))))"

text \<open>The tuples of arrays among the results; past the test for \<open>None\<close> these are all.\<close>

fun the_targets :: "per_image list \<Rightarrow> img_targets list" where
  "the_targets [] = []"
| "the_targets (Targets t # rs) = t # the_targets rs"
| "the_targets (AllNone k # rs) = the_targets rs"

text \<open>
  The \<open>multi_apply\<close> of \<open>self._get_target_single\<close> over the images: one result tuple
  per image.
\<close>

definition per_image_results ::
  "'ar head \<Rightarrow> box list list \<Rightarrow> bool list list \<Rightarrow> nat list list \<Rightarrow> box list list \<Rightarrow>
   box list option list \<Rightarrow> int list option list \<Rightarrow> img_meta list \<Rightarrow> nat \<Rightarrow> bool \<Rightarrow>
   error + per_image list" where
  "per_image_results self anchor_list valid_flag_list num_level_anchors_list gt_bboxes_list
      gt_bboxes_ignore_list gt_labels_list img_metas label_channels unmap_outputs =
     map_results
       (map (\<lambda>(flat_anchors, valid_flags, num_level_anchors, gt_bboxes, gt_bboxes_ignore,
               gt_labels, meta).
               get_target_single self flat_anchors valid_flags num_level_anchors gt_bboxes
                 gt_bboxes_ignore gt_labels meta label_channels unmap_outputs)
          (zip anchor_list (zip valid_flag_list (zip num_level_anchors_list
             (zip gt_bboxes_list (zip gt_bboxes_ignore_list
                (zip gt_labels_list img_metas)))))))"

text \<open>
  \<open>GFLHead.get_targets\<close>.  The result \<open>Inr None\<close> is the return value \<open>None\<close>.  The
  assignment of the result of \<open>multi_apply\<close> to fourteen names raises a ValueError
  unless \<open>multi_apply\<close> yields fourteen lists.
\<close>

definition get_targets ::
  "'ar head \<Rightarrow> box list list list \<Rightarrow> bool list list list \<Rightarrow> box list list \<Rightarrow>
   img_meta list \<Rightarrow> box list list option \<Rightarrow> int list list option \<Rightarrow> nat \<Rightarrow> bool \<Rightarrow>
   error + batch_targets option" where
  "get_targets self anchor_list valid_flag_list gt_bboxes_list img_metas gt_bboxes_ignore_list
      gt_labels_list label_channels unmap_outputs =
     (let num_imgs = length img_metas in
      if \<not> (length anchor_list = length valid_flag_list \<and> length valid_flag_list = num_imgs)
      then Inl AssertionError
      else
        case anchor_list of
          [] \<Rightarrow> Inl IndexError
        | anchors0 # rest \<Rightarrow>
            let num_level_anchors = map length anchors0;
                num_level_anchors_list = replicate num_imgs num_level_anchors
            in
            ebind (map_results (map cat_levels (zip anchor_list valid_flag_list))) (\<lambda>cats.
            let anchor_list = map fst cats;
                valid_flag_list = map snd cats;
                gt_bboxes_ignore_list =
                  (case gt_bboxes_ignore_list of
                     None \<Rightarrow> replicate num_imgs None
                   | Some l \<Rightarrow> map Some l);
                gt_labels_list =
                  (case gt_labels_list of
                     None \<Rightarrow> replicate num_imgs None
                   | Some l \<Rightarrow> map Some l)
            in
            ebind (per_image_results self anchor_list valid_flag_list num_level_anchors_list
                     gt_bboxes_list gt_bboxes_ignore_list gt_labels_list img_metas
                     label_channels unmap_outputs)
              (\<lambda>results.
            if num_components (map tuple_len results) \<noteq> 14 then Inl ValueError
            else if list_ex is_none_tuple results then Inr None
            else
              ebind (collect_targets (the_targets results) num_level_anchors) (\<lambda>b.
              Inr (Some b)))))"

section \<open>The loss of the head\<close>

text \<open>
  Modelled from the spec: \<open>reduce_mean\<close> of \<open>mmdet.core\<close>, which is not part of this
  file: the mean of a scalar over the workers of the group.  \<open>peers\<close> are the values the
  other workers contribute to this reduction; a single worker has none.
\<close>

definition reduce_mean :: "real list \<Rightarrow> real \<Rightarrow> real" where
  "reduce_mean peers x = (x + sum_list peers) / real (length peers + 1)"

text \<open>The contributions of the other workers to the four reductions of one loss call.\<close>

record world =
  peers_num_total_pos :: "real list"
  peers_num_total_pos_neg :: "real list"
  peers_avg_factor :: "real list"
  peers_avg_factor_neg :: "real list"

text \<open>
  The quotient of a loss tensor and the Python float \<open>avg_factor\<close>.  Nothing raises on a
  zero divisor: the quotient is then infinite, or undefined for a zero loss.
\<close>

datatype tfloat = Fin real | NaN | PosInf | NegInf

definition true_divide :: "real \<Rightarrow> real \<Rightarrow> tfloat" where
  "true_divide x d =
     (if d \<noteq> 0 then Fin (x / d)
      else if x = 0 then NaN
      else if 0 < x then PosInf else NegInf)"

text \<open>The dictionary that \<open>loss\<close> returns.\<close>

record losses =
  losses_cls :: "real list"
  losses_bbox :: "tfloat list"
  losses_dfl :: "tfloat list"
  losses_bbox_neg :: "tfloat list"
  losses_dfl_neg :: "tfloat list"

text \<open>
  The two normalizers of the classification loss:
  \<open>max(reduce_mean(tensor(num_total_pos)).item(), 1.0)\<close>.
\<close>

definition num_total_samples_of :: "real list \<Rightarrow> nat \<Rightarrow> real" where
  "num_total_samples_of peers num_total = max (reduce_mean peers (real num_total)) 1.0"

text \<open>
  The \<open>multi_apply\<close> of \<open>loss_single\<close> over the levels: one result tuple per level.
\<close>

definition loss_levels ::
  "'ar head \<Rightarrow> core \<Rightarrow> batch_targets \<Rightarrow> tensor4 list \<Rightarrow> tensor4 list \<Rightarrow> real \<Rightarrow> real \<Rightarrow>
   error + (real \<times> real \<times> real \<times> real \<times> real \<times> real \<times> real) list" where
  "loss_levels self c tg cls_scores bbox_preds num_total_samples num_total_samples_neg =
     map_results
       (map (\<lambda>(anchors, cls_score, bbox_pred, labels, label_weights, bbox_targets, labels_neg,
               label_weights_neg, bbox_targets_neg, stride, assigned_neg).
               loss_single self c anchors cls_score bbox_pred labels label_weights bbox_targets
                 labels_neg label_weights_neg bbox_targets_neg stride assigned_neg
                 num_total_samples num_total_samples_neg)
          (zip (anchors_list tg) (zip cls_scores (zip bbox_preds (zip (labels_list tg)
             (zip (label_weights_list tg) (zip (bbox_targets_list tg) (zip (labels_list_neg tg)
                (zip (label_weights_list_neg tg) (zip (bbox_targets_list_neg tg)
                   (zip (ag_strides self) (assigned_neg_list tg))))))))))))"

text \<open>
  The end of \<open>loss\<close>: the weight sums of the levels are added, reduced over the workers,
  and divide the box and distribution losses of every level.
\<close>

definition normalize_losses ::
  "world \<Rightarrow> (real \<times> real \<times> real \<times> real \<times> real \<times> real \<times> real) list \<Rightarrow> error + losses" where
  "normalize_losses w outs =
     (if outs = [] then Inl ValueError
      else
        let l_cls = map (\<lambda>(lc, lb, ld, ws, lbn, ldn, wsn). lc) outs;
            l_bbox = map (\<lambda>(lc, lb, ld, ws, lbn, ldn, wsn). lb) outs;
            l_dfl = map (\<lambda>(lc, lb, ld, ws, lbn, ldn, wsn). ld) outs;
            avg_factor = map (\<lambda>(lc, lb, ld, ws, lbn, ldn, wsn). ws) outs;
            l_bbox_neg = map (\<lambda>(lc, lb, ld, ws, lbn, ldn, wsn). lbn) outs;
            l_dfl_neg = map (\<lambda>(lc, lb, ld, ws, lbn, ldn, wsn). ldn) outs;
            avg_factor_neg = map (\<lambda>(lc, lb, ld, ws, lbn, ldn, wsn). wsn) outs;
            avg_factor = sum_list avg_factor;
            avg_factor = reduce_mean (peers_avg_factor w) avg_factor;
            l_bbox = map (\<lambda>x. true_divide x avg_factor) l_bbox;
            l_dfl = map (\<lambda>x. true_divide x avg_factor) l_dfl;
            avg_factor_neg = sum_list avg_factor_neg;
            avg_factor_neg = reduce_mean (peers_avg_factor_neg w) avg_factor_neg;
            l_bbox_neg = map (\<lambda>x. true_divide x avg_factor_neg) l_bbox_neg;
            l_dfl_neg = map (\<lambda>x. true_divide x avg_factor_neg) l_dfl_neg
        in Inr \<lparr>losses_cls = l_cls, losses_bbox = l_bbox, losses_dfl = l_dfl,
                losses_bbox_neg = l_bbox_neg, losses_dfl_neg = l_dfl_neg\<rparr>)"

text \<open>The sizes \<open>featmap.size()[-2:]\<close> of the classification maps.\<close>

definition featmap_sizes :: "tensor4 list \<Rightarrow> (nat \<times> nat) list" where
  "featmap_sizes cls_scores =
     map (\<lambda>featmap. case dims featmap of (n, ch, h, wd) \<Rightarrow> (h, wd)) cls_scores"

text \<open>\<open>GFLHead.loss\<close>.  The result \<open>Inr None\<close> is the return value \<open>None\<close>.\<close>

definition loss ::
  "'ar head \<Rightarrow> core \<Rightarrow> world \<Rightarrow> tensor4 list \<Rightarrow> tensor4 list \<Rightarrow> box list list \<Rightarrow>
   int list list \<Rightarrow> img_meta list \<Rightarrow> box list list option \<Rightarrow> error + losses option" where
  "loss self c w cls_scores bbox_preds gt_bboxes gt_labels img_metas gt_bboxes_ignore =
     (if length (featmap_sizes cls_scores) \<noteq> ag_num_levels self then Inl AssertionError
      else if cls_scores = [] then Inl IndexError
      else
        ebind (get_anchors self (featmap_sizes cls_scores) img_metas)
          (\<lambda>(anchor_list, valid_flag_list).
        let label_channels = (if use_sigmoid_cls self then cls_out_channels self else 1) in
        ebind (get_targets self anchor_list valid_flag_list gt_bboxes img_metas
                 gt_bboxes_ignore (Some gt_labels) label_channels True) (\<lambda>cls_reg_targets.
        case cls_reg_targets of
          None \<Rightarrow> Inr None
        | Some tg \<Rightarrow>
            let num_total_samples =
                  num_total_samples_of (peers_num_total_pos w) (num_total_pos tg);
                num_total_samples_neg =
                  num_total_samples_of (peers_num_total_pos_neg w) (num_total_pos_neg tg)
            in
            ebind (loss_levels self c tg cls_scores bbox_preds num_total_samples
                     num_total_samples_neg) (\<lambda>outs.
            ebind (normalize_losses w outs) (\<lambda>d. Inr (Some d))))))"

section \<open>A small head for concrete runs\<close>

text \<open>
  One class, two bins per side, one level of stride 8 with the single anchor
  \<open>(0, 0, 8, 8)\<close>, which is valid in an image at least 8 pixels high.  The assigner matches
  nothing, the sampler passes the unmatched anchors through as negatives, and the loss
  kernels return the sum of their weights over \<open>avg_factor\<close>.  The per-image routine
  makes every anchor a background anchor of both streams, and returns fourteen \<open>None\<close>
  for an image without a valid anchor.
\<close>

definition example_head :: "unit head" where
  "example_head =
     \<lparr>num_classes = 1, cls_out_channels = 1, use_sigmoid_cls = True, reg_max = 1,
      loss_cls = (\<lambda>pred target weight avg_factor. Inr (sum_list weight / avg_factor)),
      loss_bbox = (\<lambda>pred target weight avg_factor. Inr (sum_list weight / avg_factor)),
      loss_dfl = (\<lambda>pred target weight avg_factor. Inr (sum_list weight / avg_factor)),
      assign_pos = (\<lambda>anchors nums gt_bboxes gt_bboxes_ignore gt_labels. Inr ()),
      assign_neg = (\<lambda>anchors nums gt_bboxes gt_bboxes_ignore gt_labels.
                      Inr ((), map (\<lambda>a. 0) anchors)),
      sample = (\<lambda>assign_result anchors gt_bboxes.
                  Inr \<lparr>sr_pos_inds = [], sr_neg_inds = [0..<length anchors],
                       sr_pos_gt_bboxes = [], sr_pos_assigned_gt_inds = []\<rparr>),
      allowed_border = - 1,
      ag_num_levels = 1, ag_strides = [(8, 8)],
      get_anchors = (\<lambda>featmap_sizes img_metas.
                       Inr (map (\<lambda>m. [[(0, 0, 8, 8)]]) img_metas,
                            map (\<lambda>m. [[case img_shape m of [] \<Rightarrow> False | h # r \<Rightarrow> 8 \<le> h]])
                              img_metas)),
      get_target_single = (\<lambda>flat_anchors valid_flags num_level_anchors gt_bboxes
                             gt_bboxes_ignore gt_labels meta label_channels unmap_outputs.
         if list_ex (\<lambda>f. f) valid_flags then
           Inr (Targets
             \<lparr>t_anchors = flat_anchors, t_labels = map (\<lambda>a. 1) flat_anchors,
              t_label_weights = map (\<lambda>a. 1) flat_anchors,
              t_bbox_targets = map (\<lambda>a. (0, 0, 0, 0)) flat_anchors,
              t_bbox_weights = map (\<lambda>a. (0, 0, 0, 0)) flat_anchors,
              t_pos_inds = [], t_neg_inds = [0..<length flat_anchors],
              t_labels_neg = map (\<lambda>a. 1) flat_anchors,
              t_label_weights_neg = map (\<lambda>a. 1) flat_anchors,
              t_bbox_targets_neg = map (\<lambda>a. (0, 0, 0, 0)) flat_anchors,
              t_bbox_weights_neg = map (\<lambda>a. (0, 0, 0, 0)) flat_anchors,
              t_pos_inds_neg = [], t_neg_inds_neg = [0..<length flat_anchors],
              t_assigned_neg = map (\<lambda>a. 0) flat_anchors\<rparr>)
         else Inr (AllNone 14))\<rparr>"

definition example_core :: core where
  "example_core =
     \<lparr>anchor_inside_flags = (\<lambda>flat_anchors valid_flags shape border. Inr valid_flags),
      distance2bbox = (\<lambda>points distances.
         Inr (map2 (\<lambda>(x, y) d. (x - d ! 0, y - d ! 1, x + d ! 2, y + d ! 3)) points distances)),
      bbox2distance = (\<lambda>points boxes max_dis.
         Inr (map2 (\<lambda>(x, y) (x1, y1, x2, y2). [x - x1, y - y1, x2 - x, y2 - y]) points boxes)),
      bbox_overlaps = (\<lambda>boxes1 boxes2. Inr (map (\<lambda>b. 1) boxes1))\<rparr>"

text \<open>The same head with the dual target assigner as its per-image routine.\<close>

definition assigner_head :: "unit head" where
  "assigner_head =
     example_head\<lparr>get_target_single := dual_target_assigner example_head example_core\<rparr>"

text \<open>A single worker: no other worker contributes to a reduction.\<close>

definition single_worker :: world where
  "single_worker =
     \<lparr>peers_num_total_pos = [], peers_num_total_pos_neg = [],
      peers_avg_factor = [], peers_avg_factor_neg = []\<rparr>"

text \<open>The predictions of one image on a \<open>1 \<times> 1\<close> feature map, all logits zero.\<close>

definition example_cls_score :: tensor4 where
  "example_cls_score = \<lparr>dims = (1, 1, 1, 1), entries = [0]\<rparr>"

definition example_bbox_pred :: tensor4 where
  "example_bbox_pred = \<lparr>dims = (1, 8, 1, 1), entries = [0, 0, 0, 0, 0, 0, 0, 0]\<rparr>"

text \<open>The predictions of two images on a \<open>1 \<times> 1\<close> feature map, all logits zero.\<close>

definition pair_cls_score :: tensor4 where
  "pair_cls_score = \<lparr>dims = (2, 1, 1, 1), entries = [0, 0]\<rparr>"

definition pair_bbox_pred :: tensor4 where
  "pair_bbox_pred =
     \<lparr>dims = (2, 8, 1, 1), entries = [0, 0, 0, 0, 0, 0, 0, 0, 0, 0, 0, 0, 0, 0, 0, 0]\<rparr>"

text \<open>
  A batch of one image with no ground truth: the image metas of a large enough and of a
  too small image, and the targets and losses of the former.
\<close>

definition example_meta :: img_meta where
  "example_meta = \<lparr>img_shape = [8, 8, 3]\<rparr>"

definition small_meta :: img_meta where
  "small_meta = \<lparr>img_shape = [4, 4, 3]\<rparr>"

definition example_img_targets :: img_targets where
  "example_img_targets =
     \<lparr>t_anchors = [(0, 0, 8, 8)], t_labels = [1], t_label_weights = [1],
      t_bbox_targets = [(0, 0, 0, 0)], t_bbox_weights = [(0, 0, 0, 0)],
      t_pos_inds = [], t_neg_inds = [0],
      t_labels_neg = [1], t_label_weights_neg = [1],
      t_bbox_targets_neg = [(0, 0, 0, 0)], t_bbox_weights_neg = [(0, 0, 0, 0)],
      t_pos_inds_neg = [], t_neg_inds_neg = [0], t_assigned_neg = [0]\<rparr>"

definition example_batch_targets :: batch_targets where
  "example_batch_targets =
     \<lparr>anchors_list = [[[(0, 0, 8, 8)]]], labels_list = [[[1]]],
      label_weights_list = [[[1]]], bbox_targets_list = [[[(0, 0, 0, 0)]]],
      bbox_weights_list = [[[(0, 0, 0, 0)]]], num_total_pos = 1,
      num_total_neg = 1, labels_list_neg = [[[1]]],
      label_weights_list_neg = [[[1]]],
      bbox_targets_list_neg = [[[(0, 0, 0, 0)]]],
      bbox_weights_list_neg = [[[(0, 0, 0, 0)]]], num_total_pos_neg = 1,
      num_total_neg_neg = 1, assigned_neg_list = [[[0]]]\<rparr>"

definition example_losses :: losses where
  "example_losses =
     \<lparr>losses_cls = [1], losses_bbox = [NaN], losses_dfl = [NaN],
      losses_bbox_neg = [NaN], losses_dfl_neg = [NaN]\<rparr>"

section \<open>Basic facts\<close>

lemma ebind_Inl [simp]: "ebind (Inl e) f = Inl e"
  by (simp add: ebind_def)

lemma ebind_Inr [simp]: "ebind (Inr x) f = f x"
  by (simp add: ebind_def)

lemma ebind_eq_Inr: "ebind m f = Inr y \<longleftrightarrow> (\<exists>x. m = Inr x \<and> f x = Inr y)"
  by (cases m) simp_all

section \<open>The integral decoder\<close>

lemma length_chunks: "length (chunks k xs) = length xs div k"
  by (simp add: chunks_def)

lemma chunks_row_length:
  assumes "0 < k" "length xs mod k = 0" "r \<in> set (chunks k xs)"
  shows "length r = k"
proof -
  from assms(3) obtain i where i: "i < length xs div k" and r: "r = take k (drop (i * k) xs)"
    by (auto simp: chunks_def)
  from assms(2) have "length xs = (length xs div k) * k" by auto
  moreover from i have "Suc i \<le> length xs div k" by simp
  then have "Suc i * k \<le> (length xs div k) * k" by (rule mult_le_mono1)
  ultimately have "i * k + k \<le> length xs" by simp
  then show ?thesis using r by simp
qed

lemma sum_exp_pos: "v \<noteq> [] \<Longrightarrow> 0 < sum_list (map exp (v::real list))"
proof (cases v)
  case Nil
  then show "v \<noteq> [] \<Longrightarrow> ?thesis" by simp
next
  case (Cons a w)
  have "0 \<le> sum_list (map exp w)" by (rule sum_list_nonneg) auto
  then show ?thesis using Cons by (simp add: add_pos_nonneg)
qed

lemma softmax_sum:
  assumes "v \<noteq> []" shows "sum_list (softmax v) = 1"
proof -
  let ?s = "sum_list (map exp v)"
  have pos: "0 < ?s" using assms by (rule sum_exp_pos)
  have "sum_list (map (\<lambda>x. exp x / ?s) w) = sum_list (map exp w) / ?s" for w
    by (induction w) (simp_all add: add_divide_distrib)
  then have "sum_list (softmax v) = ?s / ?s" by (simp add: softmax_def)
  with pos show ?thesis by simp
qed

lemma softmax_nonneg: "p \<in> set (softmax v) \<Longrightarrow> 0 \<le> p"
proof -
  assume a: "p \<in> set (softmax v)"
  then have ne: "v \<noteq> []" by (auto simp: softmax_def)
  from a obtain x where "p = exp x / sum_list (map exp v)" by (auto simp: softmax_def)
  then show ?thesis using sum_exp_pos [OF ne] by simp
qed

lemma elem_le_sum_list:
  "\<forall>x\<in>set xs. (0::real) \<le> x \<Longrightarrow> p \<in> set xs \<Longrightarrow> p \<le> sum_list xs"
  by (induction xs) (auto intro: sum_list_nonneg add_increasing add_increasing2)

lemma softmax_le_one: "p \<in> set (softmax v) \<Longrightarrow> p \<le> 1"
proof -
  assume a: "p \<in> set (softmax v)"
  then have ne: "v \<noteq> []" by (auto simp: softmax_def)
  have "p \<le> sum_list (softmax v)"
    using a by (intro elem_le_sum_list) (auto dest: softmax_nonneg)
  then show ?thesis by (simp add: softmax_sum [OF ne])
qed

lemma project_eq: "project n = map real [0..<Suc n]"
  by (auto simp: project_def linspace_def)

lemma weighted_bounds:
  "length p = length w \<Longrightarrow> \<forall>x\<in>set p. (0::real) \<le> x \<Longrightarrow> \<forall>y\<in>set w. 0 \<le> y \<and> y \<le> c \<Longrightarrow>
   0 \<le> sum_list (map2 (*) p w) \<and> sum_list (map2 (*) p w) \<le> c * sum_list p"
proof (induction p w rule: list_induct2)
  case Nil
  then show ?case by simp
next
  case (Cons x xs y ys)
  then have ih: "0 \<le> sum_list (map2 (*) xs ys)" "sum_list (map2 (*) xs ys) \<le> c * sum_list xs"
    by auto
  from Cons.prems have x: "0 \<le> x" and y: "0 \<le> y" "y \<le> c" by auto
  have "x * y \<le> x * c" using x y by (intro mult_left_mono)
  then have "x * y \<le> c * x" by (simp add: mult.commute)
  moreover have "0 \<le> x * y" using x y by simp
  ultimately show ?case using ih by (simp add: distrib_left)
qed

lemma expectation_bounds:
  assumes "length v = n + 1"
  shows "0 \<le> F_linear (softmax v) (project n)"
    and "F_linear (softmax v) (project n) \<le> real n"
proof -
  from assms have ne: "v \<noteq> []" by auto
  have len: "length (softmax v) = length (project n)"
    using assms by (simp add: softmax_def project_eq)
  have w: "\<forall>y\<in>set (project n). 0 \<le> y \<and> y \<le> real n"
    by (auto simp: project_eq)
  have p: "\<forall>x\<in>set (softmax v). 0 \<le> x" by (auto dest: softmax_nonneg)
  from weighted_bounds [OF len p w] softmax_sum [OF ne]
  show "0 \<le> F_linear (softmax v) (project n)"
    and "F_linear (softmax v) (project n) \<le> real n"
    by (simp_all add: F_linear_def)
qed

lemma length_concat_uniform:
  "\<forall>row\<in>set x. length row = m \<Longrightarrow> length (concat x) = length x * m"
  by (induction x) simp_all


lemma chunks_Cons:
  assumes "0 < k" "length xs = k"
  shows "chunks k (xs @ ys) = xs # chunks k ys"
proof -
  have d: "length (xs @ ys) div k = Suc (length ys div k)"
    using assms by simp
  have "[0..<Suc (length ys div k)] = 0 # map Suc [0..<length ys div k]"
    by (simp add: upt_conv_Cons map_Suc_upt del: upt_Suc)
  then show ?thesis
    unfolding chunks_def d using assms by (simp add: o_def add.commute)
qed

lemma chunks_Nil [simp]: "chunks k [] = []"
  by (simp add: chunks_def)

lemma chunks_append:
  assumes "0 < k"
  shows "length xs = n * k \<Longrightarrow> chunks k (xs @ ys) = chunks k xs @ chunks k ys"
proof (induction n arbitrary: xs)
  case 0
  then show ?case by simp
next
  case (Suc n)
  let ?a = "take k xs" and ?b = "drop k xs"
  have la: "length ?a = k" using Suc.prems by simp
  have lb: "length ?b = n * k" using Suc.prems by simp
  have "xs @ ys = ?a @ (?b @ ys)"
    by (simp only: append_assoc [symmetric] append_take_drop_id)
  then have "chunks k (xs @ ys) = chunks k (?a @ (?b @ ys))" by (rule arg_cong)
  also have "\<dots> = ?a # chunks k (?b @ ys)" by (rule chunks_Cons [OF assms la])
  finally have e1: "chunks k (xs @ ys) = ?a # (chunks k ?b @ chunks k ys)"
    by (simp add: Suc.IH [OF lb])
  have e2: "chunks k xs = ?a # chunks k ?b"
    using chunks_Cons [OF assms la, of ?b] by simp
  show ?case by (simp add: e1 e2)
qed

lemma chunks_concat_rows:
  assumes "0 < k"
  shows "\<forall>row\<in>set x. length row = n * k \<Longrightarrow> chunks k (concat x) = concat (map (chunks k) x)"
  by (induction x) (simp_all add: chunks_append [OF assms, where n = n])

lemma chunks_concat_id:
  assumes "0 < k"
  shows "\<forall>r\<in>set zs. length r = k \<Longrightarrow> chunks k (concat zs) = zs"
  by (induction zs) (simp_all add: chunks_Cons [OF assms])

lemma integral_forward_rows:
  assumes "\<forall>row\<in>set x. length row = 4 * (n + 1)"
  shows "integral_forward n x =
           Inr (map (\<lambda>row. map (\<lambda>g. F_linear (softmax g) (project n))
                               (chunks (n + 1) row)) x)"
proof -
  let ?k = "n + 1"
  let ?f = "\<lambda>g. F_linear (softmax g) (project n)"
  have len: "length (concat x) = length x * (4 * ?k)"
    using assms by (rule length_concat_uniform)
  then have "length (concat x) = (length x * 4) * ?k" by (simp only: mult.assoc)
  then have "length (concat x) mod ?k = 0" by (metis mod_mult_self2_is_0)
  then have r1: "reshape_rows ?k (concat x) = Inr (chunks ?k (concat x))"
    by (simp add: reshape_rows_def)
  have c1: "chunks ?k (concat x) = concat (map (chunks ?k) x)"
    using assms by (intro chunks_concat_rows [where n = 4]) auto
  let ?zs = "map (\<lambda>row. map ?f (chunks ?k row)) x"
  have y: "map ?f (concat (map (chunks ?k) x)) = concat ?zs"
    by (simp add: map_concat o_def)
  have "4 * ?k div ?k = 4" by (rule nonzero_mult_div_cancel_right) simp
  with assms have four: "\<forall>r\<in>set ?zs. length r = 4"
    by (simp add: length_chunks del: One_nat_def add_Suc_right mult_Suc_right)
  then have l4: "length (concat ?zs) = length ?zs * 4" by (rule length_concat_uniform)
  have c2: "chunks 4 (concat ?zs) = ?zs"
    using four by (intro chunks_concat_id) auto
  have step: "map (\<lambda>r. F_linear r (project n)) (map softmax (chunks ?k (concat x))) =
      concat ?zs"
    unfolding c1 by (simp add: map_concat o_def)
  have r2: "reshape_rows 4 (concat ?zs) = Inr ?zs"
    by (simp only: reshape_rows_def l4 c2) simp
  show ?thesis
    unfolding integral_forward_def r1 by (simp only: ebind_Inr Let_def step r2)
qed

text \<open>
  Claim C2.  For a logit vector \<open>v\<close> of length \<open>n + 1\<close> the softmax entries lie in
  \<open>[0, 1]\<close> and sum to 1, and the expectation over the bins \<open>0..n\<close> lies in
  \<open>[0, n]\<close>.  For an input of shape \<open>(N, 4 * (n + 1))\<close> the decoder returns a
  tensor of shape \<open>(N, 4)\<close>: row by row, the expectation of each of the four groups of
  \<open>n + 1\<close> logits.
\<close>

theorem integral_decoder_distribution:
  "(length v = n + 1 \<longrightarrow>
      (\<forall>p\<in>set (softmax v). 0 \<le> p \<and> p \<le> 1) \<and> sum_list (softmax v) = 1 \<and>
      0 \<le> F_linear (softmax v) (project n) \<and>
      F_linear (softmax v) (project n) \<le> real n) \<and>
   ((\<forall>row\<in>set x. length row = 4 * (n + 1)) \<longrightarrow>
      (\<exists>y. integral_forward n x = Inr y \<and> length y = length x \<and>
           y = map (\<lambda>row. map (\<lambda>g. F_linear (softmax g) (project n))
                               (chunks (n + 1) row)) x \<and>
           (\<forall>r\<in>set y. length r = 4 \<and> (\<forall>e\<in>set r. 0 \<le> e \<and> e \<le> real n))))"
proof (intro conjI impI)
  assume v: "length v = n + 1"
  then have ne: "v \<noteq> []" by auto
  show "\<forall>p\<in>set (softmax v). 0 \<le> p \<and> p \<le> 1"
    by (auto dest: softmax_nonneg softmax_le_one)
  show "sum_list (softmax v) = 1" using ne by (rule softmax_sum)
  show "0 \<le> F_linear (softmax v) (project n)" using v by (rule expectation_bounds)
  show "F_linear (softmax v) (project n) \<le> real n"
    using v by (rule expectation_bounds)
next
  assume x: "\<forall>row\<in>set x. length row = 4 * (n + 1)"
  let ?k = "n + 1"
  let ?y = "map (\<lambda>row. map (\<lambda>g. F_linear (softmax g) (project n)) (chunks ?k row)) x"
  have rows: "length r = 4 \<and> (\<forall>e\<in>set r. 0 \<le> e \<and> e \<le> real n)" if "r \<in> set ?y" for r
  proof -
    from that obtain row where row: "row \<in> set x"
      and r: "r = map (\<lambda>g. F_linear (softmax g) (project n)) (chunks ?k row)" by auto
    from x row have lr: "length row = 4 * ?k" by simp
    then have m: "length row mod ?k = 0" by (metis mod_mult_self2_is_0)
    have "length row div ?k = 4" unfolding lr by (rule nonzero_mult_div_cancel_right) simp
    then have "length r = 4" by (simp add: r length_chunks)
    moreover have "0 \<le> e \<and> e \<le> real n" if "e \<in> set r" for e
    proof -
      from that r obtain g where g: "g \<in> set (chunks ?k row)"
        and e: "e = F_linear (softmax g) (project n)" by auto
      have "length g = ?k" using chunks_row_length [OF _ m g] by simp
      then show ?thesis unfolding e using expectation_bounds by blast
    qed
    ultimately show ?thesis by blast
  qed
  show "\<exists>y. integral_forward n x = Inr y \<and> length y = length x \<and>
           y = map (\<lambda>row. map (\<lambda>g. F_linear (softmax g) (project n))
                               (chunks (n + 1) row)) x \<and>
           (\<forall>r\<in>set y. length r = 4 \<and> (\<forall>e\<in>set r. 0 \<le> e \<and> e \<le> real n))"
    using integral_forward_rows [OF x] rows by (intro exI [of _ ?y]) simp
qed

text \<open>The decoder at \<open>n = 1\<close> on one row of zero logits.\<close>

theorem integral_decoder_distribution_witness:
  "length [0, 0 :: real] = 1 + 1 \<and>
   length [0, 0, 0, 0, 0, 0, 0, 0 :: real] = 4 * (1 + 1) \<and>
   sum_list (softmax [0, 0]) = 1 \<and>
   F_linear (softmax [0, 0]) (project 1) \<le> 1 \<and>
   (\<exists>y. integral_forward 1 [[0, 0, 0, 0, 0, 0, 0, 0]] = Inr y \<and> length y = 1)"
proof -
  have h1: "length [0, 0 :: real] = 1 + 1" by simp
  have h2: "\<forall>row\<in>set [[0, 0, 0, 0, 0, 0, 0, 0 :: real]]. length row = 4 * (1 + 1)" by simp
  from integral_decoder_distribution [of "[0, 0]" 1 "[[0, 0, 0, 0, 0, 0, 0, 0]]"] h1 h2
  have "sum_list (softmax [0, 0]) = 1"
    and "F_linear (softmax [0, 0]) (project 1) \<le> real 1"
    and "\<exists>y. integral_forward 1 [[0, 0, 0, 0, 0, 0, 0, 0]] = Inr y \<and>
             length y = length [[0, 0, 0, 0, 0, 0, 0, 0 :: real]]"
    by blast+
  with h1 h2 show ?thesis by simp
qed

section \<open>Indexing, sigmoid and reshaping\<close>

lemma sigmoid_pos: "0 < sigmoid x"
  by (simp add: sigmoid_def add_pos_pos)

lemma sigmoid_lt_one: "sigmoid x < 1"
  by (simp add: sigmoid_def add_pos_pos)

lemma fold_max_ge: "(a::real) \<le> fold max xs a"
proof (induction xs arbitrary: a)
  case Nil
  show ?case by simp
next
  case (Cons x xs)
  have "a \<le> max x a" by simp
  also have "\<dots> \<le> fold max xs (max x a)" by (rule Cons.IH)
  finally show ?case by simp
qed

lemma max_dim1_sigmoid_pos:
  assumes "max_dim1 (map (map sigmoid) cls) = Inr mx" "m \<in> set mx"
  shows "0 < m"
proof -
  let ?rows = "map (map sigmoid) cls"
  from assms(1) have ne: "\<forall>r\<in>set ?rows. r \<noteq> []"
    and mx: "mx = map (\<lambda>r. fold max (tl r) (hd r)) ?rows"
    by (auto simp: max_dim1_def split: if_splits)
  from assms(2) obtain r where r: "r \<in> set ?rows" and m: "m = fold max (tl r) (hd r)"
    unfolding mx by auto
  from r ne have "r \<noteq> []" by blast
  moreover from r obtain row where "r = map sigmoid row" by auto
  ultimately have "hd r = sigmoid (hd row)" by (simp add: hd_map)
  then have "0 < hd r" by (simp add: sigmoid_pos)
  also have "hd r \<le> m" unfolding m by (rule fold_max_ge)
  finally show ?thesis .
qed

lemma indicator_zero:
  assumes "max_dim1 (map (map sigmoid) cls) = Inr mx"
  shows "map (\<lambda>m. if m < 0 then 1 else (0::real)) mx = replicate (length mx) 0"
proof -
  have "\<forall>m\<in>set mx. \<not> m < 0" using max_dim1_sigmoid_pos [OF assms] by fastforce
  then show ?thesis by (induction mx) auto
qed

lemma index_by_Inr: "index_by xs inds = Inr ys \<Longrightarrow> ys = map (\<lambda>i. xs ! i) inds \<and> (\<forall>i\<in>set inds. i < length xs)"
  by (auto simp: index_by_def split: if_splits)

lemma length_index_by: "index_by xs inds = Inr ys \<Longrightarrow> length ys = length inds"
  by (auto simp: index_by_def split: if_splits)

lemma nonzero_snoc:
  "nonzero (bs @ [b]) = nonzero bs @ (if b then [length bs] else [])"
proof -
  have "filter (\<lambda>i. (bs @ [b]) ! i) [0..<length bs] = filter (\<lambda>i. bs ! i) [0..<length bs]"
    by (rule filter_cong) (auto simp: nth_append)
  then show ?thesis by (simp add: nonzero_def)
qed

lemma nonzero_bound: "i \<in> set (nonzero bs) \<Longrightarrow> i < length bs"
  by (simp add: nonzero_def)

lemma nonzero_nth_filter: "map (\<lambda>i. xs ! i) (nonzero (map P xs)) = filter P xs"
proof (induction xs rule: rev_induct)
  case Nil
  show ?case by (simp add: nonzero_def)
next
  case (snoc x xs)
  have "map (\<lambda>i. (xs @ [x]) ! i) (nonzero (map P xs)) = map (\<lambda>i. xs ! i) (nonzero (map P xs))"
    by (rule map_cong) (auto dest: nonzero_bound simp: nth_append)
  then show ?case using snoc by (simp add: nonzero_snoc)
qed

lemma reshape_rows_Inr:
  "reshape_rows k xs = Inr rows \<Longrightarrow> 0 < k \<and> length xs mod k = 0 \<and> rows = chunks k xs"
  by (auto simp: reshape_rows_def split: if_splits)

lemma reshape_rows_width:
  assumes "reshape_rows k xs = Inr rows" "r \<in> set rows"
  shows "length r = k"
proof -
  from reshape_rows_Inr [OF assms(1)]
  have k: "0 < k" "length xs mod k = 0" and rows: "rows = chunks k xs" by simp_all
  from assms(2) have "r \<in> set (chunks k xs)" unfolding rows .
  then show ?thesis by (rule chunks_row_length [OF k])
qed

lemma div_boxes_length: "div_boxes bs s = Inr ds \<Longrightarrow> length ds = length bs"
  by (auto simp: div_boxes_def split: if_splits)

lemma length_expand4: "length (expand4 w) = 4 * length w"
  by (induction w) (simp_all add: expand4_def)

lemma pred_corners_length:
  assumes bp: "\<forall>r\<in>set bp. length r = 4 * (k + 1)"
    and pp: "index_by bp inds = Inr pp"
    and pc: "reshape_rows (k + 1) (concat pp) = Inr pc"
  shows "length pc = 4 * length inds"
proof -
  from pp have "\<forall>r\<in>set pp. length r = 4 * (k + 1)"
    using bp by (auto dest!: index_by_Inr)
  then have "length (concat pp) = length pp * (4 * (k + 1))" by (rule length_concat_uniform)
  then have "length (concat pp) = (4 * length inds) * (k + 1)"
    using length_index_by [OF pp] by (simp add: algebra_simps)
  moreover have "length pc = length (concat pp) div (k + 1)"
    using reshape_rows_Inr [OF pc] by (simp add: length_chunks)
  ultimately have "length pc = (4 * length inds) * (k + 1) div (k + 1)" by simp
  also have "\<dots> = 4 * length inds" by (rule nonzero_mult_div_cancel_right) simp
  finally show ?thesis .
qed

section \<open>The two streams of the level loss\<close>

lemma neg_stream_InrD:
  assumes "neg_stream self c stride anchors cls bp btn inds an rinds = Inr (lbn, ldn, wn)"
    and "inds \<noteq> []"
  shows "\<exists>pt pp pa cen mx ind rem corners dec dt pc dist vb vd.
    index_by btn inds = Inr pt \<and> index_by bp inds = Inr pp \<and> index_by anchors inds = Inr pa \<and>
    div_pairs (anchor_center pa) (fst stride) = Inr cen \<and>
    max_dim1 (map (map sigmoid) cls) = Inr mx \<and>
    index_by (map (\<lambda>m. if m < 0 then 1 else 0) mx) rinds = Inr ind \<and>
    index_by an rinds = Inr rem \<and> wn = map2 (+) ind rem \<and>
    integral_forward (reg_max self) pp = Inr corners \<and>
    distance2bbox c cen corners = Inr dec \<and>
    div_boxes pt (fst stride) = Inr dt \<and>
    reshape_rows (reg_max self + 1) (concat pp) = Inr pc \<and>
    bbox2distance c cen dt (reg_max self) = Inr dist \<and>
    loss_bbox self dec dt wn 1 = Inr vb \<and>
    loss_dfl self pc (concat dist) (expand4 wn) 4 = Inr vd \<and>
    lbn = 0.125 * vb \<and> ldn = 0.125 * vd"
  using assms unfolding neg_stream_def
  by (simp add: ebind_eq_Inr Let_def) blast


lemma pos_stream_InrD:
  assumes "pos_stream self c stride anchors cls bp bt inds score = Inr (lb, ld, w, sc)"
    and "inds \<noteq> []"
  shows "\<exists>pt pp pa cen mx corners dec dt ov pc dist.
    index_by bt inds = Inr pt \<and> index_by bp inds = Inr pp \<and> index_by anchors inds = Inr pa \<and>
    div_pairs (anchor_center pa) (fst stride) = Inr cen \<and>
    max_dim1 (map (map sigmoid) cls) = Inr mx \<and>
    index_by mx inds = Inr w \<and>
    integral_forward (reg_max self) pp = Inr corners \<and>
    distance2bbox c cen corners = Inr dec \<and>
    div_boxes pt (fst stride) = Inr dt \<and>
    bbox_overlaps c dec dt = Inr ov \<and> index_put score inds ov = Inr sc \<and>
    reshape_rows (reg_max self + 1) (concat pp) = Inr pc \<and>
    bbox2distance c cen dt (reg_max self) = Inr dist \<and>
    loss_bbox self dec dt w 1 = Inr lb \<and>
    loss_dfl self pc (concat dist) (expand4 w) 4 = Inr ld"
  using assms unfolding pos_stream_def
  by (simp add: ebind_eq_Inr Let_def) blast

lemma pos_stream_empty:
  "pos_stream self c stride anchors cls bp bt [] score = Inr (lb, ld, w, sc) \<Longrightarrow>
   lb = 0 \<and> ld = 0 \<and> w = [0] \<and> sc = score"
  by (simp add: pos_stream_def)

lemma neg_stream_empty:
  "neg_stream self c stride anchors cls bp btn [] an rinds = Inr (lbn, ldn, wn) \<Longrightarrow>
   lbn = 0 \<and> ldn = 0 \<and> wn = [0]"
  by (simp add: neg_stream_def)

lemma loss_single_InrD:
  assumes "loss_single self c anchors cls_score bbox_pred labels label_weights bbox_targets
      labels_neg label_weights_neg bbox_targets_neg stride assigned_neg nts ntsn =
      Inr (lc, lb, ld, ws, lbn, ldn, wsn)"
  shows "\<exists>cp cls bpp bp w sc wn.
    fst stride = snd stride \<and>
    permute_0231 cls_score = Inr cp \<and>
    reshape_rows (cls_out_channels self) (entries cp) = Inr cls \<and>
    permute_0231 bbox_pred = Inr bpp \<and>
    reshape_rows (4 * (reg_max self + 1)) (entries bpp) = Inr bp \<and>
    pos_stream self c stride (concat anchors) cls bp (concat bbox_targets)
      (fg_inds (concat labels) (num_classes self)) (replicate (length (concat labels)) 0) =
      Inr (lb, ld, w, sc) \<and> ws = sum_list w \<and>
    neg_stream self c stride (concat anchors) cls bp (concat bbox_targets_neg)
      (fg_inds (concat labels_neg) (num_classes self)) (concat assigned_neg)
      (nonzero (map (\<lambda>a. 0 < a) (concat assigned_neg))) = Inr (lbn, ldn, wn) \<and>
    wsn = sum_list wn \<and>
    loss_cls self cls (concat labels, concat labels_neg,
      fg_inds (concat labels_neg) (num_classes self), sc) (concat label_weights) nts = Inr lc"
  using assms unfolding loss_single_def
  by (simp add: ebind_eq_Inr Let_def split: if_splits) blast

lemma stream_losses_pos:
  assumes "pos_stream self c stride anchors cls bp bt inds score = Inr (lb, ld, w, sc)"
    and "inds \<noteq> []"
  shows "stream_losses self c stride anchors bp bt inds w = Inr (lb, ld)"
  using pos_stream_InrD [OF assms] unfolding stream_losses_def
  by (auto simp: ebind_eq_Inr)

lemma stream_losses_neg:
  assumes "neg_stream self c stride anchors cls bp btn inds an rinds = Inr (lbn, ldn, wn)"
    and "inds \<noteq> []"
  shows "\<exists>vb vd. stream_losses self c stride anchors bp btn inds wn = Inr (vb, vd) \<and>
    lbn = 0.125 * vb \<and> ldn = 0.125 * vd"
  using neg_stream_InrD [OF assms] unfolding stream_losses_def
  by (auto simp: ebind_eq_Inr)

lemma neg_weights:
  assumes "neg_stream self c stride anchors cls bp btn inds an (nonzero (map (\<lambda>a. 0 < a) an)) =
      Inr (lbn, ldn, wn)"
    and "inds \<noteq> []"
  shows "wn = map (\<lambda>i. an ! i) (nonzero (map (\<lambda>a. 0 < a) an))"
proof -
  let ?r = "nonzero (map (\<lambda>a. 0 < a) an)"
  from neg_stream_InrD [OF assms] obtain mx ind rem where
    mx: "max_dim1 (map (map sigmoid) cls) = Inr mx"
    and ind: "index_by (map (\<lambda>m. if m < 0 then 1 else 0) mx) ?r = Inr ind"
    and rem: "index_by an ?r = Inr rem" and wn: "wn = map2 (+) ind rem"
    by blast
  from ind have "ind = map (\<lambda>i. replicate (length mx) (0::real) ! i) ?r"
    and "\<forall>i\<in>set ?r. i < length mx"
    unfolding indicator_zero [OF mx] by (auto dest: index_by_Inr)
  then have i0: "ind = map (\<lambda>i. 0) ?r" by simp
  from rem have r: "rem = map (\<lambda>i. an ! i) ?r" by (auto dest: index_by_Inr)
  show ?thesis unfolding wn i0 r by (simp add: zip_map1 zip_map2 zip_same_conv_map)
qed

lemma neg_weights_parts:
  assumes "neg_stream self c stride anchors cls bp btn inds an rinds = Inr (lbn, ldn, wn)"
    and "inds \<noteq> []"
  shows "\<exists>tops indicator remaining.
    max_dim1 (map (map sigmoid) cls) = Inr tops \<and>
    index_by (map (\<lambda>m. if m < 0 then 1 else 0) tops) rinds = Inr indicator \<and>
    index_by an rinds = Inr remaining \<and>
    wn = map2 (+) indicator remaining \<and>
    indicator = map (\<lambda>i. 0) rinds"
proof -
  from neg_stream_InrD [OF assms] obtain tops indicator remaining where
    t: "max_dim1 (map (map sigmoid) cls) = Inr tops"
    and i: "index_by (map (\<lambda>m. if m < 0 then 1 else 0) tops) rinds = Inr indicator"
    and r: "index_by an rinds = Inr remaining" and wn: "wn = map2 (+) indicator remaining"
    by blast
  from i have "indicator = map (\<lambda>i. replicate (length tops) (0::real) ! i) rinds"
    and "\<forall>i\<in>set rinds. i < length tops"
    unfolding indicator_zero [OF t] by (auto dest: index_by_Inr)
  then have "indicator = map (\<lambda>i. 0) rinds" by simp
  with t i r wn show ?thesis by blast
qed

section \<open>Properties of the level loss\<close>

text \<open>
  Claim C5.  A label vector with no label strictly below the background index has no
  foreground position.  When the positive stream of a level has no foreground position,
  every result of \<open>loss_single\<close> has \<open>loss_bbox = 0\<close>, \<open>loss_dfl = 0\<close> (the value of
  \<open>bbox_pred.sum() * 0\<close>) and a positive weight sum of \<open>0\<close>.
\<close>

theorem loss_single_no_foreground:
  "((\<forall>l\<in>set ls. \<not> l < bg) \<longrightarrow> fg_inds ls bg = []) \<and>
   (loss_single self c anchors cls_score bbox_pred labels label_weights bbox_targets
      labels_neg label_weights_neg bbox_targets_neg stride assigned_neg nts ntsn =
      Inr (lc, lb, ld, ws, lbn, ldn, wsn) \<and>
    fg_inds (concat labels) (num_classes self) = [] \<longrightarrow>
    lb = 0 \<and> ld = 0 \<and> ws = 0)"
proof -
  have A: "fg_inds ls bg = []" if "\<forall>l\<in>set ls. \<not> l < bg"
    using that by (auto simp: fg_inds_def nonzero_def filter_empty_conv)
  have B: "lb = 0 \<and> ld = 0 \<and> ws = 0"
    if run: "loss_single self c anchors cls_score bbox_pred labels label_weights bbox_targets
        labels_neg label_weights_neg bbox_targets_neg stride assigned_neg nts ntsn =
        Inr (lc, lb, ld, ws, lbn, ldn, wsn)"
      and no_fg: "fg_inds (concat labels) (num_classes self) = []"
  proof -
    from loss_single_InrD [OF run] obtain cls bp w sc where
      p: "pos_stream self c stride (concat anchors) cls bp (concat bbox_targets)
         (fg_inds (concat labels) (num_classes self))
         (replicate (length (concat labels)) 0) = Inr (lb, ld, w, sc)" and ws: "ws = sum_list w"
      by blast
    from p have "lb = 0 \<and> ld = 0 \<and> w = [0] \<and> sc = replicate (length (concat labels)) 0"
      unfolding no_fg by (rule pos_stream_empty)
    then show ?thesis using ws by simp
  qed
  from A B show ?thesis by blast
qed

text \<open>
  Claim C7.  At a level with a foreground position in the negative stream, the box loss
  and the distribution loss of the negative stream are \<open>0.125\<close> times the losses that the
  formulas of the positive stream give on the negative stream's positions, targets and
  weights; the positive stream, when it has a foreground position, returns these formulas
  unscaled on its own positions, targets and weights.
\<close>

theorem negative_stream_scaled:
  assumes "loss_single self c anchors cls_score bbox_pred labels label_weights bbox_targets
      labels_neg label_weights_neg bbox_targets_neg stride assigned_neg nts ntsn =
      Inr (lc, lb, ld, ws, lbn, ldn, wsn)"
    and "fg_inds (concat labels_neg) (num_classes self) \<noteq> []"
  shows "\<exists>bpp bp wn vb vd.
    permute_0231 bbox_pred = Inr bpp \<and>
    reshape_rows (4 * (reg_max self + 1)) (entries bpp) = Inr bp \<and>
    stream_losses self c stride (concat anchors) bp (concat bbox_targets_neg)
      (fg_inds (concat labels_neg) (num_classes self)) wn = Inr (vb, vd) \<and>
    lbn = 0.125 * vb \<and> ldn = 0.125 * vd \<and> wsn = sum_list wn \<and>
    (fg_inds (concat labels) (num_classes self) \<noteq> [] \<longrightarrow>
      (\<exists>w. stream_losses self c stride (concat anchors) bp (concat bbox_targets)
             (fg_inds (concat labels) (num_classes self)) w = Inr (lb, ld) \<and>
           ws = sum_list w))"
proof -
  from loss_single_InrD [OF assms(1)] obtain cls bpp bp w sc wn where
    bpp: "permute_0231 bbox_pred = Inr bpp"
    and bp: "reshape_rows (4 * (reg_max self + 1)) (entries bpp) = Inr bp"
    and pos: "pos_stream self c stride (concat anchors) cls bp (concat bbox_targets)
      (fg_inds (concat labels) (num_classes self)) (replicate (length (concat labels)) 0) =
      Inr (lb, ld, w, sc)" and ws: "ws = sum_list w"
    and neg: "neg_stream self c stride (concat anchors) cls bp (concat bbox_targets_neg)
      (fg_inds (concat labels_neg) (num_classes self)) (concat assigned_neg)
      (nonzero (map (\<lambda>a. 0 < a) (concat assigned_neg))) = Inr (lbn, ldn, wn)"
    and wsn: "wsn = sum_list wn"
    by blast
  from stream_losses_neg [OF neg assms(2)] obtain vb vd where
    n: "stream_losses self c stride (concat anchors) bp (concat bbox_targets_neg)
      (fg_inds (concat labels_neg) (num_classes self)) wn = Inr (vb, vd)"
      "lbn = 0.125 * vb" "ldn = 0.125 * vd"
    by blast
  have p: "fg_inds (concat labels) (num_classes self) \<noteq> [] \<longrightarrow>
      (\<exists>w. stream_losses self c stride (concat anchors) bp (concat bbox_targets)
             (fg_inds (concat labels) (num_classes self)) w = Inr (lb, ld) \<and>
           ws = sum_list w)"
    using stream_losses_pos [OF pos] ws by blast
  from bpp bp n wsn p show ?thesis by blast
qed

text \<open>
  Claim C8.  A sigmoid value is never negative, so the indicator
  \<open>sigmoid(cls_score).max(dim=1)[0] < 0\<close> is zero at every anchor, and the weights of the
  negative stream are \<open>assigned_neg\<close> at the anchors where it is positive, as is their sum
  returned by \<open>loss_single\<close>.
\<close>

theorem negative_weight_is_assigned_neg:
  "(\<forall>x. 0 < sigmoid x \<and> sigmoid x < 1) \<and>
   (max_dim1 (map (map sigmoid) cls_rows) = Inr mx \<longrightarrow>
      map (\<lambda>m. if m < 0 then 1 else (0::real)) mx = replicate (length mx) 0) \<and>
   (neg_stream self c stride flat_anchors cls_rows bp btn inds an (nonzero (map (\<lambda>a. 0 < a) an)) =
      Inr (nb, nd, wn) \<and> inds \<noteq> [] \<longrightarrow>
      (\<exists>tops indicator remaining.
         max_dim1 (map (map sigmoid) cls_rows) = Inr tops \<and>
         index_by (map (\<lambda>m. if m < 0 then 1 else 0) tops) (nonzero (map (\<lambda>a. 0 < a) an)) =
           Inr indicator \<and>
         index_by an (nonzero (map (\<lambda>a. 0 < a) an)) = Inr remaining \<and>
         wn = map2 (+) indicator remaining \<and>
         indicator = map (\<lambda>i. 0) (nonzero (map (\<lambda>a. 0 < a) an))) \<and>
      wn = map (\<lambda>i. an ! i) (nonzero (map (\<lambda>a. 0 < a) an)) \<and> wn = filter (\<lambda>a. 0 < a) an) \<and>
   (loss_single self c anchors cls_score bbox_pred labels label_weights bbox_targets
      labels_neg label_weights_neg bbox_targets_neg stride assigned_neg nts ntsn =
      Inr (lc, lb, ld, ws, lbn, ldn, wsn) \<and>
    fg_inds (concat labels_neg) (num_classes self) \<noteq> [] \<longrightarrow>
      wsn = sum_list (filter (\<lambda>a. 0 < a) (concat assigned_neg)))"
proof -
  have A: "\<forall>x. 0 < sigmoid x \<and> sigmoid x < 1"
    by (simp add: sigmoid_pos sigmoid_lt_one)
  have B: "max_dim1 (map (map sigmoid) cls_rows) = Inr mx \<longrightarrow>
      map (\<lambda>m. if m < 0 then 1 else (0::real)) mx = replicate (length mx) 0"
    by (simp add: indicator_zero)
  have C: "(\<exists>tops indicator remaining.
         max_dim1 (map (map sigmoid) cls_rows) = Inr tops \<and>
         index_by (map (\<lambda>m. if m < 0 then 1 else 0) tops) (nonzero (map (\<lambda>a. 0 < a) an)) =
           Inr indicator \<and>
         index_by an (nonzero (map (\<lambda>a. 0 < a) an)) = Inr remaining \<and>
         wn = map2 (+) indicator remaining \<and>
         indicator = map (\<lambda>i. 0) (nonzero (map (\<lambda>a. 0 < a) an))) \<and>
      wn = map (\<lambda>i. an ! i) (nonzero (map (\<lambda>a. 0 < a) an)) \<and> wn = filter (\<lambda>a. 0 < a) an"
    if "neg_stream self c stride flat_anchors cls_rows bp btn inds an
        (nonzero (map (\<lambda>a. 0 < a) an)) = Inr (nb, nd, wn) \<and> inds \<noteq> []"
  proof -
    from that have neg: "neg_stream self c stride flat_anchors cls_rows bp btn inds an
        (nonzero (map (\<lambda>a. 0 < a) an)) = Inr (nb, nd, wn)" and ne: "inds \<noteq> []"
      by simp_all
    have w: "wn = map (\<lambda>i. an ! i) (nonzero (map (\<lambda>a. 0 < a) an))"
      using neg ne by (rule neg_weights)
    have f: "wn = filter (\<lambda>a. 0 < a) an" unfolding w by (rule nonzero_nth_filter)
    from neg_weights_parts [OF neg ne] w f show ?thesis by (intro conjI)
  qed
  have D: "wsn = sum_list (filter (\<lambda>a. 0 < a) (concat assigned_neg))"
    if "loss_single self c anchors cls_score bbox_pred labels label_weights bbox_targets
      labels_neg label_weights_neg bbox_targets_neg stride assigned_neg nts ntsn =
      Inr (lc, lb, ld, ws, lbn, ldn, wsn) \<and>
      fg_inds (concat labels_neg) (num_classes self) \<noteq> []"
  proof -
    from that have run: "loss_single self c anchors cls_score bbox_pred labels label_weights
        bbox_targets labels_neg label_weights_neg bbox_targets_neg stride assigned_neg nts ntsn =
        Inr (lc, lb, ld, ws, lbn, ldn, wsn)"
      and ne: "fg_inds (concat labels_neg) (num_classes self) \<noteq> []"
      by simp_all
    from loss_single_InrD [OF run] obtain cls rows wn' where
      neg: "neg_stream self c stride (concat anchors) cls rows (concat bbox_targets_neg)
        (fg_inds (concat labels_neg) (num_classes self)) (concat assigned_neg)
        (nonzero (map (\<lambda>a. 0 < a) (concat assigned_neg))) = Inr (lbn, ldn, wn')"
      and wsn: "wsn = sum_list wn'"
      by blast
    show ?thesis
      unfolding wsn neg_weights [OF neg ne] by (simp add: nonzero_nth_filter)
  qed
  from A B C D show ?thesis by blast
qed

text \<open>
  Claim C10.  In the negative stream the weights handed to the box and distribution
  losses are indexed by \<open>remain_inds\<close>, the targets and the bin logits by \<open>pos_inds_neg\<close>:
  there is one weight per anchor with \<open>assigned_neg > 0\<close> and one target per foreground
  label of the negative stream, and the two numbers agree only if the two index lists
  have one length.
\<close>

theorem negative_weights_indexed_by_remain_inds:
  assumes "loss_single self c anchors cls_score bbox_pred labels label_weights bbox_targets
      labels_neg label_weights_neg bbox_targets_neg stride assigned_neg nts ntsn =
      Inr (lc, lb, ld, ws, lbn, ldn, wsn)"
    and "pos_inds_neg = fg_inds (concat labels_neg) (num_classes self)"
    and "remain_inds = nonzero (map (\<lambda>a. 0 < a) (concat assigned_neg))"
    and "pos_inds_neg \<noteq> []"
  shows "\<exists>bpp bp pt pp dec dt pc dist wn vb vd.
    permute_0231 bbox_pred = Inr bpp \<and>
    reshape_rows (4 * (reg_max self + 1)) (entries bpp) = Inr bp \<and>
    index_by (concat bbox_targets_neg) pos_inds_neg = Inr pt \<and>
    div_boxes pt (fst stride) = Inr dt \<and>
    index_by bp pos_inds_neg = Inr pp \<and>
    reshape_rows (reg_max self + 1) (concat pp) = Inr pc \<and>
    wn = map (\<lambda>i. concat assigned_neg ! i) remain_inds \<and>
    loss_bbox self dec dt wn 1 = Inr vb \<and> lbn = 0.125 * vb \<and>
    loss_dfl self pc (concat dist) (expand4 wn) 4 = Inr vd \<and> ldn = 0.125 * vd \<and>
    length dt = length pos_inds_neg \<and> length wn = length remain_inds \<and>
    length pc = 4 * length pos_inds_neg \<and> length (expand4 wn) = 4 * length remain_inds \<and>
    (length wn = length dt \<longleftrightarrow> length remain_inds = length pos_inds_neg)"
proof -
  from loss_single_InrD [OF assms(1)] obtain cls bpp bp wn where
    bpp: "permute_0231 bbox_pred = Inr bpp"
    and bp: "reshape_rows (4 * (reg_max self + 1)) (entries bpp) = Inr bp"
    and neg: "neg_stream self c stride (concat anchors) cls bp (concat bbox_targets_neg)
      pos_inds_neg (concat assigned_neg) remain_inds = Inr (lbn, ldn, wn)"
    unfolding assms(2,3) by blast
  from neg_stream_InrD [OF neg assms(4)] obtain pt pp cen dec dt pc dist vb vd where
    pt: "index_by (concat bbox_targets_neg) pos_inds_neg = Inr pt"
    and pp: "index_by bp pos_inds_neg = Inr pp"
    and dt: "div_boxes pt (fst stride) = Inr dt"
    and pc: "reshape_rows (reg_max self + 1) (concat pp) = Inr pc"
    and vb: "loss_bbox self dec dt wn 1 = Inr vb" "lbn = 0.125 * vb"
    and vd: "loss_dfl self pc (concat dist) (expand4 wn) 4 = Inr vd" "ldn = 0.125 * vd"
    by blast
  have wn: "wn = map (\<lambda>i. concat assigned_neg ! i) remain_inds"
    using neg_weights [OF neg [unfolded assms(3)] assms(4)] unfolding assms(3) .
  have l1: "length dt = length pos_inds_neg"
    using div_boxes_length [OF dt] length_index_by [OF pt] by simp
  have l2: "length wn = length remain_inds" unfolding wn by simp
  have w: "\<forall>r\<in>set bp. length r = 4 * (reg_max self + 1)"
    using reshape_rows_width [OF bp] by blast
  have l3: "length pc = 4 * length pos_inds_neg"
    using pred_corners_length [OF w pp pc] .
  have l4: "length (expand4 wn) = 4 * length remain_inds"
    unfolding length_expand4 l2 ..
  have l5: "length wn = length dt \<longleftrightarrow> length remain_inds = length pos_inds_neg"
    unfolding l1 l2 ..
  from bpp bp pt dt pp pc wn vb vd l1 l2 l3 l4 l5 show ?thesis by blast
qed

section \<open>Concrete runs of the level loss\<close>

lemma upt8: "[0..<8] = [0, 1, 2, 3, 4, 5, 6, 7]"
  by code_simp

lemma upt4: "[0..<4] = [0, 1, 2, 3]"
  by code_simp

lemma example_cls_permute:
  "permute_0231 example_cls_score = Inr \<lparr>dims = (1, 1, 1, 1), entries = [0]\<rparr>"
  by (simp add: permute_0231_def example_cls_score_def)

lemma example_bbox_permute:
  "permute_0231 example_bbox_pred =
     Inr \<lparr>dims = (1, 1, 1, 8), entries = [0, 0, 0, 0, 0, 0, 0, 0]\<rparr>"
  by (simp add: permute_0231_def example_bbox_pred_def upt8)

lemma reshape_one: "reshape_rows 1 [x] = Inr [[x]]"
  by (simp add: reshape_rows_def chunks_def)

lemma reshape_eight:
  "reshape_rows 8 [a, b, c, d, e, f, g, h] = Inr [[a, b, c, d, e, f, g, h]]"
  by (simp add: reshape_rows_def chunks_def)

lemma fg_inds_bg: "fg_inds [1] 1 = []"
  by (simp add: fg_inds_def nonzero_def)

lemma fg_inds_fg: "fg_inds [0] 1 = [0]"
  by (simp add: fg_inds_def nonzero_def)

lemma softmax_zero2: "softmax [0, 0] = [1/2, 1/2]"
  by (simp add: softmax_def)

lemma chunks8: "chunks 2 [a, b, c, d, e, f, g, h] = [[a, b], [c, d], [e, f], [g, h]]"
  by (simp add: chunks_def upt4)

lemma chunks4: "chunks 4 [a, b, c, d] = [[a, b, c, d]]"
  by (simp add: chunks_def)

lemma project1: "project 1 = [0, 1]"
  by (simp add: project_def linspace_def upt_rec [of 0 2] upt_rec [of 1 2])

lemma example_integral:
  "integral_forward 1 [[0, 0, 0, 0, 0, 0, 0, 0]] = Inr [[1/2, 1/2, 1/2, 1/2]]"
  by (simp add: integral_forward_def reshape_rows_def chunks8 chunks4 softmax_zero2
      F_linear_def project1 del: One_nat_def)

lemma sigmoid_zero: "sigmoid 0 = 1/2"
  by (simp add: sigmoid_def)


lemma example_pos_empty:
  "pos_stream example_head example_core (8, 8) [(0, 0, 8, 8)] [[0]] [[0, 0, 0, 0, 0, 0, 0, 0]]
     [(0, 0, 0, 0)] [] [0] = Inr (0, 0, [0], [0])"
  by (simp add: pos_stream_def)

lemma example_neg_empty:
  "neg_stream example_head example_core (8, 8) [(0, 0, 8, 8)] [[0]] [[0, 0, 0, 0, 0, 0, 0, 0]]
     [(0, 0, 0, 0)] [] [0] [] = Inr (0, 0, [0])"
  by (simp add: neg_stream_def)

lemma example_head_simps:
  "reg_max example_head = 1" "num_classes example_head = 1" "cls_out_channels example_head = 1"
  "loss_bbox example_head p t w a = Inr (sum_list w / a)"
  "loss_dfl example_head pc tc w a = Inr (sum_list w / a)"
  "loss_cls example_head pr tg w a = Inr (sum_list w / a)"
  by (simp_all add: example_head_def)

lemma example_core_simps:
  "distance2bbox example_core [(x, y)] [[d0, d1, d2, d3]] = Inr [(x - d0, y - d1, x + d2, y + d3)]"
  "bbox2distance example_core [(x, y)] [(x1, y1, x2, y2)] m = Inr [[x - x1, y - y1, x2 - x, y2 - y]]"
  "bbox_overlaps example_core [b1] [b2] = Inr [1]"
  by (simp_all add: example_core_def)

lemma example_neg_fg:
  "neg_stream example_head example_core (8, 8) [(0, 0, 8, 8)] [[0]] [[0, 0, 0, 0, 0, 0, 0, 0]]
     [(0, 0, 8, 8)] [0] [1] [0] = Inr (1/8, 1/8, [1])"
  by (simp add: neg_stream_def index_by_def anchor_center_def div_pairs_def div_boxes_def
      max_dim1_def sigmoid_zero example_head_simps example_core_simps example_integral
      reshape_rows_def chunks8 expand4_def sum_list_replicate del: One_nat_def)

lemma example_neg_fg_unweighted:
  "neg_stream example_head example_core (8, 8) [(0, 0, 8, 8)] [[0]] [[0, 0, 0, 0, 0, 0, 0, 0]]
     [(0, 0, 8, 8)] [0] [0] [] = Inr (0, 0, [])"
  by (simp add: neg_stream_def index_by_def anchor_center_def div_pairs_def div_boxes_def
      max_dim1_def sigmoid_zero example_head_simps example_core_simps example_integral
      reshape_rows_def chunks8 expand4_def sum_list_replicate del: One_nat_def)

lemma nonzero_simps: "nonzero [True] = [0]" "nonzero [False] = []"
  by (simp_all add: nonzero_def)

lemma example_run_neg_fg:
  "loss_single example_head example_core [[(0, 0, 8, 8)]] example_cls_score example_bbox_pred
     [[1]] [[1]] [[(0, 0, 0, 0)]] [[0]] [[1]] [[(0, 0, 8, 8)]] (8, 8) [[1]] 1 1 =
   Inr (1, 0, 0, 0, 1/8, 1/8, 1)"
  by (simp add: loss_single_def example_cls_permute example_bbox_permute example_head_simps
      reshape_one reshape_eight fg_inds_bg fg_inds_fg nonzero_simps example_pos_empty
      example_neg_fg del: One_nat_def)

lemma example_run_neg_fg_unweighted:
  "loss_single example_head example_core [[(0, 0, 8, 8)]] example_cls_score example_bbox_pred
     [[1]] [[1]] [[(0, 0, 0, 0)]] [[0]] [[1]] [[(0, 0, 8, 8)]] (8, 8) [[0]] 1 1 =
   Inr (1, 0, 0, 0, 0, 0, 0)"
  by (simp add: loss_single_def example_cls_permute example_bbox_permute example_head_simps
      reshape_one reshape_eight fg_inds_bg fg_inds_fg nonzero_simps example_pos_empty
      example_neg_fg_unweighted del: One_nat_def)

lemma example_run_background:
  "loss_single example_head example_core [[(0, 0, 8, 8)]] example_cls_score example_bbox_pred
     [[1]] [[1]] [[(0, 0, 0, 0)]] [[1]] [[1]] [[(0, 0, 0, 0)]] (8, 8) [[0]] 1 1 =
   Inr (1, 0, 0, 0, 0, 0, 0)"
  by (simp add: loss_single_def example_cls_permute example_bbox_permute example_head_simps
      reshape_one reshape_eight fg_inds_bg nonzero_simps example_pos_empty
      example_neg_empty del: One_nat_def)

text \<open>A level whose only anchor is background in both streams.\<close>

theorem loss_single_no_foreground_witness:
  "\<not> (1::int) < 1 \<and> fg_inds [1] 1 = [] \<and>
   loss_single example_head example_core [[(0, 0, 8, 8)]] example_cls_score example_bbox_pred
     [[1]] [[1]] [[(0, 0, 0, 0)]] [[1]] [[1]] [[(0, 0, 0, 0)]] (8, 8) [[0]] 1 1 =
     Inr (1, 0, 0, 0, 0, 0, 0) \<and>
   fg_inds (concat [[1]]) (num_classes example_head) = [] \<and>
   (0 :: real) = 0"
proof -
  have h: "\<forall>l\<in>set [1::int]. \<not> l < 1" by simp
  have nofg: "fg_inds (concat [[1]]) (num_classes example_head) = []"
    by (simp add: example_head_simps fg_inds_bg)
  note T1 = loss_single_no_foreground [where ls = "[1]" and bg = 1, THEN conjunct1, rule_format]
  note T2 = loss_single_no_foreground [THEN conjunct2, rule_format, OF conjI,
      OF example_run_background nofg]
  from T1 h have e: "fg_inds [1] 1 = []" by simp
  from T2 have z: "(0 :: real) = 0" by (elim conjE)
  from e example_run_background nofg z show ?thesis by simp
qed

text \<open>A level whose only anchor is foreground in the negative stream, with \<open>assigned_neg = 1\<close>.\<close>

theorem negative_stream_scaled_witness:
  "loss_single example_head example_core [[(0, 0, 8, 8)]] example_cls_score example_bbox_pred
     [[1]] [[1]] [[(0, 0, 0, 0)]] [[0]] [[1]] [[(0, 0, 8, 8)]] (8, 8) [[1]] 1 1 =
     Inr (1, 0, 0, 0, 1/8, 1/8, 1) \<and>
   fg_inds (concat [[0]]) (num_classes example_head) \<noteq> [] \<and>
   (\<exists>bp wn vb vd.
      stream_losses example_head example_core (8, 8) (concat [[(0, 0, 8, 8)]]) bp
        (concat [[(0, 0, 8, 8)]]) (fg_inds (concat [[0]]) (num_classes example_head)) wn =
        Inr (vb, vd) \<and>
      (1/8 :: real) = 0.125 * vb)"
proof -
  have fg: "fg_inds (concat [[0]]) (num_classes example_head) \<noteq> []"
    by (simp add: example_head_simps fg_inds_fg)
  from negative_stream_scaled [OF example_run_neg_fg fg]
  obtain bp wn vb vd where
    sl: "stream_losses example_head example_core (8, 8) (concat [[(0, 0, 8, 8)]]) bp
        (concat [[(0, 0, 8, 8)]]) (fg_inds (concat [[0]]) (num_classes example_head)) wn =
        Inr (vb, vd)"
    and eq: "(1/8 :: real) = 0.125 * vb"
    by (elim exE conjE)
  have "\<exists>bp wn vb vd.
      stream_losses example_head example_core (8, 8) (concat [[(0, 0, 8, 8)]]) bp
        (concat [[(0, 0, 8, 8)]]) (fg_inds (concat [[0]]) (num_classes example_head)) wn =
        Inr (vb, vd) \<and>
      (1/8 :: real) = 0.125 * vb"
    using sl eq by (intro exI conjI)
  with example_run_neg_fg fg show ?thesis by (intro conjI)
qed


text \<open>The same level: the weight of its anchor is \<open>assigned_neg = 1\<close>.\<close>

theorem negative_weight_is_assigned_neg_witness:
  "max_dim1 (map (map sigmoid) [[0]]) = Inr [1/2] \<and>
   map (\<lambda>m. if m < 0 then 1 else (0::real)) [1/2 :: real] =
     replicate (length [1/2 :: real]) 0 \<and>
   neg_stream example_head example_core (8, 8) [(0, 0, 8, 8)] [[0]] [[0, 0, 0, 0, 0, 0, 0, 0]]
     [(0, 0, 8, 8)] [0] [1] (nonzero (map (\<lambda>a. 0 < a) [1 :: real])) = Inr (1/8, 1/8, [1]) \<and>
   [0] \<noteq> ([] :: nat list) \<and>
   loss_single example_head example_core [[(0, 0, 8, 8)]] example_cls_score example_bbox_pred
     [[1]] [[1]] [[(0, 0, 0, 0)]] [[0]] [[1]] [[(0, 0, 8, 8)]] (8, 8) [[1]] 1 1 =
     Inr (1, 0, 0, 0, 1/8, 1/8, 1) \<and>
   fg_inds (concat [[0]]) (num_classes example_head) \<noteq> [] \<and>
   [1 :: real] = filter (\<lambda>a. 0 < a) [1] \<and>
   (1 :: real) = sum_list (filter (\<lambda>a. 0 < a) (concat [[1]]))"
proof -
  have mx: "max_dim1 (map (map sigmoid) [[0]]) = Inr [1/2]"
    by (simp add: max_dim1_def sigmoid_zero)
  have nz: "nonzero (map (\<lambda>a. 0 < a) [1 :: real]) = [0]"
    by (simp add: nonzero_def)
  have neg: "neg_stream example_head example_core (8, 8) [(0, 0, 8, 8)] [[0]]
     [[0, 0, 0, 0, 0, 0, 0, 0]] [(0, 0, 8, 8)] [0] [1]
     (nonzero (map (\<lambda>a. 0 < a) [1 :: real])) = Inr (1/8, 1/8, [1])"
    unfolding nz by (rule example_neg_fg)
  have ne: "[0] \<noteq> ([] :: nat list)" by simp
  have fg: "fg_inds (concat [[0]]) (num_classes example_head) \<noteq> []"
    by (simp add: example_head_simps fg_inds_fg)
  note T2 = negative_weight_is_assigned_neg
    [THEN conjunct2, THEN conjunct1, rule_format, OF mx]
  note T3 = negative_weight_is_assigned_neg
    [THEN conjunct2, THEN conjunct2, THEN conjunct1, rule_format, OF conjI, OF neg ne]
  note T4 = negative_weight_is_assigned_neg
    [THEN conjunct2, THEN conjunct2, THEN conjunct2, rule_format, OF conjI,
     OF example_run_neg_fg fg]
  from T3 have a: "[1 :: real] = filter (\<lambda>a. 0 < a) [1]"
    by (elim conjE)
  from mx T2 neg ne example_run_neg_fg fg a T4 show ?thesis by (intro conjI)
qed

text \<open>
  A level whose only anchor is foreground in the negative stream with \<open>assigned_neg = 0\<close>:
  one target, no weight.
\<close>

theorem negative_weights_indexed_by_remain_inds_witness:
  "loss_single example_head example_core [[(0, 0, 8, 8)]] example_cls_score example_bbox_pred
     [[1]] [[1]] [[(0, 0, 0, 0)]] [[0]] [[1]] [[(0, 0, 8, 8)]] (8, 8) [[0]] 1 1 =
     Inr (1, 0, 0, 0, 0, 0, 0) \<and>
   [0] = fg_inds (concat [[0]]) (num_classes example_head) \<and>
   [] = nonzero (map (\<lambda>a. 0 < a) (concat [[0 :: real]])) \<and>
   [0] \<noteq> ([] :: nat list) \<and>
   (\<exists>dt wn. wn = map (\<lambda>i. concat [[0 :: real]] ! i) [] \<and>
      length dt = length [0 :: nat] \<and> length wn = length ([] :: nat list) \<and>
      length wn \<noteq> length (dt :: box list))"
proof -
  have p: "[0] = fg_inds (concat [[0]]) (num_classes example_head)"
    by (simp add: example_head_simps fg_inds_fg)
  have r: "[] = nonzero (map (\<lambda>a. 0 < a) (concat [[0 :: real]]))"
    by (simp add: nonzero_def)
  have ne: "[0] \<noteq> ([] :: nat list)" by simp
  from negative_weights_indexed_by_remain_inds [OF example_run_neg_fg_unweighted p r ne]
  obtain dt :: "box list" and wn where w: "wn = map (\<lambda>i. concat [[0 :: real]] ! i) []"
    and d: "length dt = length [0 :: nat]" and l: "length wn = length ([] :: nat list)"
    by (elim exE conjE)
  from d l have "length wn \<noteq> length dt" by simp
  with w d l have "\<exists>dt wn. wn = map (\<lambda>i. concat [[0 :: real]] ! i) [] \<and>
      length dt = length [0 :: nat] \<and> length wn = length ([] :: nat list) \<and>
      length wn \<noteq> length (dt :: box list)"
    by (intro exI conjI)
  with example_run_neg_fg_unweighted p r ne show ?thesis by (intro conjI)
qed

section \<open>Properties of the loss of the head\<close>

lemma map_results_Inr: "map_results rs = Inr xs \<Longrightarrow> rs = map Inr xs"
proof (induction rs arbitrary: xs)
  case Nil
  then show ?case by simp
next
  case (Cons r rs)
  then show ?case by (auto simp: ebind_eq_Inr)
qed

lemma map_results_map_Inr [simp]: "map_results (map Inr xs) = Inr xs"
  by (induction xs) simp_all

lemma map_results_member:
  assumes "map_results (map f zs) = Inr outs" "out \<in> set outs"
  shows "\<exists>z\<in>set zs. f z = Inr out"
proof -
  from map_results_Inr [OF assms(1)] have "map f zs = map Inr outs" .
  then have "Inr out \<in> set (map f zs)" using assms(2) by simp
  then show ?thesis by auto
qed

lemma map_results_length:
  "map_results (map f zs) = Inr outs \<Longrightarrow> length outs = length zs"
  by (drule map_results_Inr) (metis length_map)

lemma normalize_losses_Inr:
  assumes "normalize_losses w outs = Inr d"
  shows "outs \<noteq> [] \<and>
    losses_cls d = map (\<lambda>(lc, lb, ld, ws, lbn, ldn, wsn). lc) outs \<and>
    losses_bbox d = map (\<lambda>(lc, lb, ld, ws, lbn, ldn, wsn). true_divide lb
      (reduce_mean (peers_avg_factor w)
         (sum_list (map (\<lambda>(lc, lb, ld, ws, lbn, ldn, wsn). ws) outs)))) outs \<and>
    losses_dfl d = map (\<lambda>(lc, lb, ld, ws, lbn, ldn, wsn). true_divide ld
      (reduce_mean (peers_avg_factor w)
         (sum_list (map (\<lambda>(lc, lb, ld, ws, lbn, ldn, wsn). ws) outs)))) outs \<and>
    losses_bbox_neg d = map (\<lambda>(lc, lb, ld, ws, lbn, ldn, wsn). true_divide lbn
      (reduce_mean (peers_avg_factor_neg w)
         (sum_list (map (\<lambda>(lc, lb, ld, ws, lbn, ldn, wsn). wsn) outs)))) outs \<and>
    losses_dfl_neg d = map (\<lambda>(lc, lb, ld, ws, lbn, ldn, wsn). true_divide ldn
      (reduce_mean (peers_avg_factor_neg w)
         (sum_list (map (\<lambda>(lc, lb, ld, ws, lbn, ldn, wsn). wsn) outs)))) outs"
  using assms unfolding normalize_losses_def
  by (auto simp: Let_def split: if_splits)

lemma loss_SomeD:
  assumes "loss self c w cls_scores bbox_preds gt_bboxes gt_labels img_metas gt_bboxes_ignore =
      Inr (Some d)"
  shows "\<exists>al vl tg outs.
    get_anchors self (featmap_sizes cls_scores) img_metas = Inr (al, vl) \<and>
    get_targets self al vl gt_bboxes img_metas gt_bboxes_ignore (Some gt_labels)
      (if use_sigmoid_cls self then cls_out_channels self else 1) True = Inr (Some tg) \<and>
    loss_levels self c tg cls_scores bbox_preds
      (num_total_samples_of (peers_num_total_pos w) (num_total_pos tg))
      (num_total_samples_of (peers_num_total_pos_neg w) (num_total_pos_neg tg)) = Inr outs \<and>
    normalize_losses w outs = Inr d"
  using assms unfolding loss_def
  by (auto simp: ebind_eq_Inr Let_def split: if_splits option.splits)


lemma loss_levels_member:
  assumes "loss_levels self c tg cls_scores bbox_preds nts ntsn = Inr outs" "out \<in> set outs"
  shows "\<exists>anchors cls_score bbox_pred labels lw bt lneg lwn btn stride an.
    labels \<in> set (labels_list tg) \<and> lneg \<in> set (labels_list_neg tg) \<and>
    an \<in> set (assigned_neg_list tg) \<and>
    loss_single self c anchors cls_score bbox_pred labels lw bt lneg lwn btn stride an nts ntsn =
      Inr out"
proof -
  from map_results_member [OF assms [unfolded loss_levels_def]]
  obtain anchors cls_score bbox_pred labels lw bt lneg lwn btn stride an where
    z: "(anchors, cls_score, bbox_pred, labels, lw, bt, lneg, lwn, btn, stride, an) \<in>
      set (zip (anchors_list tg) (zip cls_scores (zip bbox_preds (zip (labels_list tg)
        (zip (label_weights_list tg) (zip (bbox_targets_list tg) (zip (labels_list_neg tg)
          (zip (label_weights_list_neg tg) (zip (bbox_targets_list_neg tg)
            (zip (ag_strides self) (assigned_neg_list tg)))))))))))"
    and run: "loss_single self c anchors cls_score bbox_pred labels lw bt lneg lwn btn stride an
      nts ntsn = Inr out"
    by auto
  note r = set_zip_rightD and l = set_zip_leftD
  from z have "labels \<in> set (labels_list tg)"
    by (blast dest: r l)
  moreover from z have "lneg \<in> set (labels_list_neg tg)"
    by (blast dest: r l)
  moreover from z have "an \<in> set (assigned_neg_list tg)"
    by (blast dest: r l)
  ultimately show ?thesis using run by blast
qed


lemma loss_single_pos_empty:
  assumes "loss_single self c anchors cls_score bbox_pred labels label_weights bbox_targets
      labels_neg label_weights_neg bbox_targets_neg stride assigned_neg nts ntsn =
      Inr (lc, lb, ld, ws, lbn, ldn, wsn)"
    and "fg_inds (concat labels) (num_classes self) = []"
  shows "lb = 0 \<and> ld = 0 \<and> ws = 0"
proof -
  from loss_single_InrD [OF assms(1)] obtain cls bp w sc where
    p: "pos_stream self c stride (concat anchors) cls bp (concat bbox_targets)
       (fg_inds (concat labels) (num_classes self))
       (replicate (length (concat labels)) 0) = Inr (lb, ld, w, sc)" and ws: "ws = sum_list w"
    by blast
  from p have "lb = 0 \<and> ld = 0 \<and> w = [0] \<and> sc = replicate (length (concat labels)) 0"
    unfolding assms(2) by (rule pos_stream_empty)
  then show ?thesis using ws by simp
qed

lemma loss_single_neg_unweighted:
  assumes "loss_single self c anchors cls_score bbox_pred labels label_weights bbox_targets
      labels_neg label_weights_neg bbox_targets_neg stride assigned_neg nts ntsn =
      Inr (lc, lb, ld, ws, lbn, ldn, wsn)"
    and "\<forall>a\<in>set (concat assigned_neg). \<not> 0 < a"
  shows "wsn = 0"
proof -
  from loss_single_InrD [OF assms(1)] obtain cls bp wn where
    neg: "neg_stream self c stride (concat anchors) cls bp (concat bbox_targets_neg)
      (fg_inds (concat labels_neg) (num_classes self)) (concat assigned_neg)
      (nonzero (map (\<lambda>a. 0 < a) (concat assigned_neg))) = Inr (lbn, ldn, wn)"
    and wsn: "wsn = sum_list wn"
    by blast
  show ?thesis
  proof (cases "fg_inds (concat labels_neg) (num_classes self) = []")
    case True
    with neg have "wn = [0]" by (auto dest: neg_stream_empty)
    then show ?thesis using wsn by simp
  next
    case False
    from neg_weights [OF neg False]
    have "wn = filter (\<lambda>a. 0 < a) (concat assigned_neg)"
      by (simp add: nonzero_nth_filter)
    also have "\<dots> = []" using assms(2) by (simp add: filter_empty_conv)
    finally show ?thesis using wsn by simp
  qed
qed

lemma sum_list_all_zero: "\<forall>x\<in>set xs. f x = (0::real) \<Longrightarrow> sum_list (map f xs) = 0"
  by (induction xs) simp_all

lemma true_divide_zero_divisor: "true_divide x 0 \<noteq> Fin r" "Fin r \<noteq> true_divide x 0"
  by (simp_all add: true_divide_def)

lemma reduce_mean_single [simp]: "reduce_mean [] x = x"
  by (simp add: reduce_mean_def)

text \<open>
  Claim C6.  In every run of \<open>loss\<close> that returns losses, the box loss and the
  distribution loss of every level are divided by one denominator: the sum over the
  levels of the weight sums that \<open>loss_single\<close> returned, reduced over the workers; the
  positive stream uses the positive weight sums, the negative stream the negative ones.
\<close>

theorem losses_divided_by_common_weight_sum:
  assumes "loss self c w cls_scores bbox_preds gt_bboxes gt_labels img_metas gt_bboxes_ignore =
      Inr (Some d)"
  shows "\<exists>al vl tg outs.
    get_anchors self (featmap_sizes cls_scores) img_metas = Inr (al, vl) \<and>
    get_targets self al vl gt_bboxes img_metas gt_bboxes_ignore (Some gt_labels)
      (if use_sigmoid_cls self then cls_out_channels self else 1) True = Inr (Some tg) \<and>
    loss_levels self c tg cls_scores bbox_preds
      (num_total_samples_of (peers_num_total_pos w) (num_total_pos tg))
      (num_total_samples_of (peers_num_total_pos_neg w) (num_total_pos_neg tg)) = Inr outs \<and>
    losses_bbox d = map (\<lambda>(lc, lb, ld, ws, lbn, ldn, wsn). true_divide lb
      (reduce_mean (peers_avg_factor w)
         (sum_list (map (\<lambda>(lc, lb, ld, ws, lbn, ldn, wsn). ws) outs)))) outs \<and>
    losses_dfl d = map (\<lambda>(lc, lb, ld, ws, lbn, ldn, wsn). true_divide ld
      (reduce_mean (peers_avg_factor w)
         (sum_list (map (\<lambda>(lc, lb, ld, ws, lbn, ldn, wsn). ws) outs)))) outs \<and>
    losses_bbox_neg d = map (\<lambda>(lc, lb, ld, ws, lbn, ldn, wsn). true_divide lbn
      (reduce_mean (peers_avg_factor_neg w)
         (sum_list (map (\<lambda>(lc, lb, ld, ws, lbn, ldn, wsn). wsn) outs)))) outs \<and>
    losses_dfl_neg d = map (\<lambda>(lc, lb, ld, ws, lbn, ldn, wsn). true_divide ldn
      (reduce_mean (peers_avg_factor_neg w)
         (sum_list (map (\<lambda>(lc, lb, ld, ws, lbn, ldn, wsn). wsn) outs)))) outs"
proof -
  from loss_SomeD [OF assms] obtain al vl tg outs where
    a: "get_anchors self (featmap_sizes cls_scores) img_metas = Inr (al, vl)"
    and g: "get_targets self al vl gt_bboxes img_metas gt_bboxes_ignore (Some gt_labels)
      (if use_sigmoid_cls self then cls_out_channels self else 1) True = Inr (Some tg)"
    and l: "loss_levels self c tg cls_scores bbox_preds
      (num_total_samples_of (peers_num_total_pos w) (num_total_pos tg))
      (num_total_samples_of (peers_num_total_pos_neg w) (num_total_pos_neg tg)) = Inr outs"
    and n: "normalize_losses w outs = Inr d"
    by blast
  from normalize_losses_Inr [OF n] a g l show ?thesis by blast
qed


lemma true_divide_zero_zero [simp]: "true_divide 0 0 = NaN"
  by (simp add: true_divide_def)

lemma num_total_samples_of_ge_one: "1 \<le> num_total_samples_of peers k"
  by (simp add: num_total_samples_of_def)

text \<open>
  Claim C9.  When no level has a foreground anchor in the positive stream, the positive
  weight sums add up to exactly zero, every level's box and distribution loss is zero
  and is divided by the reduction of zero: on a single worker the quotient is undefined.
  When no level has an anchor with \<open>assigned_neg > 0\<close>, the negative weight sums add up to
  zero and the negative losses are divided by the reduction of zero: on a single worker
  no quotient is finite.  The normalizers of the classification loss are at least 1.
\<close>

theorem weight_sum_denominator_unguarded:
  assumes "loss self c w cls_scores bbox_preds gt_bboxes gt_labels img_metas gt_bboxes_ignore =
      Inr (Some d)"
  shows "\<exists>al vl tg outs.
    get_anchors self (featmap_sizes cls_scores) img_metas = Inr (al, vl) \<and>
    get_targets self al vl gt_bboxes img_metas gt_bboxes_ignore (Some gt_labels)
      (if use_sigmoid_cls self then cls_out_channels self else 1) True = Inr (Some tg) \<and>
    loss_levels self c tg cls_scores bbox_preds
      (num_total_samples_of (peers_num_total_pos w) (num_total_pos tg))
      (num_total_samples_of (peers_num_total_pos_neg w) (num_total_pos_neg tg)) = Inr outs \<and>
    outs \<noteq> [] \<and>
    ((\<forall>labels\<in>set (labels_list tg). fg_inds (concat labels) (num_classes self) = []) \<longrightarrow>
       sum_list (map (\<lambda>(lc, lb, ld, ws, lbn, ldn, wsn). ws) outs) = 0 \<and>
       losses_bbox d = map (\<lambda>out. true_divide 0 (reduce_mean (peers_avg_factor w) 0)) outs \<and>
       losses_dfl d = map (\<lambda>out. true_divide 0 (reduce_mean (peers_avg_factor w) 0)) outs \<and>
       (peers_avg_factor w = [] \<longrightarrow>
          losses_bbox d = map (\<lambda>out. NaN) outs \<and> losses_dfl d = map (\<lambda>out. NaN) outs)) \<and>
    ((\<forall>an\<in>set (assigned_neg_list tg). \<forall>a\<in>set (concat an). \<not> 0 < a) \<longrightarrow>
       sum_list (map (\<lambda>(lc, lb, ld, ws, lbn, ldn, wsn). wsn) outs) = 0 \<and>
       losses_bbox_neg d = map (\<lambda>(lc, lb, ld, ws, lbn, ldn, wsn).
          true_divide lbn (reduce_mean (peers_avg_factor_neg w) 0)) outs \<and>
       losses_dfl_neg d = map (\<lambda>(lc, lb, ld, ws, lbn, ldn, wsn).
          true_divide ldn (reduce_mean (peers_avg_factor_neg w) 0)) outs \<and>
       (peers_avg_factor_neg w = [] \<longrightarrow>
          (\<forall>x\<in>set (losses_bbox_neg d) \<union> set (losses_dfl_neg d). \<forall>r. x \<noteq> Fin r))) \<and>
    1 \<le> num_total_samples_of (peers_num_total_pos w) (num_total_pos tg) \<and>
    1 \<le> num_total_samples_of (peers_num_total_pos_neg w) (num_total_pos_neg tg)"
proof -
  from loss_SomeD [OF assms] obtain al vl tg outs where
    a: "get_anchors self (featmap_sizes cls_scores) img_metas = Inr (al, vl)"
    and g: "get_targets self al vl gt_bboxes img_metas gt_bboxes_ignore (Some gt_labels)
      (if use_sigmoid_cls self then cls_out_channels self else 1) True = Inr (Some tg)"
    and l: "loss_levels self c tg cls_scores bbox_preds
      (num_total_samples_of (peers_num_total_pos w) (num_total_pos tg))
      (num_total_samples_of (peers_num_total_pos_neg w) (num_total_pos_neg tg)) = Inr outs"
    and n: "normalize_losses w outs = Inr d"
    by blast
  note N = normalize_losses_Inr [OF n]
  let ?ws = "\<lambda>(lc :: real, lb :: real, ld :: real, ws :: real, lbn :: real, ldn :: real,
    wsn :: real). ws"
  let ?wsn = "\<lambda>(lc :: real, lb :: real, ld :: real, ws :: real, lbn :: real, ldn :: real,
    wsn :: real). wsn"
  have P: "sum_list (map ?ws outs) = 0 \<and>
       losses_bbox d = map (\<lambda>out. true_divide 0 (reduce_mean (peers_avg_factor w) 0)) outs \<and>
       losses_dfl d = map (\<lambda>out. true_divide 0 (reduce_mean (peers_avg_factor w) 0)) outs \<and>
       (peers_avg_factor w = [] \<longrightarrow>
          losses_bbox d = map (\<lambda>out. NaN) outs \<and> losses_dfl d = map (\<lambda>out. NaN) outs)"
    if nofg: "\<forall>labels\<in>set (labels_list tg). fg_inds (concat labels) (num_classes self) = []"
  proof -
    have z: "lb = 0 \<and> ld = 0 \<and> ws = 0" if "(lc, lb, ld, ws, lbn, ldn, wsn) \<in> set outs"
      for lc lb ld ws lbn ldn wsn
    proof -
      from loss_levels_member [OF l that]
      obtain anchors cls_score bbox_pred labels lw bt lneg lwn btn stride an where
        m: "labels \<in> set (labels_list tg)"
        and r: "loss_single self c anchors cls_score bbox_pred labels lw bt lneg lwn btn stride an
          (num_total_samples_of (peers_num_total_pos w) (num_total_pos tg))
          (num_total_samples_of (peers_num_total_pos_neg w) (num_total_pos_neg tg)) =
          Inr (lc, lb, ld, ws, lbn, ldn, wsn)"
        by (elim exE conjE)
      from nofg m have "fg_inds (concat labels) (num_classes self) = []" by simp
      with r show ?thesis by (rule loss_single_pos_empty)
    qed
    then have s: "sum_list (map ?ws outs) = 0"
      by (intro sum_list_all_zero) auto
    have b: "losses_bbox d = map (\<lambda>out. true_divide 0 (reduce_mean (peers_avg_factor w) 0)) outs"
      using N unfolding s by (auto intro!: map_cong dest!: z)
    have e: "losses_dfl d = map (\<lambda>out. true_divide 0 (reduce_mean (peers_avg_factor w) 0)) outs"
      using N unfolding s by (auto intro!: map_cong dest!: z)
    from s b e show ?thesis by simp
  qed
  have Q: "sum_list (map ?wsn outs) = 0 \<and>
       losses_bbox_neg d = map (\<lambda>(lc, lb, ld, ws, lbn, ldn, wsn).
          true_divide lbn (reduce_mean (peers_avg_factor_neg w) 0)) outs \<and>
       losses_dfl_neg d = map (\<lambda>(lc, lb, ld, ws, lbn, ldn, wsn).
          true_divide ldn (reduce_mean (peers_avg_factor_neg w) 0)) outs \<and>
       (peers_avg_factor_neg w = [] \<longrightarrow>
          (\<forall>x\<in>set (losses_bbox_neg d) \<union> set (losses_dfl_neg d). \<forall>r. x \<noteq> Fin r))"
    if none: "\<forall>an\<in>set (assigned_neg_list tg). \<forall>a\<in>set (concat an). \<not> 0 < a"
  proof -
    have z: "wsn = 0" if "(lc, lb, ld, ws, lbn, ldn, wsn) \<in> set outs"
      for lc lb ld ws lbn ldn wsn
    proof -
      from loss_levels_member [OF l that]
      obtain anchors cls_score bbox_pred labels lw bt lneg lwn btn stride an where
        m: "an \<in> set (assigned_neg_list tg)"
        and r: "loss_single self c anchors cls_score bbox_pred labels lw bt lneg lwn btn stride an
          (num_total_samples_of (peers_num_total_pos w) (num_total_pos tg))
          (num_total_samples_of (peers_num_total_pos_neg w) (num_total_pos_neg tg)) =
          Inr (lc, lb, ld, ws, lbn, ldn, wsn)"
        by (elim exE conjE)
      from none m have "\<forall>a\<in>set (concat an). \<not> 0 < a" by simp
      with r show ?thesis by (rule loss_single_neg_unweighted)
    qed
    then have s: "sum_list (map ?wsn outs) = 0"
      by (intro sum_list_all_zero) auto
    have b: "losses_bbox_neg d = map (\<lambda>(lc, lb, ld, ws, lbn, ldn, wsn).
          true_divide lbn (reduce_mean (peers_avg_factor_neg w) 0)) outs"
      using N unfolding s by simp
    have e: "losses_dfl_neg d = map (\<lambda>(lc, lb, ld, ws, lbn, ldn, wsn).
          true_divide ldn (reduce_mean (peers_avg_factor_neg w) 0)) outs"
      using N unfolding s by simp
    have f: "\<forall>x\<in>set (losses_bbox_neg d) \<union> set (losses_dfl_neg d). \<forall>r. x \<noteq> Fin r"
      if "peers_avg_factor_neg w = []"
      unfolding b e that by (auto simp: true_divide_zero_divisor)
    from s b e f show ?thesis by simp
  qed
  from N have ne: "outs \<noteq> []" by simp
  from a g l ne P Q num_total_samples_of_ge_one show ?thesis by blast
qed

section \<open>The unpacking and the batch abort\<close>

lemma get_targets_unpack:
  assumes "length anchor_list = length valid_flag_list"
    and "length valid_flag_list = length img_metas"
    and "anchor_list = first_anchors # rest"
    and "map_results (map cat_levels (zip anchor_list valid_flag_list)) = Inr cats"
    and "per_image_results self (map fst cats) (map snd cats)
      (replicate (length img_metas) (map length first_anchors)) gt_bboxes_list
      (case gt_bboxes_ignore_list of None \<Rightarrow> replicate (length img_metas) None
       | Some l \<Rightarrow> map Some l)
      (case gt_labels_list of None \<Rightarrow> replicate (length img_metas) None
       | Some l \<Rightarrow> map Some l)
      img_metas label_channels unmap_outputs = Inr results"
  shows "get_targets self anchor_list valid_flag_list gt_bboxes_list img_metas
    gt_bboxes_ignore_list gt_labels_list label_channels unmap_outputs =
    (if num_components (map tuple_len results) \<noteq> 14 then Inl ValueError
     else if list_ex is_none_tuple results then Inr None
     else ebind (collect_targets (the_targets results) (map length first_anchors))
            (\<lambda>b. Inr (Some b)))"
  unfolding get_targets_def using assms(1,2,4,5)
  by (simp add: assms(3) Let_def)

lemma get_targets_InrD:
  assumes "get_targets self anchor_list valid_flag_list gt_bboxes_list img_metas
    gt_bboxes_ignore_list gt_labels_list label_channels unmap_outputs = Inr res"
  shows "\<exists>first_anchors rest cats results.
    anchor_list = first_anchors # rest \<and>
    map_results (map cat_levels (zip anchor_list valid_flag_list)) = Inr cats \<and>
    per_image_results self (map fst cats) (map snd cats)
      (replicate (length img_metas) (map length first_anchors)) gt_bboxes_list
      (case gt_bboxes_ignore_list of None \<Rightarrow> replicate (length img_metas) None
       | Some l \<Rightarrow> map Some l)
      (case gt_labels_list of None \<Rightarrow> replicate (length img_metas) None
       | Some l \<Rightarrow> map Some l)
      img_metas label_channels unmap_outputs = Inr results \<and>
    num_components (map tuple_len results) = 14 \<and>
    (if list_ex is_none_tuple results then res = None
     else \<exists>b. collect_targets (the_targets results) (map length first_anchors) = Inr b \<and>
            res = Some b)"
  using assms unfolding get_targets_def
  by (auto simp: ebind_eq_Inr Let_def split: if_splits list.splits)

lemma the_targets_all:
  "\<not> list_ex is_none_tuple results \<Longrightarrow> map Targets (the_targets results) = results"
  by (induction results rule: the_targets.induct) simp_all

lemma loss_NoneI:
  assumes "length (featmap_sizes cls_scores) = ag_num_levels self"
    and "cls_scores \<noteq> []"
    and "get_anchors self (featmap_sizes cls_scores) img_metas = Inr (al, vl)"
    and "get_targets self al vl gt_bboxes img_metas gt_bboxes_ignore (Some gt_labels)
      (if use_sigmoid_cls self then cls_out_channels self else 1) True = Inr None"
  shows "loss self c w cls_scores bbox_preds gt_bboxes gt_labels img_metas gt_bboxes_ignore =
    Inr None"
  unfolding loss_def using assms by (simp add: Let_def)

lemma loss_NoneD:
  assumes "loss self c w cls_scores bbox_preds gt_bboxes gt_labels img_metas gt_bboxes_ignore =
    Inr None"
  shows "\<exists>al vl.
    get_anchors self (featmap_sizes cls_scores) img_metas = Inr (al, vl) \<and>
    get_targets self al vl gt_bboxes img_metas gt_bboxes_ignore (Some gt_labels)
      (if use_sigmoid_cls self then cls_out_channels self else 1) True = Inr None"
  using assms unfolding loss_def
  by (auto simp: ebind_eq_Inr Let_def split: if_splits option.splits)

lemma num_components_all:
  "ks \<noteq> [] \<Longrightarrow> \<forall>k\<in>set ks. k = n \<Longrightarrow> num_components ks = n"
  by (induction ks rule: num_components.induct) auto

section \<open>The result of the dual target assigner\<close>

lemma length_unmap_place: "length (unmap_place m ds fill) = length m"
  by (induction m ds fill rule: unmap_place.induct) simp_all

lemma unmap_length: "unmap data count inds fill = Inr ys \<Longrightarrow> length ys = count"
  unfolding unmap_def
  by (auto simp: ebind_eq_Inr length_unmap_place split: if_splits)

lemma unmap_targets_lengths:
  assumes "unmap_targets self n flags t = Inr u"
  shows "length (t_anchors u) = n \<and> length (t_labels u) = n \<and>
    length (t_label_weights u) = n \<and> length (t_bbox_targets u) = n \<and>
    length (t_bbox_weights u) = n \<and> length (t_labels_neg u) = n \<and>
    length (t_label_weights_neg u) = n \<and> length (t_bbox_targets_neg u) = n \<and>
    length (t_bbox_weights_neg u) = n \<and> length (t_assigned_neg u) = n"
  using assms unfolding unmap_targets_def
  by (auto simp: ebind_eq_Inr dest: unmap_length)

lemma assign_streams_anchors:
  "assign_streams self a flags nla gb gi gl = Inr s \<Longrightarrow> t_anchors s = a"
  unfolding assign_streams_def
  by (auto simp: ebind_eq_Inr split: prod.splits)

lemma unmap_targets_anchors:
  "unmap_targets self n flags s = Inr t \<Longrightarrow>
   unmap (t_anchors s) n flags (0, 0, 0, 0) = Inr (t_anchors t)"
  unfolding unmap_targets_def
  by (auto simp: ebind_eq_Inr)

lemma dual_target_assigner_none:
  assumes "anchor_inside_flags c fa vf (take 2 (img_shape meta)) (allowed_border self) =
      Inr flags"
    and "\<not> list_ex (\<lambda>f. f) flags"
  shows "dual_target_assigner self c fa vf nla gb gi gl meta lc uo = Inr (AllNone 14)"
  unfolding dual_target_assigner_def using assms by simp

lemma dual_target_assigner_Inr:
  assumes "dual_target_assigner self c fa vf nla gb gi gl meta lc uo = Inr r"
  shows "\<exists>flags.
    anchor_inside_flags c fa vf (take 2 (img_shape meta)) (allowed_border self) = Inr flags \<and>
    (if list_ex (\<lambda>f. f) flags
     then \<exists>anchors s t.
            mask_select fa flags = Inr anchors \<and>
            assign_streams self anchors flags nla gb gi gl = Inr s \<and>
            (if uo then unmap_targets self (length fa) flags s = Inr t else t = s) \<and>
            r = Targets t
     else r = AllNone 14)"
  using assms unfolding dual_target_assigner_def
  by (auto simp: ebind_eq_Inr split: if_splits)

lemma dual_target_assigner_len:
  assumes "dual_target_assigner self c fa vf nla gb gi gl meta lc uo = Inr r"
  shows "tuple_len r = 14"
  using dual_target_assigner_Inr [OF assms] by (auto split: if_splits)

lemma dual_target_assigner_results:
  assumes "get_target_single self = dual_target_assigner self c"
    and "per_image_results self al vl nl gb gi gl metas lc uo = Inr results"
    and "r \<in> set results"
  shows "tuple_len r = 14"
proof -
  from map_results_member [OF assms(2,3) [unfolded per_image_results_def]]
  obtain fa vf nla b i l meta where
    "get_target_single self fa vf nla b i l meta lc uo = Inr r"
    by auto
  then have "dual_target_assigner self c fa vf nla b i l meta lc uo = Inr r"
    by (simp add: assms(1))
  then show ?thesis by (rule dual_target_assigner_len)
qed

lemma target_stream_routine_update [simp]:
  "target_stream (self\<lparr>get_target_single := g\<rparr>) gl sr k = target_stream self gl sr k"
  by (simp add: target_stream_def Let_def)

lemma assign_streams_routine_update [simp]:
  "assign_streams (self\<lparr>get_target_single := g\<rparr>) a flags nla gb gi gl =
   assign_streams self a flags nla gb gi gl"
  by (simp add: assign_streams_def)

lemma unmap_targets_routine_update [simp]:
  "unmap_targets (self\<lparr>get_target_single := g\<rparr>) n flags t = unmap_targets self n flags t"
  by (simp add: unmap_targets_def)

lemma dual_target_assigner_routine_update:
  "dual_target_assigner (self\<lparr>get_target_single := g\<rparr>) c = dual_target_assigner self c"
  by (intro ext) (simp add: dual_target_assigner_def cong: if_cong)

lemma assigner_head_routine:
  "get_target_single assigner_head = dual_target_assigner assigner_head example_core"
  by (simp add: assigner_head_def dual_target_assigner_routine_update)

section \<open>Concrete runs of the target computation and of the loss\<close>

lemma example_head_target_simps:
  "allowed_border example_head = - 1"
  "assign_pos example_head a k g i l = Inr ()"
  "assign_neg example_head a k g i l = Inr ((), map (\<lambda>a. 0) a)"
  "sample example_head r a g =
     Inr \<lparr>sr_pos_inds = [], sr_neg_inds = [0..<length a],
          sr_pos_gt_bboxes = [], sr_pos_assigned_gt_inds = []\<rparr>"
  "ag_num_levels example_head = 1" "ag_strides example_head = [(8, 8)]"
  "use_sigmoid_cls example_head"
  by (simp_all add: example_head_def)

lemma example_get_target_single:
  "get_target_single example_head [(0, 0, 8, 8)] [True] nl gb gi gl meta lc uo =
     Inr (Targets example_img_targets)"
  "get_target_single example_head [(0, 0, 8, 8)] [False] nl gb gi gl meta lc uo =
     Inr (AllNone 14)"
  by (simp_all add: example_head_def example_img_targets_def)

lemma example_target_stream:
  "target_stream example_head (Some [])
     \<lparr>sr_pos_inds = [], sr_neg_inds = [0], sr_pos_gt_bboxes = [], sr_pos_assigned_gt_inds = []\<rparr>
     (Suc 0) = Inr ([(0, 0, 0, 0)], [(0, 0, 0, 0)], [1], [1])"
  by (simp add: target_stream_def index_fill_def index_put_def index_by_def broadcast_to_def
      example_head_simps)

lemma unmap_all_inside: "unmap [x] (Suc 0) [True] fill = Inr [x]"
  by (simp add: unmap_def broadcast_to_def)

lemma example_assign_streams:
  "assign_streams example_head [(0, 0, 8, 8)] [True] [Suc 0] [] None (Some []) =
     Inr example_img_targets"
  by (simp add: assign_streams_def get_num_level_anchors_inside_def
      torch_split_def example_head_target_simps example_target_stream
      example_img_targets_def)

lemma example_unmap_targets:
  "unmap_targets example_head (Suc 0) [True] example_img_targets = Inr example_img_targets"
  by (simp add: unmap_targets_def unmap_all_inside example_img_targets_def)

lemma example_images_to_levels: "images_to_levels [[x]] [Suc 0] = Inr [[[x]]]"
  by (simp add: images_to_levels_def)

lemma example_inside: "anchor_inside_flags example_core a v s b = Inr v"
  by (simp add: example_core_def)

lemma example_dual_target_assigner:
  "dual_target_assigner example_head example_core [(0, 0, 8, 8)] [True] [Suc 0] [] None
     (Some []) example_meta label_channels True =
   Inr (Targets example_img_targets)"
  by (simp add: dual_target_assigner_def example_inside mask_select_def
      example_assign_streams example_unmap_targets del: One_nat_def)

lemma example_dual_target_assigner_none:
  "dual_target_assigner example_head example_core [(0, 0, 8, 8)] [False] [Suc 0] [] None
     (Some []) small_meta label_channels True = Inr (AllNone 14)"
  by (simp add: dual_target_assigner_def example_inside)

lemma example_collect_targets:
  "collect_targets [example_img_targets] [Suc 0] = Inr example_batch_targets"
  by (simp add: collect_targets_def example_images_to_levels example_img_targets_def
      example_batch_targets_def)

lemma example_cat_levels:
  "map_results (map cat_levels (zip [[[(0, 0, 8, 8)]]] [[[v]]])) = Inr [([(0, 0, 8, 8)], [v])]"
  by (simp add: cat_levels_def torch_cat_def)

lemma example_get_targets:
  "get_targets example_head [[[(0, 0, 8, 8)]]] [[[True]]] [[]]
     [example_meta] None (Some [[]]) 1 True =
   Inr (Some example_batch_targets)"
  by (simp add: get_targets_def cat_levels_def torch_cat_def per_image_results_def Let_def
      example_get_target_single example_collect_targets del: One_nat_def)

lemma example_pair_cat_levels:
  "map_results (map cat_levels (zip [[[(0, 0, 8, 8)]], [[(0, 0, 8, 8)]]] [[[u]], [[v]]])) =
     Inr [([(0, 0, 8, 8)], [u]), ([(0, 0, 8, 8)], [v])]"
  by (simp add: cat_levels_def torch_cat_def)

lemma example_pair_results:
  "per_image_results example_head [[(0, 0, 8, 8)], [(0, 0, 8, 8)]] [[True], [False]]
     [nl, nl'] [[], []] [None, None] [Some [], Some []] [example_meta, small_meta] lc uo =
   Inr [Targets example_img_targets, AllNone 14]"
  by (simp add: per_image_results_def example_get_target_single)

lemma assigner_pair_results:
  "per_image_results assigner_head [[(0, 0, 8, 8)], [(0, 0, 8, 8)]] [[True], [False]]
     [[Suc 0], [Suc 0]] [[], []] [None, None] [Some [], Some []] [example_meta, small_meta]
     lc True =
   Inr [Targets example_img_targets, AllNone 14]"
  by (simp add: per_image_results_def assigner_head_def example_dual_target_assigner
      example_dual_target_assigner_none del: One_nat_def)

lemma example_get_anchors:
  "get_anchors example_head sizes [example_meta] =
     Inr ([[[(0, 0, 8, 8)]]], [[[True]]])"
  "get_anchors example_head sizes [small_meta] =
     Inr ([[[(0, 0, 8, 8)]]], [[[False]]])"
  "get_anchors example_head sizes [example_meta, small_meta] =
     Inr ([[[(0, 0, 8, 8)]], [[(0, 0, 8, 8)]]], [[[True]], [[False]]])"
  by (simp_all add: example_head_def example_meta_def small_meta_def)

lemma example_loss:
  "loss example_head example_core single_worker [example_cls_score] [example_bbox_pred]
     [[]] [[]] [example_meta] None =
   Inr (Some example_losses)"
  by (simp add: loss_def featmap_sizes_def example_head_target_simps example_get_anchors
      example_head_simps example_get_targets loss_levels_def num_total_samples_of_def
      single_worker_def example_run_background normalize_losses_def example_batch_targets_def
      example_losses_def del: One_nat_def)

section \<open>The normalizers of the classification loss\<close>

lemma collect_targets_counts:
  assumes "collect_targets ts nla = Inr b"
  shows "num_total_pos b = sum_list (map (\<lambda>t. max (length (t_pos_inds t)) 1) ts)"
    and "num_total_neg b = sum_list (map (\<lambda>t. max (length (t_neg_inds t)) 1) ts)"
    and "num_total_pos_neg b = sum_list (map (\<lambda>t. max (length (t_pos_inds_neg t)) 1) ts)"
    and "num_total_neg_neg b = sum_list (map (\<lambda>t. max (length (t_neg_inds_neg t)) 1) ts)"
  using assms unfolding collect_targets_def
  by (auto simp: ebind_eq_Inr Let_def)

lemma floored_sum_ge_length: "length ts \<le> sum_list (map (\<lambda>t. max (f t) (1::nat)) ts)"
  by (induction ts) auto

lemma pos_stream_cls_update [simp]:
  "pos_stream (self\<lparr>loss_cls := f\<rparr>) c stride anchors cls bp bt inds score =
   pos_stream self c stride anchors cls bp bt inds score"
  by (simp add: pos_stream_def Let_def cong: if_cong)

lemma neg_stream_cls_update [simp]:
  "neg_stream (self\<lparr>loss_cls := f\<rparr>) c stride anchors cls bp btn inds an rinds =
   neg_stream self c stride anchors cls bp btn inds an rinds"
  by (simp add: neg_stream_def Let_def cong: if_cong)

lemma loss_single_floor_cls:
  assumes "1 \<le> nts"
  shows "loss_single (self\<lparr>loss_cls := \<lambda>pred target weight avg_factor.
            loss_cls self pred target weight (max avg_factor 1)\<rparr>) c anchors cls_score bbox_pred
            labels lw bt lneg lwn btn stride an nts ntsn =
         loss_single self c anchors cls_score bbox_pred labels lw bt lneg lwn btn stride an
            nts ntsn"
  using assms by (simp add: loss_single_def max_absorb1 Let_def cong: if_cong)

lemma get_targets_cls_update [simp]:
  "get_targets (self\<lparr>loss_cls := f\<rparr>) al vl gb metas gi gl lc uo =
   get_targets self al vl gb metas gi gl lc uo"
  by (simp add: get_targets_def per_image_results_def Let_def cong: if_cong list.case_cong)

lemma loss_levels_floor_cls:
  assumes "1 \<le> nts"
  shows "loss_levels (self\<lparr>loss_cls := \<lambda>pred target weight avg_factor.
            loss_cls self pred target weight (max avg_factor 1)\<rparr>) c tg cls_scores bbox_preds
            nts ntsn =
         loss_levels self c tg cls_scores bbox_preds nts ntsn"
  unfolding loss_levels_def
  by (simp add: loss_single_floor_cls [OF assms] split_def)

lemma loss_floor_cls:
  "loss (self\<lparr>loss_cls := \<lambda>pred target weight avg_factor.
            loss_cls self pred target weight (max avg_factor 1)\<rparr>) c w cls_scores bbox_preds
            gt_bboxes gt_labels img_metas gt_bboxes_ignore =
   loss self c w cls_scores bbox_preds gt_bboxes gt_labels img_metas gt_bboxes_ignore"
  unfolding loss_def
  by (simp add: loss_levels_floor_cls [OF num_total_samples_of_ge_one] Let_def
      cong: if_cong option.case_cong)

section \<open>Properties of the target computation\<close>

text \<open>
  Claim C1.  The dual target assigner, the per-image routine as the specification
  describes it, returns the all-\<open>None\<close> sentinel when no anchor lies inside the valid
  border, and otherwise the tuple of the fourteen arrays: the anchors and the arrays of
  the two streams.  Either result has fourteen components, and with \<open>unmap_outputs\<close>
  each of the ten per-anchor arrays has one entry per anchor of the image; the anchors
  of the result are the retained anchors of the image, mapped back likewise.  For a head
  whose per-image routine is this assigner every result of a batch has fourteen
  components, and so have the lists made from the results of a batch that is not empty.
  \<open>get_targets\<close> unpacks exactly fourteen lists: it raises a ValueError unless the
  results yield fourteen, and goes on to the check for \<open>None\<close> and to the split into
  levels when they do.
\<close>

theorem per_image_result_shape:
  "(anchor_inside_flags c flat_anchors valid_flags (take 2 (img_shape meta))
      (allowed_border self) = Inr inside_flags \<and>
    \<not> list_ex (\<lambda>f. f) inside_flags \<longrightarrow>
    dual_target_assigner self c flat_anchors valid_flags num_level_anchors gt_bboxes
      gt_bboxes_ignore gt_labels meta label_channels unmap_outputs = Inr (AllNone 14)) \<and>
   (dual_target_assigner self c flat_anchors valid_flags num_level_anchors gt_bboxes
      gt_bboxes_ignore gt_labels meta label_channels unmap_outputs = Inr r \<longrightarrow>
    tuple_len r = 14 \<and>
    (\<exists>flags.
       anchor_inside_flags c flat_anchors valid_flags (take 2 (img_shape meta))
         (allowed_border self) = Inr flags \<and>
       (if list_ex (\<lambda>f. f) flags
        then \<exists>t. r = Targets t \<and>
               (\<exists>anchors. mask_select flat_anchors flags = Inr anchors \<and>
                  (if unmap_outputs
                   then unmap anchors (length flat_anchors) flags (0, 0, 0, 0) =
                          Inr (t_anchors t)
                   else t_anchors t = anchors)) \<and>
               (unmap_outputs \<longrightarrow>
                  length (t_anchors t) = length flat_anchors \<and>
                  length (t_labels t) = length flat_anchors \<and>
                  length (t_label_weights t) = length flat_anchors \<and>
                  length (t_bbox_targets t) = length flat_anchors \<and>
                  length (t_bbox_weights t) = length flat_anchors \<and>
                  length (t_labels_neg t) = length flat_anchors \<and>
                  length (t_label_weights_neg t) = length flat_anchors \<and>
                  length (t_bbox_targets_neg t) = length flat_anchors \<and>
                  length (t_bbox_weights_neg t) = length flat_anchors \<and>
                  length (t_assigned_neg t) = length flat_anchors)
        else r = AllNone 14 \<and> is_none_tuple r))) \<and>
   (get_target_single self = dual_target_assigner self c \<and>
    per_image_results self al vl nl gb gi gl metas label_channels unmap_outputs =
      Inr outs \<longrightarrow>
    (\<forall>out\<in>set outs. tuple_len out = 14) \<and>
    (outs \<noteq> [] \<longrightarrow> num_components (map tuple_len outs) = 14)) \<and>
   (length anchor_list = length valid_flag_list \<and>
    length valid_flag_list = length img_metas \<and>
    anchor_list = first_anchors # rest \<and>
    map_results (map cat_levels (zip anchor_list valid_flag_list)) = Inr cats \<and>
    per_image_results self (map fst cats) (map snd cats)
      (replicate (length img_metas) (map length first_anchors)) gt_bboxes_list
      (case gt_bboxes_ignore_list of None \<Rightarrow> replicate (length img_metas) None
       | Some l \<Rightarrow> map Some l)
      (case gt_labels_list of None \<Rightarrow> replicate (length img_metas) None
       | Some l \<Rightarrow> map Some l)
      img_metas label_channels unmap_outputs = Inr results \<longrightarrow>
    get_targets self anchor_list valid_flag_list gt_bboxes_list img_metas
      gt_bboxes_ignore_list gt_labels_list label_channels unmap_outputs =
      (if num_components (map tuple_len results) \<noteq> 14 then Inl ValueError
       else if list_ex is_none_tuple results then Inr None
       else ebind (collect_targets (the_targets results) (map length first_anchors))
              (\<lambda>b. Inr (Some b))))"
proof -
  have A: "dual_target_assigner self c flat_anchors valid_flags num_level_anchors gt_bboxes
      gt_bboxes_ignore gt_labels meta label_channels unmap_outputs = Inr (AllNone 14)"
    if "anchor_inside_flags c flat_anchors valid_flags (take 2 (img_shape meta))
      (allowed_border self) = Inr inside_flags \<and>
      \<not> list_ex (\<lambda>f. f) inside_flags"
    using that by (elim conjE) (rule dual_target_assigner_none)
  have B: "tuple_len r = 14 \<and>
    (\<exists>flags.
       anchor_inside_flags c flat_anchors valid_flags (take 2 (img_shape meta))
         (allowed_border self) = Inr flags \<and>
       (if list_ex (\<lambda>f. f) flags
        then \<exists>t. r = Targets t \<and>
               (\<exists>anchors. mask_select flat_anchors flags = Inr anchors \<and>
                  (if unmap_outputs
                   then unmap anchors (length flat_anchors) flags (0, 0, 0, 0) =
                          Inr (t_anchors t)
                   else t_anchors t = anchors)) \<and>
               (unmap_outputs \<longrightarrow>
                  length (t_anchors t) = length flat_anchors \<and>
                  length (t_labels t) = length flat_anchors \<and>
                  length (t_label_weights t) = length flat_anchors \<and>
                  length (t_bbox_targets t) = length flat_anchors \<and>
                  length (t_bbox_weights t) = length flat_anchors \<and>
                  length (t_labels_neg t) = length flat_anchors \<and>
                  length (t_label_weights_neg t) = length flat_anchors \<and>
                  length (t_bbox_targets_neg t) = length flat_anchors \<and>
                  length (t_bbox_weights_neg t) = length flat_anchors \<and>
                  length (t_assigned_neg t) = length flat_anchors)
        else r = AllNone 14 \<and> is_none_tuple r))"
    if h: "dual_target_assigner self c flat_anchors valid_flags num_level_anchors gt_bboxes
      gt_bboxes_ignore gt_labels meta label_channels unmap_outputs = Inr r"
  proof -
    from dual_target_assigner_Inr [OF h] obtain flags where
      f: "anchor_inside_flags c flat_anchors valid_flags (take 2 (img_shape meta))
         (allowed_border self) = Inr flags"
      and k: "if list_ex (\<lambda>f. f) flags
        then \<exists>anchors s t.
            mask_select flat_anchors flags = Inr anchors \<and>
            assign_streams self anchors flags num_level_anchors gt_bboxes gt_bboxes_ignore
              gt_labels = Inr s \<and>
            (if unmap_outputs then unmap_targets self (length flat_anchors) flags s = Inr t
             else t = s) \<and>
            r = Targets t
        else r = AllNone 14"
      by (elim exE conjE)
    have "if list_ex (\<lambda>f. f) flags
        then \<exists>t. r = Targets t \<and>
               (\<exists>anchors. mask_select flat_anchors flags = Inr anchors \<and>
                  (if unmap_outputs
                   then unmap anchors (length flat_anchors) flags (0, 0, 0, 0) =
                          Inr (t_anchors t)
                   else t_anchors t = anchors)) \<and>
               (unmap_outputs \<longrightarrow>
                  length (t_anchors t) = length flat_anchors \<and>
                  length (t_labels t) = length flat_anchors \<and>
                  length (t_label_weights t) = length flat_anchors \<and>
                  length (t_bbox_targets t) = length flat_anchors \<and>
                  length (t_bbox_weights t) = length flat_anchors \<and>
                  length (t_labels_neg t) = length flat_anchors \<and>
                  length (t_label_weights_neg t) = length flat_anchors \<and>
                  length (t_bbox_targets_neg t) = length flat_anchors \<and>
                  length (t_bbox_weights_neg t) = length flat_anchors \<and>
                  length (t_assigned_neg t) = length flat_anchors)
        else r = AllNone 14 \<and> is_none_tuple r"
    proof (cases "list_ex (\<lambda>f. f) flags")
      case True
      with k obtain anchors s t where
        ms: "mask_select flat_anchors flags = Inr anchors"
        and st: "assign_streams self anchors flags num_level_anchors gt_bboxes
          gt_bboxes_ignore gt_labels = Inr s"
        and u: "if unmap_outputs then unmap_targets self (length flat_anchors) flags s = Inr t
             else t = s"
        and r: "r = Targets t"
        by auto
      have "if unmap_outputs
          then unmap anchors (length flat_anchors) flags (0, 0, 0, 0) = Inr (t_anchors t)
          else t_anchors t = anchors"
        using u assign_streams_anchors [OF st]
        by (auto dest: unmap_targets_anchors)
      with ms have an: "\<exists>anchors. mask_select flat_anchors flags = Inr anchors \<and>
                  (if unmap_outputs
                   then unmap anchors (length flat_anchors) flags (0, 0, 0, 0) =
                          Inr (t_anchors t)
                   else t_anchors t = anchors)"
        by (intro exI conjI)
      have "length (t_anchors t) = length flat_anchors \<and>
                  length (t_labels t) = length flat_anchors \<and>
                  length (t_label_weights t) = length flat_anchors \<and>
                  length (t_bbox_targets t) = length flat_anchors \<and>
                  length (t_bbox_weights t) = length flat_anchors \<and>
                  length (t_labels_neg t) = length flat_anchors \<and>
                  length (t_label_weights_neg t) = length flat_anchors \<and>
                  length (t_bbox_targets_neg t) = length flat_anchors \<and>
                  length (t_bbox_weights_neg t) = length flat_anchors \<and>
                  length (t_assigned_neg t) = length flat_anchors"
        if unmap_outputs
        using u that by (simp add: unmap_targets_lengths)
      with r True an show ?thesis by simp
    next
      case False
      with k show ?thesis by simp
    qed
    with f have "\<exists>flags.
       anchor_inside_flags c flat_anchors valid_flags (take 2 (img_shape meta))
         (allowed_border self) = Inr flags \<and>
       (if list_ex (\<lambda>f. f) flags
        then \<exists>t. r = Targets t \<and>
               (\<exists>anchors. mask_select flat_anchors flags = Inr anchors \<and>
                  (if unmap_outputs
                   then unmap anchors (length flat_anchors) flags (0, 0, 0, 0) =
                          Inr (t_anchors t)
                   else t_anchors t = anchors)) \<and>
               (unmap_outputs \<longrightarrow>
                  length (t_anchors t) = length flat_anchors \<and>
                  length (t_labels t) = length flat_anchors \<and>
                  length (t_label_weights t) = length flat_anchors \<and>
                  length (t_bbox_targets t) = length flat_anchors \<and>
                  length (t_bbox_weights t) = length flat_anchors \<and>
                  length (t_labels_neg t) = length flat_anchors \<and>
                  length (t_label_weights_neg t) = length flat_anchors \<and>
                  length (t_bbox_targets_neg t) = length flat_anchors \<and>
                  length (t_bbox_weights_neg t) = length flat_anchors \<and>
                  length (t_assigned_neg t) = length flat_anchors)
        else r = AllNone 14 \<and> is_none_tuple r)"
      by (intro exI conjI)
    with dual_target_assigner_len [OF h] show ?thesis by (rule conjI)
  qed
  have C: "(\<forall>out\<in>set outs. tuple_len out = 14) \<and>
    (outs \<noteq> [] \<longrightarrow> num_components (map tuple_len outs) = 14)"
    if "get_target_single self = dual_target_assigner self c \<and>
      per_image_results self al vl nl gb gi gl metas label_channels unmap_outputs =
        Inr outs"
  proof -
    from that have e: "get_target_single self = dual_target_assigner self c"
      and p: "per_image_results self al vl nl gb gi gl metas label_channels unmap_outputs =
        Inr outs"
      by simp_all
    have a: "\<forall>out\<in>set outs. tuple_len out = 14"
      using dual_target_assigner_results [OF e p] by simp
    then have "num_components (map tuple_len outs) = 14" if "outs \<noteq> []"
      using that by (intro num_components_all) simp_all
    with a show ?thesis by simp
  qed
  have D: "get_targets self anchor_list valid_flag_list gt_bboxes_list img_metas
      gt_bboxes_ignore_list gt_labels_list label_channels unmap_outputs =
      (if num_components (map tuple_len results) \<noteq> 14 then Inl ValueError
       else if list_ex is_none_tuple results then Inr None
       else ebind (collect_targets (the_targets results) (map length first_anchors))
              (\<lambda>b. Inr (Some b)))"
    if "length anchor_list = length valid_flag_list \<and>
    length valid_flag_list = length img_metas \<and>
    anchor_list = first_anchors # rest \<and>
    map_results (map cat_levels (zip anchor_list valid_flag_list)) = Inr cats \<and>
    per_image_results self (map fst cats) (map snd cats)
      (replicate (length img_metas) (map length first_anchors)) gt_bboxes_list
      (case gt_bboxes_ignore_list of None \<Rightarrow> replicate (length img_metas) None
       | Some l \<Rightarrow> map Some l)
      (case gt_labels_list of None \<Rightarrow> replicate (length img_metas) None
       | Some l \<Rightarrow> map Some l)
      img_metas label_channels unmap_outputs = Inr results"
    using that by (elim conjE) (rule get_targets_unpack)
  show ?thesis
    by (intro conjI; rule impI; (erule A | erule B | erule C | erule D))
qed

text \<open>
  The head whose routine is the dual target assigner, on the image whose only anchor is
  flagged invalid, and on the batch of that image and the large enough one.
\<close>

theorem per_image_result_shape_witness:
  "anchor_inside_flags example_core [(0, 0, 8, 8)] [False] (take 2 (img_shape small_meta))
     (allowed_border assigner_head) = Inr [False] \<and>
   dual_target_assigner assigner_head example_core [(0, 0, 8, 8)] [False] [Suc 0] [] None
     (Some []) small_meta 1 True = Inr (AllNone 14) \<and>
   dual_target_assigner assigner_head example_core [(0, 0, 8, 8)] [True] [Suc 0] [] None
     (Some []) example_meta 1 True = Inr (Targets example_img_targets) \<and>
   tuple_len (Targets example_img_targets) = 14 \<and>
   get_target_single assigner_head = dual_target_assigner assigner_head example_core \<and>
   per_image_results assigner_head
     (map fst ([([(0, 0, 8, 8)], [True]), ([(0, 0, 8, 8)], [False])] :: (box list \<times> bool list) list))
     (map snd ([([(0, 0, 8, 8)], [True]), ([(0, 0, 8, 8)], [False])] :: (box list \<times> bool list) list))
     (replicate (length [example_meta, small_meta]) (map length ([[(0, 0, 8, 8)]] :: box list list)))
     [[], []]
     (case None of None \<Rightarrow> replicate (length [example_meta, small_meta]) None | Some l \<Rightarrow> map Some l)
     (case Some [[], []] of None \<Rightarrow> replicate (length [example_meta, small_meta]) None
      | Some l \<Rightarrow> map Some l)
     [example_meta, small_meta] 1 True = Inr [Targets example_img_targets, AllNone 14] \<and>
   num_components (map tuple_len [Targets example_img_targets, AllNone 14]) = 14 \<and>
   get_targets assigner_head [[[(0, 0, 8, 8)]], [[(0, 0, 8, 8)]]] [[[True]], [[False]]] [[], []]
     [example_meta, small_meta] None (Some [[], []]) 1 True = Inr None"
proof -
  note T = per_image_result_shape [where self = assigner_head and c = example_core]
  have i: "anchor_inside_flags example_core [(0, 0, 8, 8)] [False]
     (take 2 (img_shape small_meta)) (allowed_border assigner_head) = Inr [False]"
    by (rule example_inside)
  have n: "\<not> list_ex (\<lambda>f. f) [False]" by simp
  from i n
  have 1: "dual_target_assigner assigner_head example_core [(0, 0, 8, 8)] [False] [Suc 0] []
     None (Some []) small_meta 1 True = Inr (AllNone 14)"
    by (intro T [THEN conjunct1, rule_format] conjI)
  have 2: "dual_target_assigner assigner_head example_core [(0, 0, 8, 8)] [True] [Suc 0] []
     None (Some []) example_meta 1 True = Inr (Targets example_img_targets)"
    by (simp add: assigner_head_def dual_target_assigner_routine_update
        example_dual_target_assigner del: One_nat_def)
  from 2 have 3: "tuple_len (Targets example_img_targets) = 14"
    by (intro T [THEN conjunct2, THEN conjunct1, rule_format, THEN conjunct1])
  have p: "per_image_results assigner_head
     (map fst ([([(0, 0, 8, 8)], [True]), ([(0, 0, 8, 8)], [False])] :: (box list \<times> bool list) list))
     (map snd ([([(0, 0, 8, 8)], [True]), ([(0, 0, 8, 8)], [False])] :: (box list \<times> bool list) list))
     (replicate (length [example_meta, small_meta]) (map length ([[(0, 0, 8, 8)]] :: box list list)))
     [[], []]
     (case None of None \<Rightarrow> replicate (length [example_meta, small_meta]) None | Some l \<Rightarrow> map Some l)
     (case Some [[], []] of None \<Rightarrow> replicate (length [example_meta, small_meta]) None
      | Some l \<Rightarrow> map Some l)
     [example_meta, small_meta] 1 True = Inr [Targets example_img_targets, AllNone 14]"
    using assigner_pair_results [of 1] by simp
  from assigner_head_routine p
  have 4: "num_components (map tuple_len [Targets example_img_targets, AllNone 14]) = 14"
    by (intro T [THEN conjunct2, THEN conjunct2, THEN conjunct1, rule_format, THEN conjunct2,
          rule_format] conjI) simp_all
  have l1: "length ([[[(0, 0, 8, 8)]], [[(0, 0, 8, 8)]]] :: box list list list) = length [[[True]], [[False]]]"
    and l2: "length [[[True]], [[False]]] = length [example_meta, small_meta]"
    by simp_all
  have e: "([[[(0, 0, 8, 8)]], [[(0, 0, 8, 8)]]] :: box list list list) = [[(0, 0, 8, 8)]] # [[[(0, 0, 8, 8)]]]"
    by simp
  have m: "map_results (map cat_levels (zip [[[(0, 0, 8, 8)]], [[(0, 0, 8, 8)]]] [[[True]], [[False]]])) =
     Inr [([(0, 0, 8, 8)], [True]), ([(0, 0, 8, 8)], [False])]"
    by (rule example_pair_cat_levels)
  from l1 l2 e m p
  have "get_targets assigner_head [[[(0, 0, 8, 8)]], [[(0, 0, 8, 8)]]] [[[True]], [[False]]] [[], []]
     [example_meta, small_meta] None (Some [[], []]) 1 True =
      (if num_components (map tuple_len [Targets example_img_targets, AllNone 14]) \<noteq> 14 then Inl ValueError
       else if list_ex is_none_tuple [Targets example_img_targets, AllNone 14] then Inr None
       else ebind (collect_targets (the_targets [Targets example_img_targets, AllNone 14])
                     (map length ([[(0, 0, 8, 8)]] :: box list list)))
              (\<lambda>b. Inr (Some b)))"
    by (intro T [THEN conjunct2, THEN conjunct2, THEN conjunct2, rule_format] conjI)
  then have 5: "get_targets assigner_head [[[(0, 0, 8, 8)]], [[(0, 0, 8, 8)]]] [[[True]], [[False]]] [[], []]
     [example_meta, small_meta] None (Some [[], []]) 1 True = Inr None"
    by simp
  from i 1 2 3 assigner_head_routine p 4 5 show ?thesis by (intro conjI)
qed

text \<open>
  Claim C3.  When the results of the per-image routine unpack into the fourteen lists
  and the result of one image is the tuple of \<open>None\<close>, \<open>get_targets\<close> returns \<open>None\<close>
  for the whole batch.  It returns targets only when no result is such a tuple, and the
  targets are then collected from the results of all images.  When \<open>get_targets\<close>
  returns \<open>None\<close>, \<open>loss\<close> returns \<open>None\<close>; and \<open>loss\<close> returns losses only when
  \<open>get_targets\<close> returned targets.
\<close>

theorem batch_abort:
  "(length anchor_list = length valid_flag_list \<and>
    length valid_flag_list = length img_metas \<and>
    anchor_list = first_anchors # rest \<and>
    map_results (map cat_levels (zip anchor_list valid_flag_list)) = Inr cats \<and>
    per_image_results self (map fst cats) (map snd cats)
      (replicate (length img_metas) (map length first_anchors)) gt_bboxes_list
      (case gt_bboxes_ignore_list of None \<Rightarrow> replicate (length img_metas) None
       | Some l \<Rightarrow> map Some l)
      (case gt_labels_list of None \<Rightarrow> replicate (length img_metas) None
       | Some l \<Rightarrow> map Some l)
      img_metas label_channels unmap_outputs = Inr results \<and>
    num_components (map tuple_len results) = 14 \<and> list_ex is_none_tuple results \<longrightarrow>
    get_targets self anchor_list valid_flag_list gt_bboxes_list img_metas
      gt_bboxes_ignore_list gt_labels_list label_channels unmap_outputs = Inr None) \<and>
   (get_targets self anchor_list valid_flag_list gt_bboxes_list img_metas
      gt_bboxes_ignore_list gt_labels_list label_channels unmap_outputs = Inr (Some b) \<longrightarrow>
    (\<exists>anchors1 others cs outs.
       anchor_list = anchors1 # others \<and>
       map_results (map cat_levels (zip anchor_list valid_flag_list)) = Inr cs \<and>
       per_image_results self (map fst cs) (map snd cs)
         (replicate (length img_metas) (map length anchors1)) gt_bboxes_list
         (case gt_bboxes_ignore_list of None \<Rightarrow> replicate (length img_metas) None
          | Some l \<Rightarrow> map Some l)
         (case gt_labels_list of None \<Rightarrow> replicate (length img_metas) None
          | Some l \<Rightarrow> map Some l)
         img_metas label_channels unmap_outputs = Inr outs \<and>
       \<not> list_ex is_none_tuple outs \<and>
       map Targets (the_targets outs) = outs \<and>
       collect_targets (the_targets outs) (map length anchors1) = Inr b)) \<and>
   (length (featmap_sizes cls_scores) = ag_num_levels self \<and> cls_scores \<noteq> [] \<and>
    get_anchors self (featmap_sizes cls_scores) img_metas = Inr (al, vl) \<and>
    get_targets self al vl gt_bboxes img_metas gt_bboxes_ignore (Some gt_labels)
      (if use_sigmoid_cls self then cls_out_channels self else 1) True = Inr None \<longrightarrow>
    loss self c w cls_scores bbox_preds gt_bboxes gt_labels img_metas gt_bboxes_ignore =
      Inr None) \<and>
   (loss self c w cls_scores bbox_preds gt_bboxes gt_labels img_metas gt_bboxes_ignore =
      Inr (Some d) \<longrightarrow>
    (\<exists>al vl tg.
       get_anchors self (featmap_sizes cls_scores) img_metas = Inr (al, vl) \<and>
       get_targets self al vl gt_bboxes img_metas gt_bboxes_ignore (Some gt_labels)
         (if use_sigmoid_cls self then cls_out_channels self else 1) True = Inr (Some tg)))"
proof -
  have A: "get_targets self anchor_list valid_flag_list gt_bboxes_list img_metas
      gt_bboxes_ignore_list gt_labels_list label_channels unmap_outputs = Inr None"
    if "length anchor_list = length valid_flag_list \<and>
    length valid_flag_list = length img_metas \<and>
    anchor_list = first_anchors # rest \<and>
    map_results (map cat_levels (zip anchor_list valid_flag_list)) = Inr cats \<and>
    per_image_results self (map fst cats) (map snd cats)
      (replicate (length img_metas) (map length first_anchors)) gt_bboxes_list
      (case gt_bboxes_ignore_list of None \<Rightarrow> replicate (length img_metas) None
       | Some l \<Rightarrow> map Some l)
      (case gt_labels_list of None \<Rightarrow> replicate (length img_metas) None
       | Some l \<Rightarrow> map Some l)
      img_metas label_channels unmap_outputs = Inr results \<and>
    num_components (map tuple_len results) = 14 \<and> list_ex is_none_tuple results"
  proof -
    from that have "get_targets self anchor_list valid_flag_list gt_bboxes_list img_metas
      gt_bboxes_ignore_list gt_labels_list label_channels unmap_outputs =
      (if num_components (map tuple_len results) \<noteq> 14 then Inl ValueError
       else if list_ex is_none_tuple results then Inr None
       else ebind (collect_targets (the_targets results) (map length first_anchors))
              (\<lambda>b. Inr (Some b)))"
      by (elim conjE) (rule get_targets_unpack)
    with that show ?thesis by simp
  qed
  have B: "\<exists>anchors1 others cs outs.
       anchor_list = anchors1 # others \<and>
       map_results (map cat_levels (zip anchor_list valid_flag_list)) = Inr cs \<and>
       per_image_results self (map fst cs) (map snd cs)
         (replicate (length img_metas) (map length anchors1)) gt_bboxes_list
         (case gt_bboxes_ignore_list of None \<Rightarrow> replicate (length img_metas) None
          | Some l \<Rightarrow> map Some l)
         (case gt_labels_list of None \<Rightarrow> replicate (length img_metas) None
          | Some l \<Rightarrow> map Some l)
         img_metas label_channels unmap_outputs = Inr outs \<and>
       \<not> list_ex is_none_tuple outs \<and>
       map Targets (the_targets outs) = outs \<and>
       collect_targets (the_targets outs) (map length anchors1) = Inr b"
    if h: "get_targets self anchor_list valid_flag_list gt_bboxes_list img_metas
      gt_bboxes_ignore_list gt_labels_list label_channels unmap_outputs = Inr (Some b)"
  proof -
    from get_targets_InrD [OF h] obtain anchors1 others cs outs where
      1: "anchor_list = anchors1 # others"
      and 2: "map_results (map cat_levels (zip anchor_list valid_flag_list)) = Inr cs"
      and 3: "per_image_results self (map fst cs) (map snd cs)
         (replicate (length img_metas) (map length anchors1)) gt_bboxes_list
         (case gt_bboxes_ignore_list of None \<Rightarrow> replicate (length img_metas) None
          | Some l \<Rightarrow> map Some l)
         (case gt_labels_list of None \<Rightarrow> replicate (length img_metas) None
          | Some l \<Rightarrow> map Some l)
         img_metas label_channels unmap_outputs = Inr outs"
      and 4: "if list_ex is_none_tuple outs then Some b = None
         else \<exists>b'. collect_targets (the_targets outs) (map length anchors1) = Inr b' \<and>
                Some b = Some b'"
      by (elim exE conjE)
    from 4 have 5: "\<not> list_ex is_none_tuple outs"
      by (auto split: if_splits)
    with 4 have 6: "collect_targets (the_targets outs) (map length anchors1) = Inr b"
      by auto
    from 1 2 3 5 the_targets_all [OF 5] 6 show ?thesis by (intro exI conjI)
  qed
  have C: "loss self c w cls_scores bbox_preds gt_bboxes gt_labels img_metas gt_bboxes_ignore =
      Inr None"
    if "length (featmap_sizes cls_scores) = ag_num_levels self \<and> cls_scores \<noteq> [] \<and>
    get_anchors self (featmap_sizes cls_scores) img_metas = Inr (al, vl) \<and>
    get_targets self al vl gt_bboxes img_metas gt_bboxes_ignore (Some gt_labels)
      (if use_sigmoid_cls self then cls_out_channels self else 1) True = Inr None"
    using that by (elim conjE) (rule loss_NoneI)
  have D: "\<exists>al vl tg.
       get_anchors self (featmap_sizes cls_scores) img_metas = Inr (al, vl) \<and>
       get_targets self al vl gt_bboxes img_metas gt_bboxes_ignore (Some gt_labels)
         (if use_sigmoid_cls self then cls_out_channels self else 1) True = Inr (Some tg)"
    if h: "loss self c w cls_scores bbox_preds gt_bboxes gt_labels img_metas gt_bboxes_ignore =
      Inr (Some d)"
  proof -
    from loss_SomeD [OF h] obtain al vl tg where
      "get_anchors self (featmap_sizes cls_scores) img_metas = Inr (al, vl)"
      "get_targets self al vl gt_bboxes img_metas gt_bboxes_ignore (Some gt_labels)
         (if use_sigmoid_cls self then cls_out_channels self else 1) True = Inr (Some tg)"
      by (elim exE conjE)
    then show ?thesis by (intro exI conjI)
  qed
  show ?thesis
    by (intro conjI; rule impI; (erule A | erule B | erule C | erule D))
qed

text \<open>
  The batch of the large enough and the too small image: the result of the second image
  is the tuple of fourteen \<open>None\<close>, and the batch has neither targets nor losses.
\<close>

theorem batch_abort_witness:
  "length ([[[(0, 0, 8, 8)]], [[(0, 0, 8, 8)]]] :: box list list list) = length [[[True]], [[False]]] \<and>
   length [[[True]], [[False]]] = length [example_meta, small_meta] \<and>
   map_results (map cat_levels (zip [[[(0, 0, 8, 8)]], [[(0, 0, 8, 8)]]] [[[True]], [[False]]])) =
     Inr [([(0, 0, 8, 8)], [True]), ([(0, 0, 8, 8)], [False])] \<and>
   per_image_results example_head
     (map fst ([([(0, 0, 8, 8)], [True]), ([(0, 0, 8, 8)], [False])] :: (box list \<times> bool list) list))
     (map snd ([([(0, 0, 8, 8)], [True]), ([(0, 0, 8, 8)], [False])] :: (box list \<times> bool list) list))
     (replicate (length [example_meta, small_meta]) (map length ([[(0, 0, 8, 8)]] :: box list list)))
     [[], []]
     (case None of None \<Rightarrow> replicate (length [example_meta, small_meta]) None | Some l \<Rightarrow> map Some l)
     (case Some [[], []] of None \<Rightarrow> replicate (length [example_meta, small_meta]) None
      | Some l \<Rightarrow> map Some l)
     [example_meta, small_meta] 1 True = Inr [Targets example_img_targets, AllNone 14] \<and>
   num_components (map tuple_len [Targets example_img_targets, AllNone 14]) = 14 \<and>
   list_ex is_none_tuple [Targets example_img_targets, AllNone 14] \<and>
   get_targets example_head [[[(0, 0, 8, 8)]], [[(0, 0, 8, 8)]]] [[[True]], [[False]]] [[], []]
     [example_meta, small_meta] None (Some [[], []]) 1 True = Inr None \<and>
   length (featmap_sizes [pair_cls_score]) = ag_num_levels example_head \<and>
   get_anchors example_head (featmap_sizes [pair_cls_score]) [example_meta, small_meta] =
     Inr ([[[(0, 0, 8, 8)]], [[(0, 0, 8, 8)]]], [[[True]], [[False]]]) \<and>
   loss example_head example_core single_worker [pair_cls_score] [pair_bbox_pred]
     [[], []] [[], []] [example_meta, small_meta] None = Inr None"
proof -
  note T = batch_abort [where self = example_head and c = example_core and w = single_worker
      and img_metas = "[example_meta, small_meta]" and cls_scores = "[pair_cls_score]"
      and bbox_preds = "[pair_bbox_pred]" and al = "[[[(0, 0, 8, 8)]], [[(0, 0, 8, 8)]]]"
      and vl = "[[[True]], [[False]]]" and anchor_list = "[[[(0, 0, 8, 8)]], [[(0, 0, 8, 8)]]]"
      and valid_flag_list = "[[[True]], [[False]]]" and first_anchors = "[[(0, 0, 8, 8)]]"
      and rest = "[[[(0, 0, 8, 8)]]]" and cats = "[([(0, 0, 8, 8)], [True]), ([(0, 0, 8, 8)], [False])]"
      and results = "[Targets example_img_targets, AllNone 14]" and gt_bboxes_list = "[[], []]"
      and gt_bboxes = "[[], []]" and gt_labels = "[[], []]" and gt_bboxes_ignore = None
      and gt_bboxes_ignore_list = None and gt_labels_list = "Some [[], []]"
      and label_channels = 1 and unmap_outputs = True]
  have l1: "length ([[[(0, 0, 8, 8)]], [[(0, 0, 8, 8)]]] :: box list list list) = length [[[True]], [[False]]]"
    and l2: "length [[[True]], [[False]]] = length [example_meta, small_meta]"
    by simp_all
  have e: "([[[(0, 0, 8, 8)]], [[(0, 0, 8, 8)]]] :: box list list list) = [[(0, 0, 8, 8)]] # [[[(0, 0, 8, 8)]]]"
    by simp
  have m: "map_results (map cat_levels (zip [[[(0, 0, 8, 8)]], [[(0, 0, 8, 8)]]] [[[True]], [[False]]])) =
     Inr [([(0, 0, 8, 8)], [True]), ([(0, 0, 8, 8)], [False])]"
    by (rule example_pair_cat_levels)
  have p: "per_image_results example_head
     (map fst ([([(0, 0, 8, 8)], [True]), ([(0, 0, 8, 8)], [False])] :: (box list \<times> bool list) list))
     (map snd ([([(0, 0, 8, 8)], [True]), ([(0, 0, 8, 8)], [False])] :: (box list \<times> bool list) list))
     (replicate (length [example_meta, small_meta]) (map length ([[(0, 0, 8, 8)]] :: box list list)))
     [[], []]
     (case None of None \<Rightarrow> replicate (length [example_meta, small_meta]) None | Some l \<Rightarrow> map Some l)
     (case Some [[], []] of None \<Rightarrow> replicate (length [example_meta, small_meta]) None
      | Some l \<Rightarrow> map Some l)
     [example_meta, small_meta] 1 True = Inr [Targets example_img_targets, AllNone 14]"
    using example_pair_results [of _ _ 1 True] by simp
  have k: "num_components (map tuple_len [Targets example_img_targets, AllNone 14]) = 14" by simp
  have n: "list_ex is_none_tuple [Targets example_img_targets, AllNone 14]" by simp
  from l1 l2 e m p k n
  have g: "get_targets example_head [[[(0, 0, 8, 8)]], [[(0, 0, 8, 8)]]] [[[True]], [[False]]] [[], []]
     [example_meta, small_meta] None (Some [[], []]) 1 True = Inr None"
    by (intro T [THEN conjunct1, rule_format] conjI)
  have f: "length (featmap_sizes [pair_cls_score]) = ag_num_levels example_head"
    by (simp add: featmap_sizes_def example_head_target_simps)
  have s: "[pair_cls_score] \<noteq> []" by simp
  have a: "get_anchors example_head (featmap_sizes [pair_cls_score]) [example_meta, small_meta] =
     Inr ([[[(0, 0, 8, 8)]], [[(0, 0, 8, 8)]]], [[[True]], [[False]]])"
    by (rule example_get_anchors)
  from g have g': "get_targets example_head [[[(0, 0, 8, 8)]], [[(0, 0, 8, 8)]]] [[[True]], [[False]]] [[], []]
     [example_meta, small_meta] None (Some [[], []])
     (if use_sigmoid_cls example_head then cls_out_channels example_head else 1) True =
     Inr None"
    by (simp add: example_head_simps example_head_target_simps)
  from f s a g'
  have o: "loss example_head example_core single_worker [pair_cls_score] [pair_bbox_pred]
     [[], []] [[], []] [example_meta, small_meta] None = Inr None"
    by (intro T [THEN conjunct2, THEN conjunct2, THEN conjunct1, rule_format] conjI)
  from l1 l2 m p k n g f a o show ?thesis by (intro conjI)
qed

text \<open>
  Claim C4.  The totals \<open>num_total_pos\<close> and \<open>num_total_pos_neg\<close> are the sums over the
  images of \<open>max(count, 1)\<close>, so each is at least the number of images; the normalizer is
  the reduced total floored at 1, so it is at least 1 and not zero.  In every run of
  \<open>loss\<close> the levels are computed with two such normalizers, and flooring the
  \<open>avg_factor\<close> of the classification loss at 1 once more changes nothing.
\<close>

theorem classification_normalizer_floored:
  "(collect_targets ts num_level_anchors = Inr b \<longrightarrow>
      num_total_pos b = sum_list (map (\<lambda>t. max (length (t_pos_inds t)) 1) ts) \<and>
      num_total_pos_neg b = sum_list (map (\<lambda>t. max (length (t_pos_inds_neg t)) 1) ts) \<and>
      length ts \<le> num_total_pos b \<and> length ts \<le> num_total_pos_neg b) \<and>
   num_total_samples_of peers k = max (reduce_mean peers (real k)) 1 \<and>
   1 \<le> num_total_samples_of peers k \<and> num_total_samples_of peers k \<noteq> 0 \<and>
   (loss self c w cls_scores bbox_preds gt_bboxes gt_labels img_metas gt_bboxes_ignore =
      Inr (Some d) \<longrightarrow>
      (\<exists>al vl tg outs.
         get_targets self al vl gt_bboxes img_metas gt_bboxes_ignore (Some gt_labels)
           (if use_sigmoid_cls self then cls_out_channels self else 1) True = Inr (Some tg) \<and>
         loss_levels self c tg cls_scores bbox_preds
           (num_total_samples_of (peers_num_total_pos w) (num_total_pos tg))
           (num_total_samples_of (peers_num_total_pos_neg w) (num_total_pos_neg tg)) =
           Inr outs \<and>
         1 \<le> num_total_samples_of (peers_num_total_pos w) (num_total_pos tg) \<and>
         1 \<le> num_total_samples_of (peers_num_total_pos_neg w) (num_total_pos_neg tg))) \<and>
   loss (self\<lparr>loss_cls := \<lambda>pred target weight avg_factor.
            loss_cls self pred target weight (max avg_factor 1)\<rparr>) c w cls_scores bbox_preds
      gt_bboxes gt_labels img_metas gt_bboxes_ignore =
   loss self c w cls_scores bbox_preds gt_bboxes gt_labels img_metas gt_bboxes_ignore"
proof -
  have A: "num_total_pos b = sum_list (map (\<lambda>t. max (length (t_pos_inds t)) 1) ts) \<and>
      num_total_pos_neg b = sum_list (map (\<lambda>t. max (length (t_pos_inds_neg t)) 1) ts) \<and>
      length ts \<le> num_total_pos b \<and> length ts \<le> num_total_pos_neg b"
    if "collect_targets ts num_level_anchors = Inr b"
    using collect_targets_counts [OF that] floored_sum_ge_length [of ts] by simp
  have B: "num_total_samples_of peers k = max (reduce_mean peers (real k)) 1"
    by (simp add: num_total_samples_of_def)
  have C: "1 \<le> num_total_samples_of peers k" by (rule num_total_samples_of_ge_one)
  then have D: "num_total_samples_of peers k \<noteq> 0" by simp
  have E: "\<exists>al vl tg outs.
         get_targets self al vl gt_bboxes img_metas gt_bboxes_ignore (Some gt_labels)
           (if use_sigmoid_cls self then cls_out_channels self else 1) True = Inr (Some tg) \<and>
         loss_levels self c tg cls_scores bbox_preds
           (num_total_samples_of (peers_num_total_pos w) (num_total_pos tg))
           (num_total_samples_of (peers_num_total_pos_neg w) (num_total_pos_neg tg)) =
           Inr outs \<and>
         1 \<le> num_total_samples_of (peers_num_total_pos w) (num_total_pos tg) \<and>
         1 \<le> num_total_samples_of (peers_num_total_pos_neg w) (num_total_pos_neg tg)"
    if "loss self c w cls_scores bbox_preds gt_bboxes gt_labels img_metas gt_bboxes_ignore =
      Inr (Some d)"
    using loss_SomeD [OF that] num_total_samples_of_ge_one by blast
  from A B C D E loss_floor_cls show ?thesis by blast
qed

text \<open>The batch of the one large enough image, on a single worker.\<close>

theorem classification_normalizer_floored_witness:
  "collect_targets [example_img_targets] [Suc 0] = Inr example_batch_targets \<and>
   loss example_head example_core single_worker [example_cls_score] [example_bbox_pred]
     [[]] [[]] [example_meta] None = Inr (Some example_losses) \<and>
   num_total_pos example_batch_targets = 1 \<and>
   length [example_img_targets] \<le> num_total_pos example_batch_targets \<and>
   (1 :: real) \<le> num_total_samples_of [] 0 \<and>
   (\<exists>tg outs.
      loss_levels example_head example_core tg [example_cls_score] [example_bbox_pred]
        (num_total_samples_of (peers_num_total_pos single_worker) (num_total_pos tg))
        (num_total_samples_of (peers_num_total_pos_neg single_worker) (num_total_pos_neg tg)) =
        Inr outs \<and>
      1 \<le> num_total_samples_of (peers_num_total_pos single_worker) (num_total_pos tg))"
proof -
  note T = classification_normalizer_floored [where ts = "[example_img_targets]"
      and num_level_anchors = "[Suc 0]" and b = example_batch_targets and peers = "[]" and k = 0
      and self = example_head and c = example_core and w = single_worker
      and cls_scores = "[example_cls_score]" and bbox_preds = "[example_bbox_pred]"
      and gt_bboxes = "[[]]" and gt_labels = "[[]]" and img_metas = "[example_meta]"
      and gt_bboxes_ignore = None and d = example_losses]
  from T example_collect_targets
  have a: "length [example_img_targets] \<le> num_total_pos example_batch_targets"
    and b: "(1 :: real) \<le> num_total_samples_of [] 0"
    by blast+
  from T example_loss obtain tg outs where
    l: "loss_levels example_head example_core tg [example_cls_score] [example_bbox_pred]
        (num_total_samples_of (peers_num_total_pos single_worker) (num_total_pos tg))
        (num_total_samples_of (peers_num_total_pos_neg single_worker) (num_total_pos_neg tg)) =
        Inr outs"
    and n: "1 \<le> num_total_samples_of (peers_num_total_pos single_worker) (num_total_pos tg)"
    by blast
  then have e: "\<exists>tg outs.
      loss_levels example_head example_core tg [example_cls_score] [example_bbox_pred]
        (num_total_samples_of (peers_num_total_pos single_worker) (num_total_pos tg))
        (num_total_samples_of (peers_num_total_pos_neg single_worker) (num_total_pos_neg tg)) =
        Inr outs \<and>
      1 \<le> num_total_samples_of (peers_num_total_pos single_worker) (num_total_pos tg)"
    by (intro exI conjI)
  have c: "num_total_pos example_batch_targets = 1"
    by (simp add: example_batch_targets_def)
  from example_collect_targets example_loss c a b e show ?thesis by (intro conjI)
qed

text \<open>The batch of the one large enough image: one level, whose weight sums are zero.\<close>

theorem losses_divided_by_common_weight_sum_witness:
  "loss example_head example_core single_worker [example_cls_score] [example_bbox_pred]
     [[]] [[]] [example_meta] None = Inr (Some example_losses) \<and>
   (\<exists>outs :: (real \<times> real \<times> real \<times> real \<times> real \<times> real \<times> real) list.
      losses_bbox example_losses =
      map (\<lambda>(lc, lb, ld, ws, lbn, ldn, wsn). true_divide lb
        (reduce_mean (peers_avg_factor single_worker)
           (sum_list (map (\<lambda>(lc, lb, ld, ws, lbn, ldn, wsn). ws) outs)))) outs)"
proof -
  from losses_divided_by_common_weight_sum [OF example_loss]
  obtain outs :: "(real \<times> real \<times> real \<times> real \<times> real \<times> real \<times> real) list"
    where "losses_bbox example_losses =
      map (\<lambda>(lc, lb, ld, ws, lbn, ldn, wsn). true_divide lb
        (reduce_mean (peers_avg_factor single_worker)
           (sum_list (map (\<lambda>(lc, lb, ld, ws, lbn, ldn, wsn). ws) outs)))) outs"
    by (elim exE conjE)
  then have "\<exists>outs :: (real \<times> real \<times> real \<times> real \<times> real \<times> real \<times> real) list.
      losses_bbox example_losses =
      map (\<lambda>(lc, lb, ld, ws, lbn, ldn, wsn). true_divide lb
        (reduce_mean (peers_avg_factor single_worker)
           (sum_list (map (\<lambda>(lc, lb, ld, ws, lbn, ldn, wsn). ws) outs)))) outs"
    by (rule exI)
  with example_loss show ?thesis by (rule conjI)
qed

text \<open>
  The same batch: no level has a foreground anchor or a positive \<open>assigned_neg\<close>, the
  worker is alone, and every box and distribution loss is undefined.
\<close>

theorem weight_sum_denominator_unguarded_witness:
  "loss example_head example_core single_worker [example_cls_score] [example_bbox_pred]
     [[]] [[]] [example_meta] None = Inr (Some example_losses) \<and>
   labels_list example_batch_targets = [[[1]]] \<and>
   fg_inds (concat [[1]]) (num_classes example_head) = [] \<and>
   assigned_neg_list example_batch_targets = [[[0]]] \<and> \<not> (0 :: real) < 0 \<and>
   peers_avg_factor single_worker = [] \<and> peers_avg_factor_neg single_worker = [] \<and>
   (\<exists>outs :: (real \<times> real \<times> real \<times> real \<times> real \<times> real \<times> real) list. outs \<noteq> [] \<and>
      sum_list (map (\<lambda>(lc, lb, ld, ws, lbn, ldn, wsn). ws) outs) = (0 :: real) \<and>
      losses_bbox example_losses = map (\<lambda>out. NaN) outs \<and>
      losses_dfl example_losses = map (\<lambda>out. NaN) outs \<and>
      sum_list (map (\<lambda>(lc, lb, ld, ws, lbn, ldn, wsn). wsn) outs) = (0 :: real))"
proof -
  let ?ws = "\<lambda>(lc :: real, lb :: real, ld :: real, ws :: real, lbn :: real, ldn :: real,
    wsn :: real). ws"
  let ?wsn = "\<lambda>(lc :: real, lb :: real, ld :: real, ws :: real, lbn :: real, ldn :: real,
    wsn :: real). wsn"
  from weight_sum_denominator_unguarded [OF example_loss]
  obtain al vl tg and outs :: "(real \<times> real \<times> real \<times> real \<times> real \<times> real \<times> real) list" where
    a: "get_anchors example_head (featmap_sizes [example_cls_score]) [example_meta] =
      Inr (al, vl)"
    and g: "get_targets example_head al vl [[]] [example_meta] None (Some [[]])
      (if use_sigmoid_cls example_head then cls_out_channels example_head else 1) True =
      Inr (Some tg)"
    and ne: "outs \<noteq> []"
    and P: "(\<forall>labels\<in>set (labels_list tg).
         fg_inds (concat labels) (num_classes example_head) = []) \<longrightarrow>
       sum_list (map ?ws outs) = 0 \<and>
       losses_bbox example_losses =
         map (\<lambda>out. true_divide 0 (reduce_mean (peers_avg_factor single_worker) 0)) outs \<and>
       losses_dfl example_losses =
         map (\<lambda>out. true_divide 0 (reduce_mean (peers_avg_factor single_worker) 0)) outs \<and>
       (peers_avg_factor single_worker = [] \<longrightarrow>
          losses_bbox example_losses = map (\<lambda>out. NaN) outs \<and>
          losses_dfl example_losses = map (\<lambda>out. NaN) outs)"
    and Q: "(\<forall>an\<in>set (assigned_neg_list tg). \<forall>a\<in>set (concat an). \<not> 0 < a) \<longrightarrow>
       sum_list (map ?wsn outs) = 0 \<and>
       losses_bbox_neg example_losses = map (\<lambda>(lc, lb, ld, ws, lbn, ldn, wsn).
          true_divide lbn (reduce_mean (peers_avg_factor_neg single_worker) 0)) outs \<and>
       losses_dfl_neg example_losses = map (\<lambda>(lc, lb, ld, ws, lbn, ldn, wsn).
          true_divide ldn (reduce_mean (peers_avg_factor_neg single_worker) 0)) outs \<and>
       (peers_avg_factor_neg single_worker = [] \<longrightarrow>
          (\<forall>x\<in>set (losses_bbox_neg example_losses) \<union> set (losses_dfl_neg example_losses).
             \<forall>r. x \<noteq> Fin r))"
    by (elim exE conjE)
  from a have "al = [[[(0, 0, 8, 8)]]]" "vl = [[[True]]]"
    by (simp_all add: example_get_anchors)
  with g have tg: "tg = example_batch_targets"
    by (simp add: example_get_targets example_head_simps example_head_target_simps
        del: One_nat_def)
  have l: "labels_list example_batch_targets = [[[1]]]"
    and n: "assigned_neg_list example_batch_targets = [[[0]]]"
    by (simp_all add: example_batch_targets_def)
  have f: "fg_inds (concat [[1]]) (num_classes example_head) = []"
    by (simp add: example_head_simps fg_inds_bg)
  have p: "peers_avg_factor single_worker = []" "peers_avg_factor_neg single_worker = []"
    by (simp_all add: single_worker_def)
  from P f p(1) have 1: "sum_list (map ?ws outs) = 0"
    "losses_bbox example_losses = map (\<lambda>out. NaN) outs"
    "losses_dfl example_losses = map (\<lambda>out. NaN) outs"
    unfolding tg l by simp_all
  from Q have 2: "sum_list (map ?wsn outs) = 0"
    unfolding tg n by simp
  from ne 1 2 have "\<exists>outs :: (real \<times> real \<times> real \<times> real \<times> real \<times> real \<times> real) list.
      outs \<noteq> [] \<and>
      sum_list (map ?ws outs) = (0 :: real) \<and>
      losses_bbox example_losses = map (\<lambda>out. NaN) outs \<and>
      losses_dfl example_losses = map (\<lambda>out. NaN) outs \<and>
      sum_list (map ?wsn outs) = (0 :: real)"
    by (intro exI conjI)
  with example_loss l f n p show ?thesis by simp
qed

end
